(* ===== verification/Prelude.thy ===== *)
theory Prelude
  imports Main
begin

text \<open>
  Shared vocabulary of the development: the names of the model's basic types, the
  JavaScript idioms the sources use on optional strings (\<open>x || d\<close>), and the list
  operations the relational store is built from (the values of a nullable column,
  an \<open>UPDATE \<dots> WHERE\<close> over a table).  The lemmas here are generic; they are
  declared \<open>[simp]\<close> or collected in the named collections below so that the
  component theories' proofs use them by name.
\<close>

named_theorems store_simps "characteristic equations of the store operations"
named_theorems exec_simps "characteristic equations of statement execution"

type_synonym uuid = nat
type_synonym timestamp = nat
type_synonym env = "string \<Rightarrow> string option"

section \<open>Definitions\<close>

subsection \<open>JavaScript truthiness on optional strings\<close>

text \<open>
  \<open>process.env.X || d\<close> and \<open>searchParams.get(k) || d\<close>: an absent value
  (\<open>undefined\<close>, \<open>null\<close>) and the empty string are both falsy and give \<open>d\<close>.
\<close>

definition js_or :: "string option \<Rightarrow> string \<Rightarrow> string" where
  "js_or x d = (case x of None \<Rightarrow> d | Some v \<Rightarrow> (if v = [] then d else v))"

definition js_truthy :: "string option \<Rightarrow> bool" where
  "js_truthy x = (case x of None \<Rightarrow> False | Some v \<Rightarrow> v \<noteq> [])"

subsection \<open>Values of a nullable column\<close>

text \<open>
  The values present in a nullable column, in row order.  A \<open>UNIQUE\<close> constraint on
  a nullable column compares only these: PostgreSQL lets any number of rows hold
  \<open>NULL\<close>.
\<close>

primrec present_values :: "('a \<Rightarrow> 'b option) \<Rightarrow> 'a list \<Rightarrow> 'b list" where
  "present_values f [] = []"
| "present_values f (x # xs) =
     (case f x of None \<Rightarrow> present_values f xs | Some v \<Rightarrow> v # present_values f xs)"

subsection \<open>UPDATE \<dots> WHERE over a table\<close>

definition update_where :: "('a \<Rightarrow> bool) \<Rightarrow> ('a \<Rightarrow> 'a) \<Rightarrow> 'a list \<Rightarrow> 'a list" where
  "update_where P f xs = map (\<lambda>x. if P x then f x else x) xs"

section \<open>Lemmas\<close>

subsection \<open>Truthiness\<close>

lemma js_or_None [simp]: "js_or None d = d"
  by (simp add: js_or_def)

lemma js_or_Some [simp]: "js_or (Some v) d = (if v = [] then d else v)"
  by (simp add: js_or_def)

lemma js_truthy_simps [simp]:
  "js_truthy None = False" "js_truthy (Some v) = (v \<noteq> [])"
  by (simp_all add: js_truthy_def)

lemma js_or_truthy: "js_or x d = (if js_truthy x then the x else d)"
  by (cases x) simp_all

subsection \<open>Nullable columns\<close>

lemma present_values_append [simp]:
  "present_values f (xs @ ys) = present_values f xs @ present_values f ys"
  by (induction xs) (auto split: option.splits)

lemma set_present_values [simp]:
  "set (present_values f xs) = {v. \<exists>x \<in> set xs. f x = Some v}"
  by (induction xs) (auto split: option.splits)

lemma present_values_cong:
  "(\<And>x. x \<in> set xs \<Longrightarrow> f x = g x) \<Longrightarrow> present_values f xs = present_values g xs"
  by (induction xs) (auto split: option.splits)

subsection \<open>Updates and lookups\<close>

lemma update_where_simps [simp]:
  "update_where P f [] = []"
  "update_where P f (x # xs) = (if P x then f x else x) # update_where P f xs"
  by (simp_all add: update_where_def)

lemma length_update_where [simp]: "length (update_where P f xs) = length xs"
  by (simp add: update_where_def)

lemma map_update_where_keep:
  "(\<And>x. P x \<Longrightarrow> g (f x) = g x) \<Longrightarrow> map g (update_where P f xs) = map g xs"
  by (induction xs) auto

lemma update_where_none:
  "\<forall>x \<in> set xs. \<not> P x \<Longrightarrow> update_where P f xs = xs"
  by (induction xs) auto

lemma update_where_id:
  "(\<And>x. P x \<Longrightarrow> f x = x) \<Longrightarrow> update_where P f xs = xs"
  by (induction xs) auto

lemma set_update_where:
  "set (update_where P f xs) = {f x |x. x \<in> set xs \<and> P x} \<union> {x \<in> set xs. \<not> P x}"
  by (induction xs) auto

lemma distinct_key_filter_le1:
  "distinct (map g xs) \<Longrightarrow> length (filter (\<lambda>x. g x = v) xs) \<le> 1"
  by (induction xs) (auto simp: filter_empty_conv image_iff)

lemma distinct_present_values_filter:
  "distinct (present_values g xs) \<Longrightarrow> distinct (present_values g (filter Q xs))"
  by (induction xs) (auto split: option.splits)

text \<open>
  Updating the one row a unique key selects keeps a nullable unique column distinct,
  when the new value clashes with none of the other rows.
\<close>

lemma distinct_present_values_update_one:
  assumes "length (filter P xs) \<le> 1"
    and "distinct (present_values g (filter (\<lambda>x. \<not> P x) xs))"
    and "\<And>x v. x \<in> set xs \<Longrightarrow> P x \<Longrightarrow> g (f x) = Some v \<Longrightarrow>
           v \<notin> set (present_values g (filter (\<lambda>x. \<not> P x) xs))"
  shows "distinct (present_values g (update_where P f xs))"
  using assms
proof (induction xs)
  case Nil
  then show ?case by simp
next
  case (Cons x xs)
  show ?case
  proof (cases "P x")
    case True
    with Cons.prems(1) have "\<forall>y \<in> set xs. \<not> P y"
      by (simp add: filter_empty_conv)
    then have "update_where P f xs = xs" and "filter (\<lambda>x. \<not> P x) xs = xs"
      by (simp_all add: update_where_none)
    with True Cons.prems(2,3) show ?thesis
      by (auto split: option.splits)
  next
    case False
    have IH: "distinct (present_values g (update_where P f xs))"
      using Cons.prems False by (intro Cons.IH) (auto split: option.splits)
    show ?thesis
      using False Cons.prems IH by (auto simp: set_update_where split: option.splits)
  qed
qed

lemma distinct_key_filter_single:
  "distinct (map k xs) \<Longrightarrow> a \<in> set xs \<Longrightarrow> filter (\<lambda>x. k x = k a) xs = [a]"
proof (induction xs)
  case Nil
  then show ?case by simp
next
  case (Cons x xs)
  show ?case
  proof (cases "x = a")
    case True
    with Cons.prems have "filter (\<lambda>y. k y = k a) xs = []"
      by (auto simp: filter_empty_conv image_iff)
    with True show ?thesis by simp
  next
    case False
    with Cons.prems have "k x \<noteq> k a" by (auto simp: image_iff)
    with False Cons show ?thesis by simp
  qed
qed

lemma concat_pages:
  "concat (map (\<lambda>i. take l (drop (i * l) xs)) [0..<k]) = take (k * l) xs"
proof (induction k)
  case 0
  then show ?case by simp
next
  case (Suc k)
  have "take (Suc k * l) xs = take (k * l) xs @ take l (drop (k * l) xs)"
    by (metis take_add mult_Suc add.commute)
  with Suc show ?case by simp
qed

lemma ceil_div_bounds:
  fixes n l :: int
  assumes "0 < l"
  shows "n \<le> - ((- n) div l) * l" and "(- ((- n) div l) - 1) * l < n"
proof -
  define q where "q = (- n) div l"
  define r where "r = (- n) mod l"
  have eq: "q * l + r = - n" unfolding q_def r_def by (rule div_mult_mod_eq)
  have r: "0 \<le> r" "r < l" unfolding r_def using assms by simp_all
  have a: "- q * l = n + r" using eq by (simp add: algebra_simps)
  have b: "(- q - 1) * l = n + r - l" using eq by (simp add: algebra_simps)
  show "n \<le> - ((- n) div l) * l" "(- ((- n) div l) - 1) * l < n"
    unfolding q_def[symmetric] using a b r by linarith+
qed

lemma present_values_update_where_keep:
  "(\<And>x. P x \<Longrightarrow> g (f x) = g x) \<Longrightarrow> present_values g (update_where P f xs) = present_values g xs"
  by (induction xs) (auto split: option.splits)

lemma filter_update_where_single:
  assumes "distinct (map k xs)" and "a \<in> set xs" and "\<And>x. k (f x) = k x"
  shows "filter (\<lambda>x. k x = k a) (update_where (\<lambda>x. k x = k a) f xs) = [f a]"
proof -
  have "map k (update_where (\<lambda>x. k x = k a) f xs) = map k xs"
    using assms(3) by (simp add: map_update_where_keep)
  moreover have "f a \<in> set (update_where (\<lambda>x. k x = k a) f xs)"
    using assms(2) by (auto simp: set_update_where)
  ultimately show ?thesis
    using distinct_key_filter_single[of k _ "f a"] assms(1,3) by metis
qed

lemma find_None_all: "find P xs = None \<longleftrightarrow> (\<forall>x \<in> set xs. \<not> P x)"
  by (induction xs) auto

lemma find_Some_mem: "find P xs = Some x \<Longrightarrow> x \<in> set xs \<and> P x"
  by (induction xs) (auto split: if_splits)

end
