(* ===== verification/Store.thy ===== *)
theory Store
  imports Prelude
begin

text \<open>
  The relational store the program runs against: the three tables that
  \<^verbatim>\<open>src/scripts/migrate.js\<close> creates (\<open>createSchema\<close>, lines 78--108), the
  \<open>pgcrypto\<close> extension, and the semantics of every SQL statement the migration
  issues: \<open>CREATE \<dots> IF NOT EXISTS\<close>, \<open>DROP TABLE IF EXISTS \<dots> CASCADE\<close> and the two
  \<open>INSERT \<dots> ON CONFLICT (email)\<close> forms of \<open>seedAdmin\<close> and \<open>seedClients\<close>.
  A table is \<open>None\<close> when it does not exist and \<open>Some rows\<close> (rows in insertion
  order) when it does.  \<open>gen_random_uuid()\<close> is a fresh identifier, modelled by the
  counter \<open>next_uuid\<close>; \<open>NOW()\<close> is the transaction's timestamp \<open>clock\<close>.
  Statements return \<open>sql_error + db\<close>: \<open>Inl\<close> is the error PostgreSQL raises.
  The invariant \<open>wf_db\<close> collects the constraints the DDL declares (primary keys,
  \<open>UNIQUE\<close> columns, the \<open>client_id\<close> foreign key); every statement keeps it.
\<close>

section \<open>Rows and the store\<close>

record client_row =
  cl_id :: uuid
  cl_external_id :: "string option"
  cl_name :: string
  cl_email :: string
  cl_phone :: "string option"
  cl_created_at :: timestamp
  cl_updated_at :: timestamp

record appointment_row =
  ap_id :: uuid
  ap_external_id :: "string option"
  ap_client_id :: "uuid option"
  ap_title :: string
  ap_description :: "string option"
  ap_date :: int
  ap_duration :: "int option"
  ap_status :: "string option"
  ap_created_at :: timestamp
  ap_updated_at :: timestamp

record admin_row =
  ad_id :: uuid
  ad_email :: string
  ad_password_hash :: string
  ad_name :: string
  ad_created_at :: timestamp

text \<open>
  \<open>appointments_fk\<close> records whether the foreign key \<open>client_id REFERENCES
  clients(id) ON DELETE CASCADE\<close> is in force: \<open>DROP TABLE clients CASCADE\<close> drops
  that constraint (not the appointments table).
\<close>

record db =
  pgcrypto_installed :: bool
  pgcrypto_available :: bool
  clients :: "client_row list option"
  appointments :: "appointment_row list option"
  appointments_fk :: bool
  admins :: "admin_row list option"
  next_uuid :: uuid
  clock :: timestamp

datatype sql_error =
    UniqueViolation string
  | UndefinedTable string
  | ExtensionUnavailable string
  | ForeignKeyViolation string
  | InFailedTransaction
  | InvalidTextRepresentation string
  | NumericValueOutOfRange string
  | InvalidRowCountInLimit
  | InvalidRowCountInOffset
  | UndefinedParameter nat
  | BindMismatch nat nat
  | NotNullViolation string

datatype on_conflict = DoNothing | DoUpdate

text \<open>
  The statements of the migration, with their parameters (\<open>$1, $2, \<dots>\<close>) as
  constructor arguments: \<open>InsertAdmin oc email hash name\<close> and
  \<open>InsertClient oc external_id name email phone\<close>.  \<open>TxBegin\<close>, \<open>TxCommit\<close>
  and \<open>TxRollback\<close> are \<open>BEGIN\<close>, \<open>COMMIT\<close>, \<open>ROLLBACK\<close>; their meaning depends
  on the session, and is given in theory \<open>Adapter\<close>.
\<close>

datatype stmt =
    CreateExtensionPgcrypto
  | CreateTableClients
  | CreateTableAppointments
  | CreateTableAdmins
  | DropTableAppointments
  | DropTableClients
  | DropTableAdmins
  | InsertAdmin on_conflict string string string
  | InsertClient on_conflict string string string string
  | TxBegin
  | TxCommit
  | TxRollback

section \<open>Schema statements\<close>

definition create_extension_pgcrypto :: "db \<Rightarrow> sql_error + db" where
  "create_extension_pgcrypto d =
     (if pgcrypto_installed d then Inr d
      else if pgcrypto_available d then Inr (d\<lparr>pgcrypto_installed := True\<rparr>)
      else Inl (ExtensionUnavailable ''pgcrypto''))"

definition create_table_clients :: "db \<Rightarrow> sql_error + db" where
  "create_table_clients d =
     (case clients d of
        Some _ \<Rightarrow> Inr d
      | None \<Rightarrow> Inr (d\<lparr>clients := Some []\<rparr>))"

definition create_table_appointments :: "db \<Rightarrow> sql_error + db" where
  "create_table_appointments d =
     (case appointments d of
        Some _ \<Rightarrow> Inr d
      | None \<Rightarrow>
          (case clients d of
             None \<Rightarrow> Inl (UndefinedTable ''clients'')
           | Some _ \<Rightarrow> Inr (d\<lparr>appointments := Some [], appointments_fk := True\<rparr>)))"

definition create_table_admins :: "db \<Rightarrow> sql_error + db" where
  "create_table_admins d =
     (case admins d of
        Some _ \<Rightarrow> Inr d
      | None \<Rightarrow> Inr (d\<lparr>admins := Some []\<rparr>))"

definition drop_table_appointments :: "db \<Rightarrow> db" where
  "drop_table_appointments d = d\<lparr>appointments := None, appointments_fk := False\<rparr>"

definition drop_table_clients :: "db \<Rightarrow> db" where
  "drop_table_clients d = d\<lparr>clients := None, appointments_fk := False\<rparr>"

definition drop_table_admins :: "db \<Rightarrow> db" where
  "drop_table_admins d = d\<lparr>admins := None\<rparr>"

section \<open>The seeding upserts\<close>

definition new_admin :: "db \<Rightarrow> string \<Rightarrow> string \<Rightarrow> string \<Rightarrow> admin_row" where
  "new_admin d email hash name =
     \<lparr>ad_id = next_uuid d, ad_email = email, ad_password_hash = hash, ad_name = name,
      ad_created_at = clock d\<rparr>"

text \<open>
  \<open>INSERT INTO admins (email,password_hash,name) VALUES ($1,$2,$3) ON CONFLICT
  (email) DO NOTHING\<close> or \<open>DO UPDATE SET password_hash=EXCLUDED.password_hash,
  name=EXCLUDED.name\<close>.
\<close>

definition insert_admin ::
  "on_conflict \<Rightarrow> string \<Rightarrow> string \<Rightarrow> string \<Rightarrow> db \<Rightarrow> sql_error + db" where
  "insert_admin oc email hash name d =
     (case admins d of
        None \<Rightarrow> Inl (UndefinedTable ''admins'')
      | Some rs \<Rightarrow>
          (if email \<in> set (map ad_email rs) then
             (case oc of
                DoNothing \<Rightarrow> Inr d
              | DoUpdate \<Rightarrow>
                  Inr (d\<lparr>admins := Some (update_where (\<lambda>r. ad_email r = email)
                         (\<lambda>r. r\<lparr>ad_password_hash := hash, ad_name := name\<rparr>) rs)\<rparr>))
           else Inr (d\<lparr>admins := Some (rs @ [new_admin d email hash name]),
                      next_uuid := Suc (next_uuid d)\<rparr>)))"

definition new_client :: "db \<Rightarrow> string \<Rightarrow> string \<Rightarrow> string \<Rightarrow> string \<Rightarrow> client_row" where
  "new_client d ext name email phone =
     \<lparr>cl_id = next_uuid d, cl_external_id = Some ext, cl_name = name, cl_email = email,
      cl_phone = Some phone, cl_created_at = clock d, cl_updated_at = clock d\<rparr>"

text \<open>
  \<open>INSERT INTO clients (external_id,name,email,phone) VALUES ($1,$2,$3,$4) ON
  CONFLICT (email) DO NOTHING\<close> or \<open>DO UPDATE SET external_id=EXCLUDED.external_id,
  name=EXCLUDED.name, phone=EXCLUDED.phone\<close>.  The conflict target is \<open>email\<close>
  only: a clash on the other unique column, \<open>external_id\<close>, is not arbitrated and
  raises a unique violation, both for a new row and for the updated one.  The update
  does not touch \<open>updated_at\<close> (no trigger is declared).
\<close>

definition insert_client ::
  "on_conflict \<Rightarrow> string \<Rightarrow> string \<Rightarrow> string \<Rightarrow> string \<Rightarrow> db \<Rightarrow> sql_error + db" where
  "insert_client oc ext name email phone d =
     (case clients d of
        None \<Rightarrow> Inl (UndefinedTable ''clients'')
      | Some rs \<Rightarrow>
          (if email \<in> set (map cl_email rs) then
             (case oc of
                DoNothing \<Rightarrow> Inr d
              | DoUpdate \<Rightarrow>
                  (if ext \<in> set (present_values cl_external_id
                                  (filter (\<lambda>r. cl_email r \<noteq> email) rs))
                   then Inl (UniqueViolation ''clients_external_id_key'')
                   else Inr (d\<lparr>clients := Some (update_where (\<lambda>r. cl_email r = email)
                          (\<lambda>r. r\<lparr>cl_external_id := Some ext, cl_name := name,
                                 cl_phone := Some phone\<rparr>) rs)\<rparr>)))
           else if ext \<in> set (present_values cl_external_id rs)
           then Inl (UniqueViolation ''clients_external_id_key'')
           else Inr (d\<lparr>clients := Some (rs @ [new_client d ext name email phone]),
                      next_uuid := Suc (next_uuid d)\<rparr>)))"

section \<open>One statement\<close>

fun run_stmt :: "stmt \<Rightarrow> db \<Rightarrow> sql_error + db" where
  "run_stmt CreateExtensionPgcrypto d = create_extension_pgcrypto d"
| "run_stmt CreateTableClients d = create_table_clients d"
| "run_stmt CreateTableAppointments d = create_table_appointments d"
| "run_stmt CreateTableAdmins d = create_table_admins d"
| "run_stmt DropTableAppointments d = Inr (drop_table_appointments d)"
| "run_stmt DropTableClients d = Inr (drop_table_clients d)"
| "run_stmt DropTableAdmins d = Inr (drop_table_admins d)"
| "run_stmt (InsertAdmin oc email hash name) d = insert_admin oc email hash name d"
| "run_stmt (InsertClient oc ext name email phone) d = insert_client oc ext name email phone d"
| "run_stmt TxBegin d = Inr d"
| "run_stmt TxCommit d = Inr d"
| "run_stmt TxRollback d = Inr d"

fun is_tx_control :: "stmt \<Rightarrow> bool" where
  "is_tx_control TxBegin = True"
| "is_tx_control TxCommit = True"
| "is_tx_control TxRollback = True"
| "is_tx_control _ = False"

text \<open>A sequence of statements, stopping at the first error.\<close>

fun run_stmts :: "stmt list \<Rightarrow> db \<Rightarrow> sql_error + db" where
  "run_stmts [] d = Inr d"
| "run_stmts (s # ss) d = (case run_stmt s d of Inl e \<Rightarrow> Inl e | Inr d' \<Rightarrow> run_stmts ss d')"

section \<open>The constraints of the schema\<close>

definition clients_wf :: "uuid \<Rightarrow> client_row list \<Rightarrow> bool" where
  "clients_wf n rs \<longleftrightarrow>
     distinct (map cl_id rs) \<and> distinct (map cl_email rs)
     \<and> distinct (present_values cl_external_id rs) \<and> list_all (\<lambda>i. i < n) (map cl_id rs)"

definition admins_wf :: "uuid \<Rightarrow> admin_row list \<Rightarrow> bool" where
  "admins_wf n rs \<longleftrightarrow>
     distinct (map ad_id rs) \<and> distinct (map ad_email rs) \<and> list_all (\<lambda>i. i < n) (map ad_id rs)"

definition refs_ok :: "uuid list \<Rightarrow> appointment_row list \<Rightarrow> bool" where
  "refs_ok ids as \<longleftrightarrow>
     list_all (\<lambda>a. case ap_client_id a of None \<Rightarrow> True | Some c \<Rightarrow> c \<in> set ids) as"

definition appointments_wf :: "uuid \<Rightarrow> appointment_row list \<Rightarrow> bool" where
  "appointments_wf n as \<longleftrightarrow>
     distinct (map ap_id as) \<and> distinct (present_values ap_external_id as)
     \<and> list_all (\<lambda>i. i < n) (map ap_id as)"

definition client_ids :: "db \<Rightarrow> uuid list" where
  "client_ids d = (case clients d of None \<Rightarrow> [] | Some rs \<Rightarrow> map cl_id rs)"

definition clients_ok :: "db \<Rightarrow> bool" where
  "clients_ok d = (case clients d of None \<Rightarrow> True | Some rs \<Rightarrow> clients_wf (next_uuid d) rs)"

definition admins_ok :: "db \<Rightarrow> bool" where
  "admins_ok d = (case admins d of None \<Rightarrow> True | Some rs \<Rightarrow> admins_wf (next_uuid d) rs)"

definition appointments_ok :: "db \<Rightarrow> bool" where
  "appointments_ok d =
     (case appointments d of
        None \<Rightarrow> True
      | Some as \<Rightarrow> appointments_wf (next_uuid d) as
                   \<and> (appointments_fk d \<longrightarrow> refs_ok (client_ids d) as))"

definition wf_db :: "db \<Rightarrow> bool" where
  "wf_db d \<longleftrightarrow> clients_ok d \<and> admins_ok d \<and> appointments_ok d"

text \<open>A freshly created database: no tables, \<open>pgcrypto\<close> installable.\<close>

definition fresh_db :: db where
  "fresh_db =
     \<lparr>pgcrypto_installed = False, pgcrypto_available = True, clients = None,
      appointments = None, appointments_fk = False, admins = None, next_uuid = 0, clock = 0\<rparr>"

section \<open>Every statement keeps the constraints\<close>

lemma clients_wf_mono: "clients_wf n rs \<Longrightarrow> n \<le> m \<Longrightarrow> clients_wf m rs"
  by (auto simp: clients_wf_def list_all_iff)

lemma admins_wf_mono: "admins_wf n rs \<Longrightarrow> n \<le> m \<Longrightarrow> admins_wf m rs"
  by (auto simp: admins_wf_def list_all_iff)

lemma appointments_wf_mono: "appointments_wf n as \<Longrightarrow> n \<le> m \<Longrightarrow> appointments_wf m as"
  by (auto simp: appointments_wf_def list_all_iff)

lemma refs_ok_mono: "refs_ok ids as \<Longrightarrow> set ids \<subseteq> set ids' \<Longrightarrow> refs_ok ids' as"
  by (auto simp: refs_ok_def list_all_iff split: option.splits)

text \<open>Frame lemmas: each table's constraints read only its own fields and the id counter.\<close>

lemma clients_ok_frame:
  "clients_ok d \<Longrightarrow> clients d' = clients d \<Longrightarrow> next_uuid d \<le> next_uuid d' \<Longrightarrow> clients_ok d'"
  by (auto simp: clients_ok_def split: option.splits intro: clients_wf_mono)

lemma admins_ok_frame:
  "admins_ok d \<Longrightarrow> admins d' = admins d \<Longrightarrow> next_uuid d \<le> next_uuid d' \<Longrightarrow> admins_ok d'"
  by (auto simp: admins_ok_def split: option.splits intro: admins_wf_mono)

lemma appointments_ok_frame:
  "appointments_ok d \<Longrightarrow> appointments d' = appointments d \<Longrightarrow>
   appointments_fk d' = appointments_fk d \<Longrightarrow> next_uuid d \<le> next_uuid d' \<Longrightarrow>
   set (client_ids d) \<subseteq> set (client_ids d') \<Longrightarrow> appointments_ok d'"
  by (auto simp: appointments_ok_def split: option.splits
      intro: appointments_wf_mono refs_ok_mono)

lemma appointments_ok_no_fk:
  "appointments_ok d \<Longrightarrow> appointments d' = appointments d \<Longrightarrow> \<not> appointments_fk d' \<Longrightarrow>
   next_uuid d \<le> next_uuid d' \<Longrightarrow> appointments_ok d'"
  by (auto simp: appointments_ok_def split: option.splits intro: appointments_wf_mono)

lemma tables_absent_ok:
  "clients d = None \<Longrightarrow> clients_ok d"
  "admins d = None \<Longrightarrow> admins_ok d"
  "appointments d = None \<Longrightarrow> appointments_ok d"
  by (simp_all add: clients_ok_def admins_ok_def appointments_ok_def)

lemma wf_db_frame:
  assumes "wf_db d" and "clients d' = clients d" and "admins d' = admins d"
    and "appointments d' = appointments d" and "appointments_fk d' = appointments_fk d"
    and "next_uuid d \<le> next_uuid d'"
  shows "wf_db d'"
  using assms unfolding wf_db_def
  by (auto elim: clients_ok_frame admins_ok_frame appointments_ok_frame simp: client_ids_def)

lemma create_extension_pgcrypto_wf:
  "create_extension_pgcrypto d = Inr d' \<Longrightarrow> wf_db d \<Longrightarrow> wf_db d'"
  unfolding create_extension_pgcrypto_def
  by (auto split: if_splits elim!: wf_db_frame)

lemma create_table_clients_wf:
  assumes "create_table_clients d = Inr d'" and "wf_db d"
  shows "wf_db d'"
proof (cases "clients d")
  case None
  then have d': "d' = d\<lparr>clients := Some []\<rparr>"
    using assms(1) by (simp add: create_table_clients_def)
  have "clients_ok d'" by (simp add: d' clients_ok_def clients_wf_def)
  moreover have "admins_ok d'"
    using assms(2) by (auto simp: wf_db_def d' elim: admins_ok_frame)
  moreover have "appointments_ok d'"
    using assms(2) None by (auto simp: wf_db_def d' client_ids_def elim: appointments_ok_frame)
  ultimately show ?thesis by (simp add: wf_db_def)
next
  case (Some rs)
  with assms show ?thesis by (simp add: create_table_clients_def)
qed

lemma create_table_appointments_wf:
  assumes "create_table_appointments d = Inr d'" and "wf_db d"
  shows "wf_db d'"
proof (cases "appointments d")
  case None
  with assms(1) have d': "d' = d\<lparr>appointments := Some [], appointments_fk := True\<rparr>"
    by (auto simp: create_table_appointments_def split: option.splits)
  have "appointments_ok d'"
    by (simp add: d' appointments_ok_def appointments_wf_def refs_ok_def)
  moreover have "clients_ok d'" "admins_ok d'"
    using assms(2) by (auto simp: wf_db_def d' elim: admins_ok_frame clients_ok_frame)
  ultimately show ?thesis by (simp add: wf_db_def)
next
  case (Some rs)
  with assms show ?thesis by (simp add: create_table_appointments_def)
qed

lemma create_table_admins_wf:
  assumes "create_table_admins d = Inr d'" and "wf_db d"
  shows "wf_db d'"
proof (cases "admins d")
  case None
  then have d': "d' = d\<lparr>admins := Some []\<rparr>"
    using assms(1) by (simp add: create_table_admins_def)
  have "admins_ok d'" by (simp add: d' admins_ok_def admins_wf_def)
  moreover have "clients_ok d'" "appointments_ok d'"
    using assms(2) by (auto simp: wf_db_def d' client_ids_def
        elim: clients_ok_frame appointments_ok_frame)
  ultimately show ?thesis by (simp add: wf_db_def)
next
  case (Some rs)
  with assms show ?thesis by (simp add: create_table_admins_def)
qed

lemma drop_tables_wf:
  "wf_db d \<Longrightarrow> wf_db (drop_table_appointments d)"
  "wf_db d \<Longrightarrow> wf_db (drop_table_clients d)"
  "wf_db d \<Longrightarrow> wf_db (drop_table_admins d)"
  unfolding wf_db_def drop_table_appointments_def drop_table_clients_def drop_table_admins_def
  by (auto simp: tables_absent_ok client_ids_def
      elim: clients_ok_frame admins_ok_frame appointments_ok_frame appointments_ok_no_fk)

lemma insert_admin_wf:
  assumes ins: "insert_admin oc email hash name d = Inr d'" and wf: "wf_db d"
  shows "wf_db d'"
proof -
  obtain rs where rs: "admins d = Some rs"
    using ins by (cases "admins d") (auto simp: insert_admin_def)
  have rs_wf: "admins_wf (next_uuid d) rs"
    using wf rs by (simp add: wf_db_def admins_ok_def)
  show ?thesis
  proof (cases "email \<in> set (map ad_email rs)")
    case True
    show ?thesis
    proof (cases oc)
      case DoNothing
      with ins rs True have "d' = d" by (simp add: insert_admin_def)
      with wf show ?thesis by simp
    next
      case DoUpdate
      let ?rs' = "update_where (\<lambda>r. ad_email r = email)
                   (\<lambda>r. r\<lparr>ad_password_hash := hash, ad_name := name\<rparr>) rs"
      from ins rs True DoUpdate have d': "d' = d\<lparr>admins := Some ?rs'\<rparr>"
        by (simp add: insert_admin_def)
      have "map ad_email ?rs' = map ad_email rs" "map ad_id ?rs' = map ad_id rs"
        by (simp_all add: map_update_where_keep)
      then have "admins_wf (next_uuid d) ?rs'"
        using rs_wf by (simp add: admins_wf_def)
      then have "admins_ok d'" by (simp add: d' admins_ok_def)
      moreover have "clients_ok d'" "appointments_ok d'"
        using wf by (auto simp: wf_db_def d' client_ids_def
            elim: clients_ok_frame appointments_ok_frame)
      ultimately show ?thesis by (simp add: wf_db_def)
    qed
  next
    case False
    let ?n = "Suc (next_uuid d)"
    have a: "admins_wf ?n (rs @ [new_admin d email hash name])"
      using rs_wf False by (fastforce simp: admins_wf_def new_admin_def list_all_iff)
    have d': "d' = d\<lparr>admins := Some (rs @ [new_admin d email hash name]), next_uuid := ?n\<rparr>"
      using ins rs False by (simp add: insert_admin_def)
    have "admins_ok d'" using a by (simp add: d' admins_ok_def)
    moreover have "clients_ok d'" "appointments_ok d'"
      using wf by (auto simp: wf_db_def d' client_ids_def
          elim: clients_ok_frame appointments_ok_frame)
    ultimately show ?thesis by (simp add: wf_db_def)
  qed
qed

lemma insert_client_wf:
  assumes ins: "insert_client oc ext name email phone d = Inr d'" and wf: "wf_db d"
  shows "wf_db d'"
proof -
  obtain rs where rs: "clients d = Some rs"
    using ins by (cases "clients d") (auto simp: insert_client_def)
  have rs_wf: "clients_wf (next_uuid d) rs"
    using wf rs by (simp add: wf_db_def clients_ok_def)
  show ?thesis
  proof (cases "email \<in> set (map cl_email rs)")
    case True
    show ?thesis
    proof (cases oc)
      case DoNothing
      with ins rs True have "d' = d" by (simp add: insert_client_def)
      with wf show ?thesis by simp
    next
      case DoUpdate
      let ?P = "\<lambda>r. cl_email r = email"
      let ?f = "\<lambda>r. r\<lparr>cl_external_id := Some ext, cl_name := name, cl_phone := Some phone\<rparr>"
      let ?rs' = "update_where ?P ?f rs"
      have free: "ext \<notin> set (present_values cl_external_id (filter (\<lambda>r. cl_email r \<noteq> email) rs))"
        using ins rs True DoUpdate by (auto simp: insert_client_def split: if_splits)
      with ins rs True DoUpdate have d': "d' = d\<lparr>clients := Some ?rs'\<rparr>"
        by (auto simp: insert_client_def split: if_splits)
      have keys: "map cl_email ?rs' = map cl_email rs" "map cl_id ?rs' = map cl_id rs"
        by (simp_all add: map_update_where_keep)
      have "distinct (present_values cl_external_id ?rs')"
      proof (rule distinct_present_values_update_one)
        show "length (filter ?P rs) \<le> 1"
          using rs_wf distinct_key_filter_le1 [of cl_email rs email]
          by (simp add: clients_wf_def)
        show "distinct (present_values cl_external_id (filter (\<lambda>r. \<not> ?P r) rs))"
          using rs_wf by (simp add: clients_wf_def distinct_present_values_filter)
        show "\<And>x v. x \<in> set rs \<Longrightarrow> ?P x \<Longrightarrow> cl_external_id (?f x) = Some v \<Longrightarrow>
                v \<notin> set (present_values cl_external_id (filter (\<lambda>r. \<not> ?P r) rs))"
          using free by simp
      qed
      then have "clients_wf (next_uuid d) ?rs'"
        using rs_wf keys by (simp add: clients_wf_def)
      then have "clients_ok d'" by (simp add: d' clients_ok_def)
      moreover have "client_ids d' = client_ids d"
        using keys rs by (simp add: d' client_ids_def)
      then have "appointments_ok d'"
        using wf by (auto simp: wf_db_def d' elim: appointments_ok_frame)
      moreover have "admins_ok d'"
        using wf by (auto simp: wf_db_def d' elim: admins_ok_frame)
      ultimately show ?thesis by (simp add: wf_db_def)
    qed
  next
    case False
    let ?n = "Suc (next_uuid d)"
    let ?c = "new_client d ext name email phone"
    have free: "ext \<notin> set (present_values cl_external_id rs)"
      using ins rs False by (auto simp: insert_client_def split: if_splits)
    with ins rs False have d': "d' = d\<lparr>clients := Some (rs @ [?c]), next_uuid := ?n\<rparr>"
      by (auto simp: insert_client_def split: if_splits)
    have "clients_wf ?n (rs @ [?c])"
      using rs_wf False free by (fastforce simp: clients_wf_def new_client_def list_all_iff)
    then have "clients_ok d'" by (simp add: d' clients_ok_def)
    moreover have "set (client_ids d) \<subseteq> set (client_ids d')"
      using rs by (auto simp: d' client_ids_def)
    then have "appointments_ok d'"
      using wf by (auto simp: wf_db_def d' elim: appointments_ok_frame)
    moreover have "admins_ok d'"
      using wf by (auto simp: wf_db_def d' elim: admins_ok_frame)
    ultimately show ?thesis by (simp add: wf_db_def)
  qed
qed

lemma run_stmt_wf:
  "run_stmt s d = Inr d' \<Longrightarrow> wf_db d \<Longrightarrow> wf_db d'"
  by (cases s) (auto elim: create_extension_pgcrypto_wf create_table_clients_wf
      create_table_appointments_wf create_table_admins_wf insert_admin_wf insert_client_wf
      intro: drop_tables_wf)

subsection \<open>Frames for the appointments table\<close>

lemma refs_ok_map:
  "refs_ok ids as \<longleftrightarrow> list_all (\<lambda>c. case c of None \<Rightarrow> True | Some x \<Rightarrow> x \<in> set ids) (map ap_client_id as)"
  by (simp add: refs_ok_def list.pred_map comp_def)

lemma appointments_ok_append_fresh:
  assumes "appointments_ok d" and "appointments d = Some as"
    and "ap_id r = next_uuid d" and "ap_external_id r = None"
    and "appointments_fk d \<longrightarrow> (case ap_client_id r of None \<Rightarrow> True | Some c \<Rightarrow> c \<in> set (client_ids d))"
    and "appointments d' = Some (as @ [r])" and "next_uuid d' = Suc (next_uuid d)"
    and "appointments_fk d' = appointments_fk d" and "clients d' = clients d"
  shows "appointments_ok d'"
proof -
  have wf: "appointments_wf (next_uuid d) as" and refs: "appointments_fk d \<longrightarrow> refs_ok (client_ids d) as"
    using assms(1,2) by (simp_all add: appointments_ok_def)
  then have "next_uuid d \<notin> set (map ap_id as)"
    by (auto simp: appointments_wf_def list_all_iff)
  with wf assms(3,4) have "appointments_wf (next_uuid d') (as @ [r])"
    using assms(7) by (auto simp: appointments_wf_def list_all_iff)
  moreover have "client_ids d' = client_ids d" using assms(9) by (simp add: client_ids_def)
  ultimately show ?thesis
    using refs assms(5,6,8) by (simp add: appointments_ok_def refs_ok_def)
qed

lemma appointments_ok_same_keys:
  assumes "appointments_ok d" and "appointments d = Some as" and "appointments d' = Some as'"
    and "map ap_id as' = map ap_id as" and "present_values ap_external_id as' = present_values ap_external_id as"
    and "map ap_client_id as' = map ap_client_id as"
    and "clients d' = clients d" and "appointments_fk d' = appointments_fk d" and "next_uuid d' = next_uuid d"
  shows "appointments_ok d'"
proof -
  have "refs_ok ids as' = refs_ok ids as" for ids
    using assms(6) by (simp add: refs_ok_map)
  then show ?thesis using assms
    by (simp add: appointments_ok_def appointments_wf_def client_ids_def list_all_iff)
qed

lemma appointments_ok_filter:
  assumes "appointments_ok d" and "appointments d = Some as" and "appointments d' = Some (filter P as)"
    and "clients d' = clients d" and "appointments_fk d' = appointments_fk d" and "next_uuid d' = next_uuid d"
  shows "appointments_ok d'"
  using assms
  by (auto simp: appointments_ok_def appointments_wf_def refs_ok_def client_ids_def list_all_iff
      distinct_map_filter distinct_present_values_filter)

lemma wf_db_set_appointments:
  assumes "wf_db d" and "appointments_ok (d\<lparr>appointments := x\<rparr>)"
  shows "wf_db (d\<lparr>appointments := x\<rparr>)"
proof -
  have "clients_ok d" "admins_ok d" using assms(1) by (simp_all add: wf_db_def)
  then have "clients_ok (d\<lparr>appointments := x\<rparr>)" "admins_ok (d\<lparr>appointments := x\<rparr>)"
    using clients_ok_frame[of d] admins_ok_frame[of d] by simp_all
  with assms(2) show ?thesis by (simp add: wf_db_def)
qed

end
