(* ===== verification/Adapter.thy ===== *)
theory Adapter
  imports Store
begin

text \<open>
  The backend adapter of \<^verbatim>\<open>src/scripts/migrate.js\<close> (lines 33--64): the
  connection string's host selects a stateful \<open>pg\<close> \<open>Client\<close> (loopback hosts) or
  the stateless Neon HTTP dispatcher (every other host, and every string the URL parser
  rejects); both expose \<open>exec\<close>, \<open>begin\<close>, \<open>commit\<close>, \<open>rollback\<close>, the last three
  issuing \<open>BEGIN\<close>, \<open>COMMIT\<close>, \<open>ROLLBACK\<close> as ordinary statements.
  \<^item> The \<open>pg\<close> session is one PostgreSQL connection: a \<open>session\<close> holds the store
    and the transaction state, \<open>Idle\<close> (autocommit), \<open>InTxn snap\<close> or
    \<open>Aborted snap\<close>, with \<open>snap\<close> the store at \<open>BEGIN\<close>.  A failing statement
    inside a transaction aborts it, and PostgreSQL then refuses every statement but
    \<open>ROLLBACK\<close>/\<open>COMMIT\<close> (both roll back); outside one, a statement commits alone.
  \<^item> Every Neon HTTP call is its own request and its own implicit transaction:
    \<open>BEGIN\<close>, \<open>COMMIT\<close>, \<open>ROLLBACK\<close> sent that way change nothing, and every other
    statement commits on its own.
  \<open>new URL(DATABASE_URL).hostname\<close> is modelled for the connection strings the
  migration receives (\<open>scheme://[user[:pass]@]host[:port][/path]\<close>): the host of the
  authority, an IPv6 literal with its brackets, as the WHATWG parser returns it.
\<close>

section \<open>Definitions\<close>

datatype backend = PgClient | NeonHttp

datatype txn = Idle | InTxn db | Aborted db

record session =
  store :: db
  txn_state :: txn

definition autocommit :: "stmt \<Rightarrow> session \<Rightarrow> (sql_error + unit) \<times> session" where
  "autocommit st s =
     (case run_stmt st (store s) of
        Inl e \<Rightarrow> (Inl e, s)
      | Inr d \<Rightarrow> (Inr (), s\<lparr>store := d\<rparr>))"

text \<open>\<open>client.query(text, params)\<close> on the one connection of \<open>new Client(...)\<close>.\<close>

fun exec_pg :: "stmt \<Rightarrow> session \<Rightarrow> (sql_error + unit) \<times> session" where
  "exec_pg TxBegin s =
     (case txn_state s of
        Idle \<Rightarrow> (Inr (), s\<lparr>txn_state := InTxn (store s)\<rparr>)
      | InTxn _ \<Rightarrow> (Inr (), s)
      | Aborted _ \<Rightarrow> (Inl InFailedTransaction, s))"
| "exec_pg TxCommit s =
     (case txn_state s of
        Idle \<Rightarrow> (Inr (), s)
      | InTxn _ \<Rightarrow> (Inr (), s\<lparr>txn_state := Idle\<rparr>)
      | Aborted snap \<Rightarrow> (Inr (), \<lparr>store = snap, txn_state = Idle\<rparr>))"
| "exec_pg TxRollback s =
     (case txn_state s of
        Idle \<Rightarrow> (Inr (), s)
      | InTxn snap \<Rightarrow> (Inr (), \<lparr>store = snap, txn_state = Idle\<rparr>)
      | Aborted snap \<Rightarrow> (Inr (), \<lparr>store = snap, txn_state = Idle\<rparr>))"
| "exec_pg st s =
     (case txn_state s of
        Idle \<Rightarrow> autocommit st s
      | InTxn snap \<Rightarrow>
          (case run_stmt st (store s) of
             Inl e \<Rightarrow> (Inl e, s\<lparr>txn_state := Aborted snap\<rparr>)
           | Inr d \<Rightarrow> (Inr (), s\<lparr>store := d\<rparr>))
      | Aborted _ \<Rightarrow> (Inl InFailedTransaction, s))"

text \<open>\<open>sql(query, params)\<close> / \<open>sql([query])\<close> of \<open>neon(DATABASE_URL)\<close>.\<close>

definition exec_neon :: "stmt \<Rightarrow> session \<Rightarrow> (sql_error + unit) \<times> session" where
  "exec_neon st s = (if is_tx_control st then (Inr (), s) else autocommit st s)"

definition exec :: "backend \<Rightarrow> stmt \<Rightarrow> session \<Rightarrow> (sql_error + unit) \<times> session" where
  "exec be = (case be of PgClient \<Rightarrow> exec_pg | NeonHttp \<Rightarrow> exec_neon)"

definition session_of :: "db \<Rightarrow> session" where
  "session_of d = \<lparr>store = d, txn_state = Idle\<rparr>"

subsection \<open>Choosing the backend\<close>

definition scheme_char :: "char \<Rightarrow> bool" where
  "scheme_char c \<longleftrightarrow>
     (let n = (of_char c :: nat) in
        (48 \<le> n \<and> n \<le> 57) \<or> (65 \<le> n \<and> n \<le> 90) \<or> (97 \<le> n \<and> n \<le> 122)
        \<or> n = 43 \<or> n = 45 \<or> n = 46)"

definition ascii_lower :: "char \<Rightarrow> char" where
  "ascii_lower c =
     (case map_of (zip ''ABCDEFGHIJKLMNOPQRSTUVWXYZ'' ''abcdefghijklmnopqrstuvwxyz'') c of
        Some l \<Rightarrow> l
      | None \<Rightarrow> c)"

definition host_of_authority :: "string \<Rightarrow> string" where
  "host_of_authority a =
     (let hp = rev (takeWhile (\<lambda>c. c \<noteq> CHR ''@'') (rev a))
      in case hp of
           CHR ''['' # r \<Rightarrow> CHR ''['' # takeWhile (\<lambda>c. c \<noteq> CHR '']'') r @ '']''
         | _ \<Rightarrow> takeWhile (\<lambda>c. c \<noteq> CHR '':'') hp)"

text \<open>\<open>new URL(s).hostname\<close>; \<open>None\<close> where the constructor throws (no scheme).\<close>

definition url_hostname :: "string \<Rightarrow> string option" where
  "url_hostname u =
     (let sch = takeWhile (\<lambda>c. c \<noteq> CHR '':'') u; rest = drop (Suc (length sch)) u
      in if sch = [] \<or> length sch = length u \<or> \<not> list_all scheme_char sch
            \<or> \<not> (let n = (of_char (hd sch) :: nat) in (65 \<le> n \<and> n \<le> 90) \<or> (97 \<le> n \<and> n \<le> 122))
         then None
         else if take 2 rest = ''//''
         then Some (host_of_authority
                     (takeWhile (\<lambda>c. c \<notin> set ''/?#'') (drop 2 rest)))
         else Some [])"

text \<open>\<open>/^(localhost|127\.0\.0\.1|::1)$/i.test(hostname)\<close>\<close>

definition is_loopback_name :: "string \<Rightarrow> bool" where
  "is_loopback_name h \<longleftrightarrow> map ascii_lower h \<in> set [''localhost'', ''127.0.0.1'', ''::1'']"

definition select_backend :: "string \<Rightarrow> backend" where
  "select_backend u =
     (case url_hostname u of
        None \<Rightarrow> NeonHttp
      | Some h \<Rightarrow> (if is_loopback_name h then PgClient else NeonHttp))"

subsection \<open>Sessions reachable from a store\<close>

inductive pg_reach :: "db \<Rightarrow> session \<Rightarrow> bool" for d where
  start: "pg_reach d (session_of d)"
| step: "pg_reach d s \<Longrightarrow> exec_pg st s = (r, s') \<Longrightarrow> pg_reach d s'"

definition session_wf :: "session \<Rightarrow> bool" where
  "session_wf s \<longleftrightarrow>
     wf_db (store s)
     \<and> (case txn_state s of Idle \<Rightarrow> True | InTxn snap \<Rightarrow> wf_db snap | Aborted snap \<Rightarrow> wf_db snap)"

section \<open>Lemmas\<close>

subsection \<open>Statement execution\<close>

lemma session_of_simps [simp]:
  "store (session_of d) = d" "txn_state (session_of d) = Idle"
  "(session_of d)\<lparr>txn_state := t\<rparr> = \<lparr>store = d, txn_state = t\<rparr>"
  by (simp_all add: session_of_def)

lemma exec_backend [simp]:
  "exec PgClient = exec_pg" "exec NeonHttp = exec_neon"
  by (simp_all add: exec_def)

lemma exec_pg_data [exec_simps]:
  "\<not> is_tx_control st \<Longrightarrow>
   exec_pg st s =
     (case txn_state s of
        Idle \<Rightarrow> autocommit st s
      | InTxn snap \<Rightarrow>
          (case run_stmt st (store s) of
             Inl e \<Rightarrow> (Inl e, s\<lparr>txn_state := Aborted snap\<rparr>)
           | Inr d \<Rightarrow> (Inr (), s\<lparr>store := d\<rparr>))
      | Aborted _ \<Rightarrow> (Inl InFailedTransaction, s))"
  by (cases st) auto

lemma exec_neon_data [exec_simps]:
  "\<not> is_tx_control st \<Longrightarrow> exec_neon st s = autocommit st s"
  by (simp add: exec_neon_def)

lemma autocommit_txn [simp]: "txn_state (snd (autocommit st s)) = txn_state s"
  by (simp add: autocommit_def split: sum.splits)

lemma autocommit_store:
  "autocommit st s = (r, s') \<Longrightarrow>
   (r = Inr () \<and> run_stmt st (store s) = Inr (store s') \<and> txn_state s' = txn_state s)
   \<or> (\<exists>e. r = Inl e \<and> run_stmt st (store s) = Inl e \<and> s' = s)"
  by (auto simp: autocommit_def split: sum.splits)

text \<open>
  On the Neon HTTP path the transaction statements of \<open>begin\<close>, \<open>commit\<close> and
  \<open>rollback\<close> change nothing: nothing a failed run did can be rolled back.
\<close>

theorem neon_tx_control_noop:
  "is_tx_control st \<Longrightarrow> exec NeonHttp st s = (Inr (), s)"
  by (simp add: exec_neon_def)

theorem neon_tx_control_noop_witness:
  "exec NeonHttp TxRollback (session_of fresh_db) = (Inr (), session_of fresh_db)"
  using neon_tx_control_noop [of TxRollback "session_of fresh_db"] by simp

lemma neon_txn_state: "txn_state (snd (exec_neon st s)) = txn_state s"
  by (simp add: exec_neon_def)

lemma pg_rollback [simp]:
  "exec_pg TxRollback \<lparr>store = d, txn_state = InTxn snap\<rparr> = (Inr (), session_of snap)"
  "exec_pg TxRollback \<lparr>store = d, txn_state = Aborted snap\<rparr> = (Inr (), session_of snap)"
  "exec_pg TxCommit \<lparr>store = d, txn_state = InTxn snap\<rparr> = (Inr (), session_of d)"
  "exec_pg TxCommit \<lparr>store = d, txn_state = Aborted snap\<rparr> = (Inr (), session_of snap)"
  "exec_pg TxBegin (session_of d) = (Inr (), \<lparr>store = d, txn_state = InTxn d\<rparr>)"
  by (simp_all add: session_of_def)

subsection \<open>The session invariant\<close>

lemma autocommit_wf: "autocommit st s = (r, s') \<Longrightarrow> session_wf s \<Longrightarrow> session_wf s'"
  by (auto simp: autocommit_def session_wf_def split: sum.splits dest: run_stmt_wf)

lemma exec_pg_wf: "exec_pg st s = (r, s') \<Longrightarrow> session_wf s \<Longrightarrow> session_wf s'"
proof (cases "is_tx_control st")
  case True
  then show "exec_pg st s = (r, s') \<Longrightarrow> session_wf s \<Longrightarrow> session_wf s'"
    by (cases st) (auto simp: session_wf_def split: txn.splits)
next
  case False
  then show "exec_pg st s = (r, s') \<Longrightarrow> session_wf s \<Longrightarrow> session_wf s'"
    by (auto simp: exec_pg_data session_wf_def split: txn.splits sum.splits
        dest: run_stmt_wf autocommit_wf)
qed

subsection \<open>Choosing the backend\<close>

lemma select_backend_PgClient:
  "select_backend u = PgClient \<longleftrightarrow> (\<exists>h. url_hostname u = Some h \<and> is_loopback_name h)"
  by (auto simp: select_backend_def split: option.splits)

end
