(* ===== verification/Js.thy ===== *)
theory Js
  imports Prelude
begin

text \<open>
  The pieces of the JavaScript runtime the route handlers and hooks rely on, written
  once so that every handler reads them the same way: white space and
  \<open>String.prototype.trim\<close>; JSON values (the result of \<open>await request.json()\<close>)
  with their truthiness and the destructuring \<open>const {a, b} = value\<close>;
  \<open>Number.parseInt\<close> with no radix; \<open>String(n)\<close> on integers; \<open>JSON.stringify\<close>;
  \<open>URLSearchParams.get\<close>; and the JSON response a handler returns
  (\<open>NextResponse.json(body, {status})\<close>).  JavaScript numbers are doubles; the model
  keeps the integers the code handles as \<open>int\<close>, exactly (no rounding above
  \<open>2^53\<close>, no fractional values).  White space is the ASCII white space.
\<close>

section \<open>Definitions\<close>

subsection \<open>White space\<close>

definition js_space :: "char \<Rightarrow> bool" where
  "js_space c \<longleftrightarrow> (let n = (of_char c :: nat) in (9 \<le> n \<and> n \<le> 13) \<or> n = 32)"

definition js_trim :: "string \<Rightarrow> string" where
  "js_trim s = rev (dropWhile js_space (rev (dropWhile js_space s)))"

subsection \<open>JSON values\<close>

text \<open>
  \<open>JObj\<close> keeps the members in source order; \<open>JSON.parse\<close> lets a later duplicate
  key win, so a member is looked up from the end.
\<close>

datatype json =
    JNull
  | JBool bool
  | JNum int
  | JStr string
  | JArr "json list"
  | JObj "(string \<times> json) list"

fun json_truthy :: "json \<Rightarrow> bool" where
  "json_truthy JNull = False"
| "json_truthy (JBool b) = b"
| "json_truthy (JNum n) = (n \<noteq> 0)"
| "json_truthy (JStr s) = (s \<noteq> [])"
| "json_truthy (JArr _) = True"
| "json_truthy (JObj _) = True"

text \<open>A possibly \<open>undefined\<close> value (\<open>None\<close>), as a destructured field is.\<close>

definition field_truthy :: "json option \<Rightarrow> bool" where
  "field_truthy v = (case v of None \<Rightarrow> False | Some j \<Rightarrow> json_truthy j)"

definition json_get :: "(string \<times> json) list \<Rightarrow> string \<Rightarrow> json option" where
  "json_get kvs k = map_of (rev kvs) k"

text \<open>
  \<open>const {a, b} = v\<close>: a \<open>TypeError\<close> (\<open>None\<close>) on \<open>null\<close>; on an object its
  members; on a string, number, boolean or array the fields the handlers read are
  \<open>undefined\<close>.
\<close>

fun destructure :: "json \<Rightarrow> (string \<Rightarrow> json option) option" where
  "destructure JNull = None"
| "destructure (JObj kvs) = Some (json_get kvs)"
| "destructure _ = Some (\<lambda>_. None)"

subsection \<open>Numbers and their text\<close>

definition digit_value :: "nat \<Rightarrow> char \<Rightarrow> nat option" where
  "digit_value radix c =
     (let n = (of_char c :: nat);
          v = (if 48 \<le> n \<and> n \<le> 57 then n - 48
               else if 97 \<le> n \<and> n \<le> 122 then n - 87
               else if 65 \<le> n \<and> n \<le> 90 then n - 55 else radix)
      in if v < radix then Some v else None)"

definition digits_value :: "nat \<Rightarrow> string \<Rightarrow> nat" where
  "digits_value radix ds = foldl (\<lambda>acc c. acc * radix + the (digit_value radix c)) 0 ds"

text \<open>
  \<open>Number.parseInt(s)\<close>: leading white space skipped, an optional sign, a
  \<open>0x\<close>/\<open>0X\<close> prefix selecting radix 16, then the longest run of digits; no digit
  gives \<open>NaN\<close>, here \<open>None\<close>.
\<close>

definition parse_int :: "string \<Rightarrow> int option" where
  "parse_int s =
     (let s1 = dropWhile js_space s;
          (sgn, s2) = (case s1 of
                         c # r \<Rightarrow> (if c = CHR ''-'' then (-1, r)
                                  else if c = CHR ''+'' then (1, r) else (1, s1))
                       | [] \<Rightarrow> (1, s1));
          (radix, s3) = (case s2 of
                           z # x # r \<Rightarrow> (if z = CHR ''0'' \<and> (x = CHR ''x'' \<or> x = CHR ''X'')
                                        then (16, r) else (10, s2))
                         | _ \<Rightarrow> (10, s2));
          ds = takeWhile (\<lambda>c. digit_value radix c \<noteq> None) s3
      in if ds = [] then None else Some (sgn * int (digits_value radix ds)))"

fun show_nat :: "nat \<Rightarrow> string" where
  "show_nat n =
     (if n < 10 then [char_of (48 + n)] else show_nat (n div 10) @ [char_of (48 + n mod 10)])"

declare show_nat.simps [simp del]

text \<open>\<open>String(n)\<close> and the template literal \<open>${n}\<close> on an integer.\<close>

definition show_int :: "int \<Rightarrow> string" where
  "show_int i = (if i < 0 then CHR ''-'' # show_nat (nat (- i)) else show_nat (nat i))"

subsection \<open>\<open>JSON.stringify\<close>\<close>

text \<open>\<open>Array.prototype.join(sep)\<close> on strings.\<close>

fun join_with :: "string \<Rightarrow> string list \<Rightarrow> string" where
  "join_with sep [] = []"
| "join_with sep [x] = x"
| "join_with sep (x # y # xs) = x @ sep @ join_with sep (y # xs)"

definition hex_digit :: "nat \<Rightarrow> char" where
  "hex_digit n = (if n < 10 then char_of (48 + n) else char_of (87 + n))"

definition json_escape :: "char \<Rightarrow> string" where
  "json_escape c =
     (let n = (of_char c :: nat) in
      if c = CHR 0x22 then [CHR 0x5C, CHR 0x22]
      else if c = CHR 0x5C then [CHR 0x5C, CHR 0x5C]
      else if n = 8 then [CHR 0x5C, CHR ''b'']
      else if n = 9 then [CHR 0x5C, CHR ''t'']
      else if n = 10 then [CHR 0x5C, CHR ''n'']
      else if n = 12 then [CHR 0x5C, CHR ''f'']
      else if n = 13 then [CHR 0x5C, CHR ''r'']
      else if n < 32 then [CHR 0x5C, CHR ''u'', CHR ''0'', CHR ''0'',
                           hex_digit (n div 16), hex_digit (n mod 16)]
      else [c])"

definition json_quote :: "string \<Rightarrow> string" where
  "json_quote s = CHR 0x22 # concat (map json_escape s) @ [CHR 0x22]"

fun json_stringify :: "json \<Rightarrow> string" where
  "json_stringify JNull = ''null''"
| "json_stringify (JBool b) = (if b then ''true'' else ''false'')"
| "json_stringify (JNum n) = show_int n"
| "json_stringify (JStr s) = json_quote s"
| "json_stringify (JArr xs) =
     CHR ''['' # join_with '','' (map json_stringify xs) @ '']''"
| "json_stringify (JObj kvs) =
     CHR ''{'' # join_with '',''
        (map (\<lambda>kv. json_quote (fst kv) @ CHR '':'' # json_stringify (snd kv)) kvs) @ ''}''"

subsection \<open>Requests and responses\<close>

text \<open>\<open>new URL(request.url).searchParams.get(k)\<close>: the first value of the key.\<close>

definition search_get :: "(string \<times> string) list \<Rightarrow> string \<Rightarrow> string option" where
  "search_get q k = map_of q k"

record response =
  status :: nat
  body :: json

definition json_response :: "json \<Rightarrow> response" where
  "json_response b = \<lparr>status = 200, body = b\<rparr>"

text \<open>A member of a response's JSON body, as the client reads it (\<open>data.k\<close>).\<close>

definition resp_get :: "response \<Rightarrow> string \<Rightarrow> json option" where
  "resp_get r k = (case body r of JObj kvs \<Rightarrow> json_get kvs k | _ \<Rightarrow> None)"

definition error_response :: "nat \<Rightarrow> string \<Rightarrow> response" where
  "error_response n msg = \<lparr>status = n, body = JObj [(''error'', JStr msg)]\<rparr>"

text \<open>
  \<open>Math.ceil(count / limit)\<close> as \<open>JSON.stringify\<close> writes it: a division by zero
  is \<open>Infinity\<close> or \<open>NaN\<close>, both written \<open>null\<close>.
\<close>

definition js_ceil_div :: "int \<Rightarrow> int \<Rightarrow> json" where
  "js_ceil_div c l = (if l = 0 then JNull else JNum (- ((- c) div l)))"

section \<open>Lemmas\<close>

subsection \<open>Trimming\<close>

lemma dropWhile_all_space: "list_all js_space s \<Longrightarrow> dropWhile js_space s = []"
  by (induction s) auto

lemma dropWhile_no_space: "list_all (\<lambda>c. \<not> js_space c) s \<Longrightarrow> dropWhile js_space s = s"
  by (cases s) auto

lemma js_trim_no_space: "list_all (\<lambda>c. \<not> js_space c) s \<Longrightarrow> js_trim s = s"
  by (simp add: js_trim_def dropWhile_no_space)

lemma js_trim_all_space: "list_all js_space s \<Longrightarrow> js_trim s = []"
  by (simp add: js_trim_def dropWhile_all_space)

subsection \<open>Fields\<close>

lemma field_truthy_simps [simp]:
  "field_truthy None = False" "field_truthy (Some j) = json_truthy j"
  by (simp_all add: field_truthy_def)

lemma json_get_Nil [simp]: "json_get [] k = None"
  by (simp add: json_get_def)

lemma json_get_Cons [simp]:
  "json_get ((k, v) # kvs) x = (case json_get kvs x of None \<Rightarrow> (if x = k then Some v else None)
                                 | Some w \<Rightarrow> Some w)"
  by (simp add: json_get_def map_add_def split: option.splits)

subsection \<open>Decimal text\<close>

lemma show_nat_digits: "list_all (\<lambda>c. digit_value 10 c \<noteq> None) (show_nat n)"
proof (induction n rule: show_nat.induct)
  case (1 n)
  then show ?case
    by (subst show_nat.simps) (auto simp: digit_value_def Let_def of_char_of)
qed

lemma show_nat_value: "digits_value 10 (show_nat n) = n"
proof (induction n rule: show_nat.induct)
  case (1 n)
  then show ?case
    by (subst show_nat.simps) (auto simp: digits_value_def digit_value_def Let_def of_char_of)
qed

lemma show_nat_not_Nil [simp]: "show_nat n \<noteq> []"
  by (subst show_nat.simps) simp

lemma show_nat_hd: "\<exists>c r. show_nat n = c # r \<and> 48 \<le> (of_char c :: nat) \<and> of_char c \<le> (57 :: nat)
                     \<and> (c = CHR ''0'' \<longrightarrow> r = [])"
proof (induction n rule: show_nat.induct)
  case (1 n)
  show ?case
  proof (cases "n < 10")
    case True
    then show ?thesis by (subst show_nat.simps) (auto simp: of_char_of)
  next
    case False
    then have "0 < n div 10" by simp
    with False 1 obtain c r where "show_nat (n div 10) = c # r"
      and "48 \<le> (of_char c :: nat)" "of_char c \<le> (57 :: nat)"
      and "c = CHR ''0'' \<longrightarrow> r = []" by blast
    moreover have "c \<noteq> CHR ''0''"
    proof
      assume "c = CHR ''0''"
      with calculation have "show_nat (n div 10) = ''0''" by simp
      then have "digits_value 10 (show_nat (n div 10)) = 0"
        by (simp add: digits_value_def digit_value_def)
      with \<open>0 < n div 10\<close> show False by (simp add: show_nat_value)
    qed
    ultimately show ?thesis using False by (subst show_nat.simps) auto
  qed
qed

lemma show_nat_no_space: "list_all (\<lambda>c. \<not> js_space c) (show_nat n)"
  using show_nat_digits[of n]
  by (auto simp: list_all_iff js_space_def digit_value_def Let_def split: if_splits)

lemma show_nat_radix:
  "(case show_nat m of z # x # r \<Rightarrow> (if z = CHR ''0'' \<and> (x = CHR ''x'' \<or> x = CHR ''X'')
                                    then (16::nat, r) else (10, show_nat m))
     | _ \<Rightarrow> (10, show_nat m)) = (10, show_nat m)"
proof -
  obtain c r where cr: "show_nat m = c # r" "c = CHR ''0'' \<longrightarrow> r = []"
    using show_nat_hd[of m] by blast
  then show ?thesis by (cases r) auto
qed

lemma show_nat_first:
  "\<exists>c r. show_nat m = c # r \<and> \<not> js_space c \<and> c \<noteq> CHR ''-'' \<and> c \<noteq> CHR ''+''"
proof -
  obtain c r where "show_nat m = c # r" "48 \<le> (of_char c :: nat)" "of_char c \<le> (57 :: nat)"
    using show_nat_hd[of m] by blast
  then show ?thesis by (auto simp: js_space_def)
qed

lemma show_nat_sign:
  "(case show_nat m of c # r \<Rightarrow> (if c = CHR ''-'' then (-1, r)
                                  else if c = CHR ''+'' then (1, r) else (1::int, show_nat m))
     | [] \<Rightarrow> (1, show_nat m)) = (1, show_nat m)"
  using show_nat_first[of m] by auto

lemma show_nat_dropWhile: "dropWhile js_space (show_nat m) = show_nat m"
  using show_nat_no_space by (simp add: dropWhile_no_space)

lemma parse_show_nat:
  "takeWhile (\<lambda>c. \<exists>y. digit_value 10 c = Some y) (show_nat m) = show_nat m"
  using show_nat_digits[of m] by (auto simp: takeWhile_eq_all_conv list_all_iff)

lemma parse_int_show_int: "parse_int (show_int i) = Some i"
proof (cases "i < 0")
  case True
  then show ?thesis
    by (simp add: show_int_def parse_int_def js_space_def show_nat_radix parse_show_nat
        show_nat_value Let_def)
next
  case False
  then show ?thesis
    by (simp add: show_int_def parse_int_def show_nat_dropWhile show_nat_sign show_nat_radix
        parse_show_nat show_nat_value Let_def)
qed
lemma show_int_not_Nil [simp]: "show_int i \<noteq> []"
  by (simp add: show_int_def)

lemma parse_int_one: "parse_int ''1'' = Some 1"
  by (simp add: parse_int_def digit_value_def digits_value_def js_space_def)

end
