(* ===== verification/Credentials.thy ===== *)
theory Credentials
  imports Js
begin

text \<open>
  The credential resolver of \<^verbatim>\<open>src/scripts/migrate.js\<close>: \<open>isBcryptHash\<close>
  (lines 66--68), \<open>resolveAdminHash\<close> (lines 70--76) and the admin account's
  configured email and name read by \<open>seedAdmin\<close> (lines 117--118).  The process
  environment is a map \<open>env\<close> from variable names to values.  \<open>bcrypt.hash(pwd, 10)\<close>
  draws a random salt, so it is a parameter of the model: a \<open>hasher\<close> takes the work
  factor and the password, and stands for the hash function with the salt this run
  drew.  JavaScript's \<open>String.prototype.trim\<close> is modelled on the ASCII white space
  characters (tab, line feed, vertical tab, form feed, carriage return, space).
\<close>

type_synonym hasher = "nat \<Rightarrow> string \<Rightarrow> string"

section \<open>Definitions\<close>

text \<open>The regular expression's classes \<open>\\d\<close> and \<open>[./A-Za-z0-9]\<close>, by character code.\<close>

definition digit_char :: "char \<Rightarrow> bool" where
  "digit_char c \<longleftrightarrow> (let n = (of_char c :: nat) in 48 \<le> n \<and> n \<le> 57)"

definition bcrypt64_char :: "char \<Rightarrow> bool" where
  "bcrypt64_char c \<longleftrightarrow>
     (let n = (of_char c :: nat) in
        n = 46 \<or> n = 47 \<or> (48 \<le> n \<and> n \<le> 57) \<or> (65 \<le> n \<and> n \<le> 90) \<or> (97 \<le> n \<and> n \<le> 122))"

text \<open>\<open>/^\$2[aby]\$\d{2}\$[./A-Za-z0-9]{53}$/.test(str)\<close>\<close>

fun is_bcrypt_hash :: "string \<Rightarrow> bool" where
  "is_bcrypt_hash (d1 # t # v # d2 # c1 # c2 # d3 # rest) =
     (d1 = CHR ''$'' \<and> t = CHR ''2'' \<and> v \<in> set ''aby'' \<and> d2 = CHR ''$''
      \<and> digit_char c1 \<and> digit_char c2 \<and> d3 = CHR ''$''
      \<and> length rest = 53 \<and> list_all bcrypt64_char rest)"
| "is_bcrypt_hash _ = False"

definition bcrypt_cost :: nat where
  "bcrypt_cost = 10"

definition default_admin_password :: string where
  "default_admin_password = ''admin123''"

text \<open>
  Lines 73--75: \<open>(process.env.ADMIN_PASSWORD || "admin123").trim()\<close>, passed
  through when it already has the hash's format, hashed otherwise.
\<close>

definition resolve_password :: "hasher \<Rightarrow> env \<Rightarrow> string" where
  "resolve_password H e =
     (let pwd = js_trim (js_or (e ''ADMIN_PASSWORD'') default_admin_password)
      in if is_bcrypt_hash pwd then pwd else H bcrypt_cost pwd)"

text \<open>
  Lines 71--72: \<open>process.env.ADMIN_PASSWORD_HASH?.trim()\<close>, used verbatim when it is
  a non-empty string.
\<close>

definition resolve_admin_hash :: "hasher \<Rightarrow> env \<Rightarrow> string" where
  "resolve_admin_hash H e =
     (case map_option js_trim (e ''ADMIN_PASSWORD_HASH'') of
        Some h \<Rightarrow> (if h \<noteq> [] then h else resolve_password H e)
      | None \<Rightarrow> resolve_password H e)"

definition admin_email :: "env \<Rightarrow> string" where
  "admin_email e = js_or (e ''ADMIN_EMAIL'') ''admin@wellness.com''"

definition admin_name :: "env \<Rightarrow> string" where
  "admin_name e = js_or (e ''ADMIN_NAME'') ''Admin User''"

section \<open>Lemmas\<close>

subsection \<open>The hash format\<close>

lemma is_bcrypt_hash_length: "is_bcrypt_hash s \<Longrightarrow> length s = 60"
  by (induction s rule: is_bcrypt_hash.induct) auto

lemma bcrypt_chars_not_space:
  "digit_char c \<Longrightarrow> \<not> js_space c"
  "bcrypt64_char c \<Longrightarrow> \<not> js_space c"
  "c \<in> set ''$2aby'' \<Longrightarrow> \<not> js_space c"
  by (auto simp: js_space_def digit_char_def bcrypt64_char_def Let_def)

lemma is_bcrypt_hash_no_space:
  "is_bcrypt_hash s \<Longrightarrow> list_all (\<lambda>c. \<not> js_space c) s"
  by (induction s rule: is_bcrypt_hash.induct)
    (auto simp: list_all_iff bcrypt_chars_not_space)

lemma js_trim_bcrypt: "is_bcrypt_hash s \<Longrightarrow> js_trim s = s"
  by (simp add: js_trim_no_space is_bcrypt_hash_no_space)

subsection \<open>Resolution order\<close>

lemma resolve_password_trimmed:
  "resolve_password H e =
     (if is_bcrypt_hash (js_trim (js_or (e ''ADMIN_PASSWORD'') default_admin_password))
      then js_trim (js_or (e ''ADMIN_PASSWORD'') default_admin_password)
      else H bcrypt_cost (js_trim (js_or (e ''ADMIN_PASSWORD'') default_admin_password)))"
  by (simp add: resolve_password_def Let_def)

lemma resolve_admin_hash_fallback:
  "\<not> js_truthy (map_option js_trim (e ''ADMIN_PASSWORD_HASH'')) \<Longrightarrow>
   resolve_admin_hash H e = resolve_password H e"
  by (cases "e ''ADMIN_PASSWORD_HASH''") (auto simp: resolve_admin_hash_def)

text \<open>C4: an explicitly supplied hash wins and is used verbatim (after trimming).\<close>

theorem resolve_explicit_hash:
  assumes "e ''ADMIN_PASSWORD_HASH'' = Some h" and "js_trim h \<noteq> []"
  shows "resolve_admin_hash H e = js_trim h"
  using assms by (simp add: resolve_admin_hash_def)

theorem resolve_explicit_hash_witness:
  "resolve_admin_hash (\<lambda>c p. rev p) (\<lambda>v. if v = ''ADMIN_PASSWORD_HASH'' then Some '' h '' else None)
   = ''h''"
  using resolve_explicit_hash [of "\<lambda>v. if v = ''ADMIN_PASSWORD_HASH'' then Some '' h '' else None"
      "'' h ''" "\<lambda>c p. rev p"]
  by (simp add: js_trim_def js_space_def)

text \<open>
  C5: with no explicit hash, a password that already has the hash's format is stored
  unchanged; any other supplied password is stored only as its hash at work factor 10.
\<close>

theorem resolve_supplied_password:
  assumes "\<not> js_truthy (map_option js_trim (e ''ADMIN_PASSWORD_HASH''))"
    and "e ''ADMIN_PASSWORD'' = Some p" and "p \<noteq> []"
  shows "resolve_admin_hash H e =
           (if is_bcrypt_hash (js_trim p) then js_trim p else H 10 (js_trim p))"
  using assms by (simp add: resolve_admin_hash_fallback resolve_password_def bcrypt_cost_def)

theorem resolve_supplied_password_witness:
  "resolve_admin_hash (\<lambda>c p. rev p) (\<lambda>v. if v = ''ADMIN_PASSWORD'' then Some ''pw'' else None)
   = ''wp''"
  using resolve_supplied_password [of "\<lambda>v. if v = ''ADMIN_PASSWORD'' then Some ''pw'' else None"
      "''pw''" "\<lambda>c p. rev p"]
  by (simp add: js_trim_def js_space_def)

text \<open>With no credential input at all, the default password is hashed at work factor 10.\<close>

theorem resolve_default_password:
  assumes "\<not> js_truthy (map_option js_trim (e ''ADMIN_PASSWORD_HASH''))"
    and "\<not> js_truthy (e ''ADMIN_PASSWORD'')"
  shows "resolve_admin_hash H e = H 10 ''admin123''"
proof -
  have "js_or (e ''ADMIN_PASSWORD'') default_admin_password = ''admin123''"
    using assms(2) by (simp add: js_or_truthy default_admin_password_def)
  moreover have "js_trim ''admin123'' = ''admin123''" "\<not> is_bcrypt_hash ''admin123''"
    by (simp_all add: js_trim_def js_space_def)
  ultimately show ?thesis
    using assms(1) by (simp add: resolve_admin_hash_fallback resolve_password_def bcrypt_cost_def)
qed

theorem resolve_default_password_witness:
  "resolve_admin_hash (\<lambda>c p. rev p) (\<lambda>v. None) = ''321nimda''"
  using resolve_default_password [of "\<lambda>v. None" "\<lambda>c p. rev p"] by simp

text \<open>
  C6: a password of white space only is truthy for \<open>||\<close>, so the default is not used;
  trimmed, it is empty, and the stored credential is the hash of the empty password.
\<close>

theorem resolve_blank_password:
  assumes "\<not> js_truthy (map_option js_trim (e ''ADMIN_PASSWORD_HASH''))"
    and "e ''ADMIN_PASSWORD'' = Some p" and "p \<noteq> []" and "list_all js_space p"
  shows "resolve_admin_hash H e = H 10 []"
  using assms by (simp add: resolve_admin_hash_fallback resolve_password_def bcrypt_cost_def
      js_trim_all_space)

theorem resolve_blank_password_witness:
  "resolve_admin_hash (\<lambda>c p. CHR ''#'' # p) (\<lambda>v. if v = ''ADMIN_PASSWORD'' then Some ''  '' else None)
   = ''#''"
  using resolve_blank_password [of "\<lambda>v. if v = ''ADMIN_PASSWORD'' then Some ''  '' else None"
      "''  ''" "\<lambda>c p. CHR ''#'' # p"]
  by (simp add: js_space_def)

text \<open>
  C7: the resolver returns the supplied hash, a value of the hash's format, or a value
  the hasher computed at work factor 10; it never returns a supplied plaintext password
  that is not of the hash's format.
\<close>

theorem resolve_admin_hash_cases:
  "resolve_admin_hash H e \<in>
     {js_trim h |h. e ''ADMIN_PASSWORD_HASH'' = Some h} \<union> Collect is_bcrypt_hash
     \<union> range (H 10)"
  by (auto simp: resolve_admin_hash_def resolve_password_def bcrypt_cost_def Let_def
      split: option.splits)

end
