(* ===== verification/Migration.thy ===== *)
theory Migration
  imports Adapter Credentials
begin

text \<open>
  The run controller of \<^verbatim>\<open>src/scripts/migrate.js\<close>: the statement sequences of
  \<open>createSchema\<close> (lines 78--108), \<open>dropSchema\<close> (110--114), \<open>seedAdmin\<close>
  (116--129) and \<open>seedClients\<close> (131--146), composed by \<open>main\<close> (148--165) inside
  \<open>begin()\<close>/\<open>commit()\<close> with \<open>rollback()\<close> on any error, and the process around
  it (lines 21--31: \<open>DATABASE_URL\<close>, the \<open>--reset\<close>/\<open>--redo\<close> flags).
  Each \<open>await exec(\<dots>)\<close> is a \<open>step\<close>; \<open>AwaitCatch\<close> is the one awaited with
  \<open>.catch(() => {})\<close>, whose error is swallowed.  \<open>run_steps\<close> runs the steps on a
  backend until the first error that is not swallowed.  The abstract specification of
  a run, \<open>run_intended\<close>, is what the code means to do: the statements in order on
  the store, a swallowed failure skipped, the first other failure ending the run, and
  nothing of a failed run kept.  The exit status depends on the connections left open
  (\<open>open_handles\<close>), and \<open>migrate_script\<close> runs the process on the environment
  \<open>dotenv\<close> loads.
\<close>

section \<open>Definitions\<close>

datatype step = Await stmt | AwaitCatch stmt

primrec step_stmt :: "step \<Rightarrow> stmt" where
  "step_stmt (Await st) = st"
| "step_stmt (AwaitCatch st) = st"

definition create_schema :: "step list" where
  "create_schema =
     [AwaitCatch CreateExtensionPgcrypto, Await CreateTableClients,
      Await CreateTableAppointments, Await CreateTableAdmins]"

definition drop_schema :: "step list" where
  "drop_schema = [Await DropTableAppointments, Await DropTableClients, Await DropTableAdmins]"

definition conflict_policy :: "bool \<Rightarrow> on_conflict" where
  "conflict_policy update = (if update then DoUpdate else DoNothing)"

definition seed_admin :: "hasher \<Rightarrow> env \<Rightarrow> bool \<Rightarrow> step list" where
  "seed_admin H e update =
     [Await (InsertAdmin (conflict_policy update) (admin_email e) (resolve_admin_hash H e)
              (admin_name e))]"

text \<open>The fixed baseline: \<open>(external_id, name, email, phone)\<close>.\<close>

definition seed_client_data :: "(string \<times> string \<times> string \<times> string) list" where
  "seed_client_data =
     [(''client_1'', ''John Doe'', ''john.doe@email.com'', ''+1-555-0101''),
      (''client_2'', ''Jane Smith'', ''jane.smith@email.com'', ''+1-555-0102''),
      (''client_3'', ''Bob Johnson'', ''bob.johnson@email.com'', ''+1-555-0103'')]"

definition seed_clients :: "bool \<Rightarrow> step list" where
  "seed_clients redo =
     map (\<lambda>(x, n, m, p). Await (InsertClient (conflict_policy redo) x n m p)) seed_client_data"

text \<open>
  The body of \<open>main\<close> between \<open>begin()\<close> and \<open>commit()\<close>: the admin is seeded
  with \<open>reset || redo\<close>, the clients with \<open>redo\<close> alone.
\<close>

definition migration_plan :: "hasher \<Rightarrow> env \<Rightarrow> bool \<Rightarrow> bool \<Rightarrow> step list" where
  "migration_plan H e reset redo =
     (if reset then drop_schema else []) @ create_schema @ seed_admin H e (reset \<or> redo)
     @ seed_clients redo"

fun run_steps :: "backend \<Rightarrow> step list \<Rightarrow> session \<Rightarrow> sql_error option \<times> session" where
  "run_steps be [] s = (None, s)"
| "run_steps be (Await st # ss) s =
     (case exec be st s of
        (Inl e, s') \<Rightarrow> (Some e, s')
      | (Inr _, s') \<Rightarrow> run_steps be ss s')"
| "run_steps be (AwaitCatch st # ss) s = run_steps be ss (snd (exec be st s))"

datatype outcome =
    Committed session
  | RolledBack sql_error session
  | RollbackFailed sql_error session

text \<open>The \<open>catch\<close> of \<open>main\<close>: \<open>await rollback()\<close>, whose own failure escapes.\<close>

definition rollback_after :: "backend \<Rightarrow> sql_error \<Rightarrow> session \<Rightarrow> outcome" where
  "rollback_after be e s =
     (case exec be TxRollback s of
        (Inl e', s') \<Rightarrow> RollbackFailed e' s'
      | (Inr _, s') \<Rightarrow> RolledBack e s')"

definition migrate_main :: "backend \<Rightarrow> step list \<Rightarrow> session \<Rightarrow> outcome" where
  "migrate_main be ss s =
     (case exec be TxBegin s of
        (Inl e, s1) \<Rightarrow> rollback_after be e s1
      | (Inr _, s1) \<Rightarrow>
          (case run_steps be ss s1 of
             (Some e, s2) \<Rightarrow> rollback_after be e s2
           | (None, s2) \<Rightarrow>
               (case exec be TxCommit s2 of
                  (Inl e, s3) \<Rightarrow> rollback_after be e s3
                | (Inr _, s3) \<Rightarrow> Committed s3)))"

subsection \<open>The process\<close>

datatype exit_status = ExitCode int | KeepsRunning

text \<open>
  Node.js ends a process whose work is done only when no handle is left open.  The
  \<open>pg\<close> path opens one, the \<open>Client\<close> connected at lines 52--55, and no line of
  the script calls \<open>client.end()\<close>; the Neon path sends HTTP requests and keeps
  none.
\<close>

definition open_handles :: "backend \<Rightarrow> nat" where
  "open_handles be = (case be of PgClient \<Rightarrow> 1 | NeonHttp \<Rightarrow> 0)"

text \<open>
  The end of the process after \<open>main()\<close>: a committed run returns normally, and the
  process exits with 0 once its handles are closed; a failed run calls
  \<open>process.exit(1)\<close>; a failing \<open>rollback()\<close> inside the \<open>catch\<close> is an unhandled
  rejection (exit 1).
\<close>

fun exit_of :: "backend \<Rightarrow> outcome \<Rightarrow> exit_status" where
  "exit_of be (Committed _) = (if open_handles be = 0 then ExitCode 0 else KeepsRunning)"
| "exit_of _ (RolledBack _ _) = ExitCode 1"
| "exit_of _ (RollbackFailed _ _) = ExitCode 1"

fun outcome_store :: "outcome \<Rightarrow> db" where
  "outcome_store (Committed s) = store s"
| "outcome_store (RolledBack _ s) = store s"
| "outcome_store (RollbackFailed _ s) = store s"

text \<open>
  The script after loading the environment: no \<open>DATABASE_URL\<close> exits with 1; a URL
  that \<open>new URL\<close> cannot parse selects the Neon path, whose \<open>neon(DATABASE_URL)\<close>
  throws at load time (an uncaught exception, exit 1) before \<open>main\<close> runs.
\<close>

definition migrate_process :: "hasher \<Rightarrow> env \<Rightarrow> string list \<Rightarrow> db \<Rightarrow> exit_status \<times> db" where
  "migrate_process H e args d =
     (case e ''DATABASE_URL'' of
        None \<Rightarrow> (ExitCode 1, d)
      | Some url \<Rightarrow>
          (if url = [] then (ExitCode 1, d)
           else if url_hostname url = None then (ExitCode 1, d)
           else
             (let be = select_backend url;
                  res = migrate_main be
                          (migration_plan H e (''--reset'' \<in> set args) (''--redo'' \<in> set args))
                          (session_of d)
              in (exit_of be res, outcome_store res))))"

subsection \<open>Loading the environment\<close>

text \<open>
  Lines 13--19: the \<open>.env\<close> files are a parameter, the variables each path sets
  (\<open>None\<close>: no such file).  \<open>dotenv.config\<close> adds the file's variables and never
  overrides one that is already set; without \<open>ENV_PATH\<close> the file is
  \<^verbatim>\<open>../.env\<close> beside the script, and when it is missing \<open>config()\<close> reads
  \<^verbatim>\<open>.env\<close> of the working directory.
\<close>

type_synonym env_files = "string \<Rightarrow> env option"

definition dotenv_config :: "env \<Rightarrow> env \<Rightarrow> env" where
  "dotenv_config file e = (\<lambda>k. case e k of Some v \<Rightarrow> Some v | None \<Rightarrow> file k)"

definition load_env :: "env_files \<Rightarrow> string \<Rightarrow> string \<Rightarrow> env \<Rightarrow> env" where
  "load_env fs script_env cwd_env e =
     (case fs (js_or (e ''ENV_PATH'') script_env) of
        Some file \<Rightarrow> dotenv_config file e
      | None \<Rightarrow> (case fs cwd_env of Some file \<Rightarrow> dotenv_config file e | None \<Rightarrow> e))"

text \<open>The whole script: the environment loaded from the \<open>.env\<close> files, then the process.\<close>

definition migrate_script ::
  "hasher \<Rightarrow> env_files \<Rightarrow> string \<Rightarrow> string \<Rightarrow> env \<Rightarrow> string list \<Rightarrow> db \<Rightarrow> exit_status \<times> db" where
  "migrate_script H fs script_env cwd_env e args d = migrate_process H (load_env fs script_env cwd_env e) args d"

subsection \<open>The specification of a run\<close>

fun run_intended :: "step list \<Rightarrow> db \<Rightarrow> sql_error + db" where
  "run_intended [] d = Inr d"
| "run_intended (Await st # ss) d =
     (case run_stmt st d of Inl e \<Rightarrow> Inl e | Inr d' \<Rightarrow> run_intended ss d')"
| "run_intended (AwaitCatch st # ss) d =
     (case run_stmt st d of Inl _ \<Rightarrow> run_intended ss d | Inr d' \<Rightarrow> run_intended ss d')"

text \<open>Every swallowed statement succeeds where the run reaches it.\<close>

fun catches_succeed :: "step list \<Rightarrow> db \<Rightarrow> bool" where
  "catches_succeed [] d = True"
| "catches_succeed (Await st # ss) d =
     (case run_stmt st d of Inl _ \<Rightarrow> True | Inr d' \<Rightarrow> catches_succeed ss d')"
| "catches_succeed (AwaitCatch st # ss) d =
     (case run_stmt st d of Inl _ \<Rightarrow> False | Inr d' \<Rightarrow> catches_succeed ss d')"

definition no_tx_control :: "step list \<Rightarrow> bool" where
  "no_tx_control ss \<longleftrightarrow> list_all (\<lambda>x. \<not> is_tx_control (step_stmt x)) ss"

section \<open>Lemmas\<close>

subsection \<open>Running steps on each backend\<close>

lemma run_intended_append:
  "run_intended (xs @ ys) d =
     (case run_intended xs d of Inl e \<Rightarrow> Inl e | Inr d' \<Rightarrow> run_intended ys d')"
  by (induction xs d rule: run_intended.induct) (auto split: sum.splits)

lemma no_tx_control_simps [simp]:
  "no_tx_control []"
  "no_tx_control (x # xs) \<longleftrightarrow> \<not> is_tx_control (step_stmt x) \<and> no_tx_control xs"
  "no_tx_control (xs @ ys) \<longleftrightarrow> no_tx_control xs \<and> no_tx_control ys"
  by (simp_all add: no_tx_control_def)

lemma session_eta: "\<lparr>store = store s, txn_state = txn_state s\<rparr> = s"
  by simp

lemma pg_steps_aborted:
  "no_tx_control ss \<Longrightarrow>
   run_steps PgClient ss \<lparr>store = d, txn_state = Aborted snap\<rparr> = (r, s') \<Longrightarrow>
   s' = \<lparr>store = d, txn_state = Aborted snap\<rparr>"
proof (induction ss arbitrary: r)
  case Nil
  then show ?case by simp
next
  case (Cons x ss)
  then show ?case by (cases x) (auto simp: exec_pg_data)
qed

lemma pg_steps_shape:
  "no_tx_control ss \<Longrightarrow>
   run_steps PgClient ss \<lparr>store = d, txn_state = InTxn snap\<rparr> = (r, s') \<Longrightarrow>
   (r = None \<and> txn_state s' = InTxn snap \<and> run_intended ss d = Inr (store s'))
   \<or> txn_state s' = Aborted snap"
proof (induction ss arbitrary: d r)
  case Nil
  then show ?case by auto
next
  case (Cons x ss)
  show ?case
  proof (cases x)
    case (Await st)
    with Cons show ?thesis
      by (auto simp: exec_pg_data split: sum.splits)
  next
    case (AwaitCatch st)
    show ?thesis
    proof (cases "run_stmt st d")
      case (Inl e)
      with Cons.prems AwaitCatch have "s' = \<lparr>store = d, txn_state = Aborted snap\<rparr>"
        by (auto simp: exec_pg_data intro: pg_steps_aborted)
      then show ?thesis by simp
    next
      case (Inr d1)
      with Cons AwaitCatch show ?thesis by (auto simp: exec_pg_data)
    qed
  qed
qed

lemma pg_steps_ok:
  "no_tx_control ss \<Longrightarrow> catches_succeed ss d \<Longrightarrow> run_intended ss d = Inr d' \<Longrightarrow>
   run_steps PgClient ss \<lparr>store = d, txn_state = InTxn snap\<rparr>
   = (None, \<lparr>store = d', txn_state = InTxn snap\<rparr>)"
proof (induction ss arbitrary: d)
  case Nil
  then show ?case by simp
next
  case (Cons x ss)
  then show ?case by (cases x) (auto simp: exec_pg_data split: sum.splits)
qed

lemma pg_steps_fail:
  "no_tx_control ss \<Longrightarrow> catches_succeed ss d \<Longrightarrow> run_intended ss d = Inl e \<Longrightarrow>
   \<exists>d1. run_steps PgClient ss \<lparr>store = d, txn_state = InTxn snap\<rparr>
        = (Some e, \<lparr>store = d1, txn_state = Aborted snap\<rparr>)"
proof (induction ss arbitrary: d)
  case Nil
  then show ?case by simp
next
  case (Cons x ss)
  then show ?case by (cases x) (auto simp: exec_pg_data split: sum.splits)
qed

lemma run_stmt_tx_control: "is_tx_control st \<Longrightarrow> run_stmt st d = Inr d"
  by (cases st) auto

lemma neon_exec_step:
  "exec_neon st (session_of d) =
     (case run_stmt st d of Inl e \<Rightarrow> (Inl e, session_of d) | Inr d' \<Rightarrow> (Inr (), session_of d'))"
  by (cases "is_tx_control st")
    (auto simp: exec_neon_def autocommit_def session_of_def run_stmt_tx_control split: sum.splits)

lemma neon_steps_ok:
  "run_intended ss d = Inr d' \<Longrightarrow> run_steps NeonHttp ss (session_of d) = (None, session_of d')"
proof (induction ss arbitrary: d)
  case Nil
  then show ?case by simp
next
  case (Cons x ss)
  then show ?case by (cases x) (auto simp: neon_exec_step split: sum.splits)
qed

lemma neon_steps_fail:
  "run_intended ss d = Inl e \<Longrightarrow> \<exists>d1. run_steps NeonHttp ss (session_of d) = (Some e, session_of d1)"
proof (induction ss arbitrary: d)
  case Nil
  then show ?case by simp
next
  case (Cons x ss)
  then show ?case by (cases x) (auto simp: neon_exec_step split: sum.splits)
qed

text \<open>A failed run on Neon: the first failing statement, the store the statements
  before it committed, and the error.\<close>

lemma neon_steps_fail_prefix:
  "run_intended ss d = Inl e \<Longrightarrow>
   \<exists>pre st post d1. ss = pre @ Await st # post \<and> run_intended pre d = Inr d1 \<and> run_stmt st d1 = Inl e
                    \<and> run_steps NeonHttp ss (session_of d) = (Some e, session_of d1)"
proof (induction ss arbitrary: d)
  case Nil
  then show ?case by simp
next
  case (Cons x ss)
  show ?case
  proof (cases x)
    case (Await st)
    show ?thesis
    proof (cases "run_stmt st d")
      case (Inl e')
      with Cons.prems Await have "e' = e" by simp
      with Inl Await show ?thesis
        by (intro exI[of _ "[]"] exI[of _ st] exI[of _ ss] exI[of _ d]) (simp add: exec_def neon_exec_step)
    next
      case (Inr d')
      with Cons.prems Await obtain pre st' post d1 where
        "ss = pre @ Await st' # post" "run_intended pre d' = Inr d1" "run_stmt st' d1 = Inl e"
        "run_steps NeonHttp ss (session_of d') = (Some e, session_of d1)"
        using Cons.IH[of d'] by auto
      with Inr Await show ?thesis
        by (intro exI[of _ "x # pre"] exI[of _ st'] exI[of _ post] exI[of _ d1]) (simp add: exec_def neon_exec_step)
    qed
  next
    case (AwaitCatch st)
    define d' where "d' = (case run_stmt st d of Inl _ \<Rightarrow> d | Inr d2 \<Rightarrow> d2)"
    have rs: "snd (exec NeonHttp st (session_of d)) = session_of d'" and ri: "run_intended ss d' = Inl e"
      using Cons.prems AwaitCatch by (auto simp: d'_def exec_def neon_exec_step split: sum.splits)
    obtain pre st' post d1 where
      "ss = pre @ Await st' # post" "run_intended pre d' = Inr d1" "run_stmt st' d1 = Inl e"
      "run_steps NeonHttp ss (session_of d') = (Some e, session_of d1)"
      using Cons.IH[OF ri] by auto
    with AwaitCatch rs show ?thesis
      by (intro exI[of _ "x # pre"] exI[of _ st'] exI[of _ post] exI[of _ d1])
         (auto simp: d'_def split: sum.splits)
  qed
qed

subsection \<open>Loading the environment\<close>

lemma load_env_keeps: "e k = Some v \<Longrightarrow> load_env fs p c e k = Some v"
  by (simp add: load_env_def dotenv_config_def split: option.splits)

subsection \<open>The run controller\<close>

text \<open>
  C1: on the \<open>pg\<close> path, when every swallowed statement succeeds, \<open>main\<close> implements
  the specification exactly: it commits the result of the intended run, or reports the
  run's first error and leaves the store as it was.
\<close>

theorem migrate_pg_refines:
  assumes "no_tx_control ss" and "catches_succeed ss d"
  shows "migrate_main PgClient ss (session_of d) =
           (case run_intended ss d of
              Inr d' \<Rightarrow> Committed (session_of d')
            | Inl e \<Rightarrow> RolledBack e (session_of d))"
proof (cases "run_intended ss d")
  case (Inl e)
  then obtain d1 where
    "run_steps PgClient ss \<lparr>store = d, txn_state = InTxn d\<rparr>
     = (Some e, \<lparr>store = d1, txn_state = Aborted d\<rparr>)"
    using pg_steps_fail assms by blast
  with Inl show ?thesis by (simp add: migrate_main_def rollback_after_def session_of_def)
next
  case (Inr d')
  then have "run_steps PgClient ss \<lparr>store = d, txn_state = InTxn d\<rparr>
             = (None, \<lparr>store = d', txn_state = InTxn d\<rparr>)"
    using pg_steps_ok assms by blast
  with Inr show ?thesis by (simp add: migrate_main_def session_of_def)
qed

theorem migrate_pg_refines_witness:
  "migrate_main PgClient create_schema (session_of fresh_db) =
     (case run_intended create_schema fresh_db of
        Inr d' \<Rightarrow> Committed (session_of d')
      | Inl e \<Rightarrow> RolledBack e (session_of fresh_db))"
proof -
  have "no_tx_control create_schema" by (simp add: create_schema_def)
  moreover have "catches_succeed create_schema fresh_db"
    by (simp add: create_schema_def fresh_db_def create_extension_pgcrypto_def
        create_table_clients_def create_table_appointments_def create_table_admins_def)
  ultimately show ?thesis by (rule migrate_pg_refines)
qed

text \<open>
  C2: on the \<open>pg\<close> path a run is all or nothing, whatever the statements do: it rolls
  back to the initial store, or commits the initial store, or commits the result of the
  intended run.  No outcome keeps part of a run.
\<close>

theorem migrate_pg_all_or_nothing:
  assumes "no_tx_control ss"
  shows "(\<exists>e. migrate_main PgClient ss (session_of d) = RolledBack e (session_of d))
         \<or> migrate_main PgClient ss (session_of d) = Committed (session_of d)
         \<or> (\<exists>d'. run_intended ss d = Inr d'
                 \<and> migrate_main PgClient ss (session_of d) = Committed (session_of d'))"
proof -
  obtain r s' where rs: "run_steps PgClient ss \<lparr>store = d, txn_state = InTxn d\<rparr> = (r, s')"
    by (metis surj_pair)
  from pg_steps_shape [OF assms rs] show ?thesis
  proof
    assume ok: "r = None \<and> txn_state s' = InTxn d \<and> run_intended ss d = Inr (store s')"
    then obtain d1 where s': "s' = \<lparr>store = d1, txn_state = InTxn d\<rparr>" by (cases s') simp
    with rs ok show ?thesis by (simp add: migrate_main_def session_of_def)
  next
    assume "txn_state s' = Aborted d"
    then obtain d1 where s': "s' = \<lparr>store = d1, txn_state = Aborted d\<rparr>" by (cases s') simp
    show ?thesis
    proof (cases r)
      case None
      with rs s' show ?thesis by (simp add: migrate_main_def session_of_def)
    next
      case (Some e)
      with rs s' show ?thesis by (simp add: migrate_main_def rollback_after_def session_of_def)
    qed
  qed
qed

theorem migrate_pg_all_or_nothing_witness:
  "(\<exists>e. migrate_main PgClient create_schema (session_of fresh_db) = RolledBack e (session_of fresh_db))
   \<or> migrate_main PgClient create_schema (session_of fresh_db) = Committed (session_of fresh_db)
   \<or> (\<exists>d'. run_intended create_schema fresh_db = Inr d'
           \<and> migrate_main PgClient create_schema (session_of fresh_db) = Committed (session_of d'))"
  by (rule migrate_pg_all_or_nothing) (simp add: create_schema_def)

text \<open>
  C3: on the Neon HTTP path a successful run commits the intended result, but a failed
  run reports its error with every statement before the failure already committed: the
  store after \<open>rollback()\<close> is the store at the failure, not the initial one.
\<close>

theorem migrate_neon_outcome:
  "(run_intended ss d = Inr d' \<longrightarrow> migrate_main NeonHttp ss (session_of d) = Committed (session_of d'))
   \<and> (run_intended ss d = Inl e \<longrightarrow>
        (\<exists>pre st post d1. ss = pre @ Await st # post \<and> run_intended pre d = Inr d1 \<and> run_stmt st d1 = Inl e
                          \<and> migrate_main NeonHttp ss (session_of d) = RolledBack e (session_of d1)))"
proof (intro conjI impI)
  assume "run_intended ss d = Inr d'"
  with neon_steps_ok [OF this] show "migrate_main NeonHttp ss (session_of d) = Committed (session_of d')"
    by (simp add: migrate_main_def exec_neon_def)
next
  assume "run_intended ss d = Inl e"
  then obtain pre st post d1 where "ss = pre @ Await st # post" "run_intended pre d = Inr d1"
    "run_stmt st d1 = Inl e" "run_steps NeonHttp ss (session_of d) = (Some e, session_of d1)"
    using neon_steps_fail_prefix by blast
  then show "\<exists>pre st post d1. ss = pre @ Await st # post \<and> run_intended pre d = Inr d1 \<and> run_stmt st d1 = Inl e
                          \<and> migrate_main NeonHttp ss (session_of d) = RolledBack e (session_of d1)"
    by (auto simp: migrate_main_def rollback_after_def exec_neon_def)
qed

theorem migrate_neon_outcome_witness:
  "run_intended [Await CreateTableClients, Await (InsertAdmin DoNothing ''a@x'' ''h'' ''A'')] fresh_db
      = Inl (UndefinedTable ''admins'')
   \<and> (\<exists>pre st post d1. [Await CreateTableClients, Await (InsertAdmin DoNothing ''a@x'' ''h'' ''A'')] = pre @ Await st # post
         \<and> run_intended pre fresh_db = Inr d1 \<and> run_stmt st d1 = Inl (UndefinedTable ''admins'')
         \<and> migrate_main NeonHttp [Await CreateTableClients, Await (InsertAdmin DoNothing ''a@x'' ''h'' ''A'')]
             (session_of fresh_db) = RolledBack (UndefinedTable ''admins'') (session_of d1))"
proof -
  have "run_intended [Await CreateTableClients, Await (InsertAdmin DoNothing ''a@x'' ''h'' ''A'')] fresh_db
      = Inl (UndefinedTable ''admins'')"
    by (simp add: fresh_db_def create_table_clients_def insert_admin_def)
  then show ?thesis
    using migrate_neon_outcome[of "[Await CreateTableClients, Await (InsertAdmin DoNothing ''a@x'' ''h'' ''A'')]"
            fresh_db fresh_db "UndefinedTable ''admins''"] by simp
qed

lemma plan_no_tx_control [simp]: "no_tx_control (migration_plan H e reset redo)"
  by (simp add: migration_plan_def drop_schema_def create_schema_def seed_admin_def
      seed_clients_def seed_client_data_def)

text \<open>
  C8: the error of \<open>CREATE EXTENSION\<close> is swallowed by \<open>.catch(() => {})\<close>, but on the
  \<open>pg\<close> path the statement runs inside the transaction, which PostgreSQL has then
  aborted: where \<open>pgcrypto\<close> can not be installed, every run rolls back with
  "current transaction is aborted", whatever its mode.
\<close>

theorem pg_extension_failure_aborts_run:
  assumes "\<not> pgcrypto_installed d" and "\<not> pgcrypto_available d"
  shows "migrate_main PgClient (migration_plan H e reset redo) (session_of d)
         = RolledBack InFailedTransaction (session_of d)"
  using assms
  by (cases reset) (simp_all add: migrate_main_def rollback_after_def migration_plan_def
      drop_schema_def create_schema_def exec_pg_data create_extension_pgcrypto_def
      drop_table_appointments_def drop_table_clients_def drop_table_admins_def)

theorem pg_extension_failure_aborts_run_witness:
  "migrate_main PgClient (migration_plan (\<lambda>c p. p) (\<lambda>_. None) False False)
     (session_of (fresh_db\<lparr>pgcrypto_available := False\<rparr>))
   = RolledBack InFailedTransaction (session_of (fresh_db\<lparr>pgcrypto_available := False\<rparr>))"
  by (rule pg_extension_failure_aborts_run) (simp_all add: fresh_db_def)

end
