(* ===== verification/Query.thy ===== *)
theory Query
  imports Adapter Js "HOL-Library.Sublist"
begin

text \<open>
  What the route handlers' queries rely on in the \<open>pg\<close> driver and in PostgreSQL:
  the text \<open>node-postgres\<close> sends for a JavaScript parameter (\<open>prepareValue\<close>:
  \<open>undefined\<close> and \<open>null\<close> are SQL \<open>NULL\<close>, arrays become array literals, objects
  \<open>JSON.stringify\<close>), the input functions of the column types the handlers compare
  or store (\<open>uuid\<close>, \<open>integer\<close>, \<open>bigint\<close>), the row counts of \<open>LIMIT\<close> and
  \<open>OFFSET\<close>, and \<open>ILIKE\<close> with its wildcards \<open>%\<close> and \<open>_\<close> and escape character
  \<open>\\\<close>.  A failing conversion is the \<open>sql_error\<close> PostgreSQL raises.  Identifiers
  are the store's counter values; their text is written in decimal, which stands for
  the canonical UUID text (a string that is not one is rejected by \<open>uuid_in\<close>).
  Integer input is the decimal syntax with surrounding white space.
\<close>

section \<open>Definitions\<close>

subsection \<open>Parameters\<close>

definition uuid_text :: "uuid \<Rightarrow> string" where
  "uuid_text u = show_nat u"

text \<open>\<open>arrayString\<close> of \<open>node-postgres\<close>: elements quoted with \<open>\\\<close> and \<open>"\<close> escaped.\<close>

definition pg_quote :: "string \<Rightarrow> string" where
  "pg_quote s = CHR 0x22 # concat (map (\<lambda>c. if c = CHR 0x5C \<or> c = CHR 0x22 then [CHR 0x5C, c] else [c]) s)
                  @ [CHR 0x22]"

fun pg_scalar_text :: "json \<Rightarrow> string" where
  "pg_scalar_text (JBool b) = (if b then ''true'' else ''false'')"
| "pg_scalar_text (JNum n) = show_int n"
| "pg_scalar_text (JStr s) = s"
| "pg_scalar_text j = json_stringify j"

fun pg_array_text :: "json \<Rightarrow> string" where
  "pg_array_text (JArr xs) = CHR ''{'' # join_with '','' (map pg_array_text xs) @ ''}''"
| "pg_array_text JNull = ''NULL''"
| "pg_array_text j = pg_quote (pg_scalar_text j)"

text \<open>\<open>prepareValue\<close>: the text sent for \<open>$n\<close>, \<open>None\<close> for SQL \<open>NULL\<close>.\<close>

fun pg_param :: "json option \<Rightarrow> string option" where
  "pg_param None = None"
| "pg_param (Some JNull) = None"
| "pg_param (Some (JArr xs)) = Some (pg_array_text (JArr xs))"
| "pg_param (Some j) = Some (pg_scalar_text j)"

subsection \<open>Typed input\<close>

definition dec_digit :: "char \<Rightarrow> bool" where
  "dec_digit c \<longleftrightarrow> (let n = (of_char c :: nat) in 48 \<le> n \<and> n \<le> 57)"

text \<open>\<open>uuid_in\<close>, for the decimal identifier text.\<close>

definition pg_uuid_in :: "string \<Rightarrow> sql_error + uuid" where
  "pg_uuid_in s =
     (if s \<noteq> [] \<and> list_all dec_digit s then Inr (digits_value 10 s)
      else Inl (InvalidTextRepresentation ''uuid''))"

text \<open>
  \<open>int4in\<close> and \<open>int8in\<close>: optional white space, an optional sign, at least one
  decimal digit, optional white space; a value outside the type's range is out of range.
\<close>

definition pg_int_in :: "string \<Rightarrow> nat \<Rightarrow> string \<Rightarrow> sql_error + int" where
  "pg_int_in ty bits s =
     (let t = js_trim s;
          (sgn, ds) = (case t of
                         c # r \<Rightarrow> (if c = CHR ''-'' then (-1::int, r)
                                  else if c = CHR ''+'' then (1, r) else (1, t))
                       | [] \<Rightarrow> (1, t))
      in if ds = [] \<or> \<not> list_all dec_digit ds then Inl (InvalidTextRepresentation ty)
         else (let v = sgn * int (digits_value 10 ds)
               in if - (2 ^ (bits - 1)) \<le> v \<and> v < 2 ^ (bits - 1) then Inr v
                  else Inl (NumericValueOutOfRange ty)))"

definition pg_int4_in :: "string \<Rightarrow> sql_error + int" where
  "pg_int4_in = pg_int_in ''integer'' 32"

definition pg_int8_in :: "string \<Rightarrow> sql_error + int" where
  "pg_int8_in = pg_int_in ''bigint'' 64"

text \<open>\<open>LIMIT $n OFFSET $m\<close> with \<open>bigint\<close> parameters: negative counts are rejected.\<close>

definition pg_limit_offset :: "string \<Rightarrow> string \<Rightarrow> sql_error + (nat \<times> nat)" where
  "pg_limit_offset lt ot =
     (case pg_int8_in lt of
        Inl e \<Rightarrow> Inl e
      | Inr lim \<Rightarrow>
          (case pg_int8_in ot of
             Inl e \<Rightarrow> Inl e
           | Inr off \<Rightarrow>
               (if lim < 0 then Inl InvalidRowCountInLimit
                else if off < 0 then Inl InvalidRowCountInOffset
                else Inr (nat lim, nat off))))"

subsection \<open>Pattern matching\<close>

text \<open>
  \<open>LIKE\<close>: \<open>%\<close> matches any run of characters, \<open>_\<close> any one character, \<open>\\\<close>
  makes the next character literal.  (A pattern ending in a lone \<open>\\\<close>, which
  PostgreSQL rejects, never arises from the handlers' patterns, which end in \<open>%\<close>.)
\<close>

fun like_match :: "string \<Rightarrow> string \<Rightarrow> bool" where
  "like_match [] s = (s = [])"
| "like_match (c # p) s =
     (if c = CHR ''%'' then like_match p s \<or> (case s of [] \<Rightarrow> False | _ # s' \<Rightarrow> like_match (c # p) s')
      else if c = CHR ''_'' then (case s of [] \<Rightarrow> False | _ # s' \<Rightarrow> like_match p s')
      else if c = CHR 0x5C \<and> p \<noteq> [] then
        (case s of [] \<Rightarrow> False | x # s' \<Rightarrow> x = hd p \<and> like_match (tl p) s')
      else (case s of [] \<Rightarrow> False | x # s' \<Rightarrow> x = c \<and> like_match p s'))"

declare like_match.simps(2) [simp del]

text \<open>\<open>v ILIKE p\<close>: \<open>LIKE\<close> on the lower-cased value and pattern.\<close>

definition ilike :: "string \<Rightarrow> string \<Rightarrow> bool" where
  "ilike v p = like_match (map ascii_lower p) (map ascii_lower v)"

definition like_special :: "char \<Rightarrow> bool" where
  "like_special c \<longleftrightarrow> c = CHR ''%'' \<or> c = CHR ''_'' \<or> c = CHR 0x5C"

section \<open>Lemmas\<close>

subsection \<open>Pattern matching\<close>

lemma ex_drop_Cons:
  "(\<exists>k \<le> length (x # s). Q (drop k (x # s))) \<longleftrightarrow> Q (x # s) \<or> (\<exists>k \<le> length s. Q (drop k s))"
proof
  assume "\<exists>k \<le> length (x # s). Q (drop k (x # s))"
  then obtain k where "k \<le> length (x # s)" "Q (drop k (x # s))" by blast
  then show "Q (x # s) \<or> (\<exists>k \<le> length s. Q (drop k s))" by (cases k) auto
next
  assume "Q (x # s) \<or> (\<exists>k \<le> length s. Q (drop k s))"
  then show "\<exists>k \<le> length (x # s). Q (drop k (x # s))"
  proof
    assume "Q (x # s)"
    then show ?thesis by (intro exI[of _ 0]) simp
  next
    assume "\<exists>k \<le> length s. Q (drop k s)"
    then obtain k where "k \<le> length s" "Q (drop k s)" by blast
    then show ?thesis by (intro exI[of _ "Suc k"]) simp
  qed
qed

lemma like_percent_Nil: "like_match (CHR ''%'' # p) [] = like_match p []"
  by (subst like_match.simps(2)) simp

lemma like_percent_Cons:
  "like_match (CHR ''%'' # p) (x # s) = (like_match p (x # s) \<or> like_match (CHR ''%'' # p) s)"
  by (subst like_match.simps(2)) simp

lemma like_percent:
  "like_match (CHR ''%'' # p) s \<longleftrightarrow> (\<exists>k \<le> length s. like_match p (drop k s))"
proof (induction s)
  case Nil
  then show ?case by (simp add: like_percent_Nil)
next
  case (Cons x s)
  then show ?case by (simp only: like_percent_Cons ex_drop_Cons)
qed

lemma like_plain:
  "\<not> like_special c \<Longrightarrow> like_match (c # p) [] = False"
  "\<not> like_special c \<Longrightarrow> like_match (c # p) (x # s) = (x = c \<and> like_match p s)"
  by (subst like_match.simps(2); auto simp: like_special_def)+

lemma like_underscore:
  "like_match (CHR ''_'' # p) [] = False"
  "like_match (CHR ''_'' # p) (x # s) = like_match p s"
  by (subst like_match.simps(2); simp)+

lemma like_literal:
  "list_all (\<lambda>c. \<not> like_special c) l \<Longrightarrow>
   like_match (l @ p) s \<longleftrightarrow> (\<exists>t. s = l @ t \<and> like_match p t)"
proof (induction l arbitrary: s)
  case Nil
  then show ?case by simp
next
  case (Cons c l)
  then show ?case by (cases s) (auto simp: like_plain)
qed

lemma like_all: "like_match ''%'' s"
  by (simp add: like_percent) (metis drop_all le_refl)

lemma like_any_char: "like_match (CHR ''_'' # ''%'') s \<longleftrightarrow> s \<noteq> []"
  by (cases s) (simp_all add: like_underscore like_all)

lemma like_contains:
  assumes "list_all (\<lambda>c. \<not> like_special c) q"
  shows "like_match (CHR ''%'' # q @ ''%'') s \<longleftrightarrow> sublist q s"
proof -
  have "like_match (CHR ''%'' # q @ ''%'') s \<longleftrightarrow> (\<exists>k \<le> length s. \<exists>t. drop k s = q @ t)"
    using assms by (simp add: like_percent[of "q @ ''%''"] like_literal like_all)
  also have "\<dots> \<longleftrightarrow> sublist q s"
  proof
    assume "\<exists>k \<le> length s. \<exists>t. drop k s = q @ t"
    then obtain k t where "drop k s = q @ t" by blast
    then have "s = take k s @ q @ t" by (metis append_take_drop_id)
    then show "sublist q s" by (metis sublist_def)
  next
    assume "sublist q s"
    then obtain ps ss where s: "s = ps @ q @ ss" by (auto simp: sublist_def)
    then show "\<exists>k \<le> length s. \<exists>t. drop k s = q @ t"
      by (intro exI[of _ "length ps"]) auto
  qed
  finally show ?thesis .
qed

lemma ascii_lower_range: "ascii_lower c = c \<or> ascii_lower c \<in> set ''abcdefghijklmnopqrstuvwxyz''"
  by (auto simp: ascii_lower_def dest: map_of_SomeD set_zip_rightD split: option.splits)

lemma like_special_lower [simp]: "like_special (ascii_lower c) \<longleftrightarrow> like_special c"
proof (cases "ascii_lower c = c")
  case False
  then have "ascii_lower c \<in> set ''abcdefghijklmnopqrstuvwxyz''" using ascii_lower_range by blast
  moreover have "\<not> like_special c"
    using False by (auto simp: ascii_lower_def like_special_def split: option.splits)
  ultimately show ?thesis by (auto simp: like_special_def)
qed simp

lemma ascii_lower_percent [simp]: "ascii_lower CHR ''%'' = CHR ''%''"
  by (simp add: ascii_lower_def)

lemma ascii_lower_underscore [simp]: "ascii_lower CHR ''_'' = CHR ''_''"
  by (simp add: ascii_lower_def)

lemma ilike_search_contains:
  assumes "list_all (\<lambda>c. \<not> like_special c) s"
  shows "ilike v (CHR ''%'' # s @ ''%'') \<longleftrightarrow> sublist (map ascii_lower s) (map ascii_lower v)"
  using assms by (simp add: ilike_def like_contains list_all_iff)

lemma ilike_underscore_any: "ilike v ''%_%'' \<longleftrightarrow> v \<noteq> []"
proof -
  have "ilike v ''%_%'' \<longleftrightarrow> (\<exists>k \<le> length v. drop k (map ascii_lower v) \<noteq> [])"
    by (simp add: ilike_def like_percent like_any_char)
  also have "\<dots> \<longleftrightarrow> v \<noteq> []"
  proof
    assume "\<exists>k \<le> length v. drop k (map ascii_lower v) \<noteq> []"
    then show "v \<noteq> []" by auto
  next
    assume "v \<noteq> []"
    then show "\<exists>k \<le> length v. drop k (map ascii_lower v) \<noteq> []"
      by (intro exI[of _ 0]) simp
  qed
  finally show ?thesis .
qed
subsection \<open>Typed input\<close>

lemma digit_value_dec: "digit_value 10 c \<noteq> None \<Longrightarrow> dec_digit c"
  by (simp add: digit_value_def dec_digit_def Let_def split: if_splits)

lemma show_nat_dec_digits: "list_all dec_digit (show_nat n)"
  using show_nat_digits[of n] by (simp add: list_all_iff digit_value_dec)

lemma js_trim_show_int: "js_trim (show_int v) = show_int v"
proof -
  have "\<not> js_space (CHR ''-'')" by (simp add: js_space_def)
  then show ?thesis
    by (intro js_trim_no_space) (simp add: show_int_def show_nat_no_space)
qed

lemma pg_int_in_show_int:
  "pg_int_in ty b (show_int v) =
     (if - (2 ^ (b - 1)) \<le> v \<and> v < 2 ^ (b - 1) then Inr v else Inl (NumericValueOutOfRange ty))"
proof (cases "v < 0")
  case True
  then show ?thesis unfolding pg_int_in_def js_trim_show_int
    by (simp add: show_int_def show_nat_dec_digits show_nat_value)
next
  case False
  then show ?thesis unfolding pg_int_in_def js_trim_show_int
    by (simp add: show_int_def show_nat_sign show_nat_dec_digits show_nat_value)
qed

lemma pg_limit_offset_ok:
  assumes "0 \<le> l" "l < 2 ^ 63" "0 \<le> off" "off < 2 ^ 63"
  shows "pg_limit_offset (show_int l) (show_int off) = Inr (nat l, nat off)"
  using assms by (simp add: pg_limit_offset_def pg_int8_in_def pg_int_in_show_int)

lemma pg_limit_offset_neg:
  assumes "0 \<le> l" "l < 2 ^ 63" "off < 0"
  shows "\<exists>err. pg_limit_offset (show_int l) (show_int off) = Inl err"
  using assms by (simp add: pg_limit_offset_def pg_int8_in_def pg_int_in_show_int)

lemma pg_int_in_NaN: "pg_int_in ty b ''NaN'' = Inl (InvalidTextRepresentation ty)"
  by (simp add: pg_int_in_def js_trim_def js_space_def dec_digit_def)

end
