(* ===== verification/Auth.thy ===== *)
theory Auth
  imports Query Credentials
begin

text \<open>
  Session authentication: the helpers of \<^verbatim>\<open>src/lib/auth.ts\<close> and the login
  route \<^verbatim>\<open>src/app/api/auth/login/route.ts\<close>.  \<open>jsonwebtoken\<close> and \<open>bcryptjs\<close>
  are libraries the code only calls, so they are parameters: a \<open>jwt_lib\<close> signs a
  payload with a secret at an issue time and verifies a token with a secret at the
  current time (\<open>None\<close> where \<open>jwt.verify\<close> throws: bad signature, expired, malformed);
  \<open>jwt_contract\<close> is what the code relies on of such a library: a token it signs
  verifies with the same secret to its payload for 24 hours.
  A \<open>bcrypt_compare\<close> is \<open>bcrypt.compare\<close> on strings.  A request carries its headers
  (\<open>request.headers.get\<close>, by lower-case name), its query string, its body (\<open>None\<close>
  when \<open>request.json()\<close> rejects) and the \<open>user\<close> field \<open>requireAuth\<close> attaches.
  A handler takes the request, the route context and the store, and returns its
  response and the store.
\<close>

section \<open>Definitions\<close>

record jwt_payload =
  adminId :: string
  pl_email :: string

record jwt_lib =
  jwt_sign :: "string \<Rightarrow> int \<Rightarrow> jwt_payload \<Rightarrow> string"
  jwt_verify :: "string \<Rightarrow> int \<Rightarrow> string \<Rightarrow> jwt_payload option"

type_synonym bcrypt_compare = "string \<Rightarrow> string \<Rightarrow> bool"

record request =
  req_headers :: "string \<Rightarrow> string option"
  req_query :: "(string \<times> string) list"
  req_body :: "json option"
  req_user :: "jwt_payload option"

type_synonym 'c handler = "request \<Rightarrow> 'c \<Rightarrow> db \<Rightarrow> response \<times> db"

subsection \<open>\<^verbatim>\<open>src/lib/auth.ts\<close>\<close>

definition jwt_secret :: "env \<Rightarrow> string" where
  "jwt_secret e = js_or (e ''JWT_SECRET'') ''fallback-secret''"

text \<open>\<open>jwt.sign(payload, JWT_SECRET, { expiresIn: "24h" })\<close>, issued at \<open>now\<close>.\<close>

definition generate_token :: "jwt_lib \<Rightarrow> env \<Rightarrow> int \<Rightarrow> jwt_payload \<Rightarrow> string" where
  "generate_token lib e now pl = jwt_sign lib (jwt_secret e) now pl"

definition verify_token :: "jwt_lib \<Rightarrow> env \<Rightarrow> int \<Rightarrow> string \<Rightarrow> jwt_payload option" where
  "verify_token lib e now tok = jwt_verify lib (jwt_secret e) now tok"

text \<open>
  What the routes rely on from \<open>jsonwebtoken\<close>: a token signed with a secret at time
  \<open>now\<close> (in seconds) is not empty, and verifying it with the same secret succeeds,
  with its payload, for the 24 hours of \<open>expiresIn: "24h"\<close>.
\<close>

definition jwt_contract :: "jwt_lib \<Rightarrow> bool" where
  "jwt_contract lib \<longleftrightarrow>
     (\<forall>s t t' pl. t \<le> t' \<and> t' < t + 86400 \<longrightarrow>
        jwt_sign lib s t pl \<noteq> [] \<and> jwt_verify lib s t' (jwt_sign lib s t pl) = Some pl)"

definition hash_password :: "hasher \<Rightarrow> string \<Rightarrow> string" where
  "hash_password H p = H 10 p"

text \<open>\<open>bcrypt.compare\<close> rejects an argument that is not a string (\<open>None\<close>).\<close>

definition compare_password :: "bcrypt_compare \<Rightarrow> json option \<Rightarrow> string \<Rightarrow> bool option" where
  "compare_password cmp pw h = (case pw of Some (JStr p) \<Rightarrow> Some (cmp p h) | _ \<Rightarrow> None)"

definition bearer_prefix :: string where
  "bearer_prefix = ''Bearer ''"

definition get_token_from_request :: "request \<Rightarrow> string option" where
  "get_token_from_request req =
     (case req_headers req ''authorization'' of
        None \<Rightarrow> None
      | Some h \<Rightarrow> (if h \<noteq> [] \<and> take 7 h = bearer_prefix then Some (drop 7 h) else None))"

definition require_auth :: "jwt_lib \<Rightarrow> env \<Rightarrow> int \<Rightarrow> 'c handler \<Rightarrow> 'c handler" where
  "require_auth lib e now h req c d =
     (case get_token_from_request req of
        None \<Rightarrow> (error_response 401 ''Authentication required'', d)
      | Some t \<Rightarrow>
          (if t = [] then (error_response 401 ''Authentication required'', d)
           else (case verify_token lib e now t of
                   None \<Rightarrow> (error_response 401 ''Invalid or expired token'', d)
                 | Some pl \<Rightarrow> h (req\<lparr>req_user := Some pl\<rparr>) c d)))"

subsection \<open>\<^verbatim>\<open>POST /api/auth/login\<close>\<close>

definition login_body :: "string \<Rightarrow> admin_row \<Rightarrow> json" where
  "login_body tok a =
     JObj [(''token'', JStr tok),
           (''admin'', JObj [(''id'', JStr (uuid_text (ad_id a))), (''email'', JStr (ad_email a)),
                             (''name'', JStr (ad_name a))])]"

definition internal_error :: response where
  "internal_error = error_response 500 ''Internal server error''"

text \<open>
  \<open>SELECT id, email, password_hash, name FROM admins WHERE email = $1\<close> compares
  the column with the text of the parameter; the first row is the admin.
\<close>

definition login_post :: "jwt_lib \<Rightarrow> bcrypt_compare \<Rightarrow> env \<Rightarrow> int \<Rightarrow> request \<Rightarrow> db \<Rightarrow> response" where
  "login_post lib cmp e now req d =
     (case req_body req of
        None \<Rightarrow> internal_error
      | Some j \<Rightarrow>
     (case destructure j of
        None \<Rightarrow> internal_error
      | Some f \<Rightarrow>
     (if \<not> field_truthy (f ''email'') \<or> \<not> field_truthy (f ''password'')
      then error_response 400 ''Email and password are required''
      else
     (case admins d of
        None \<Rightarrow> internal_error
      | Some rs \<Rightarrow>
     (case filter (\<lambda>r. pg_param (f ''email'') = Some (ad_email r)) rs of
        [] \<Rightarrow> error_response 401 ''Invalid credentials''
      | a # _ \<Rightarrow>
     (case compare_password cmp (f ''password'') (ad_password_hash a) of
        None \<Rightarrow> internal_error
      | Some False \<Rightarrow> error_response 401 ''Invalid credentials''
      | Some True \<Rightarrow>
          json_response (login_body
            (generate_token lib e now \<lparr>adminId = uuid_text (ad_id a), pl_email = ad_email a\<rparr>) a)))))))"

section \<open>Lemmas\<close>

lemma jwt_contract_token:
  assumes "jwt_contract lib"
  shows "generate_token lib e now pl \<noteq> []"
  using assms unfolding jwt_contract_def generate_token_def by (metis less_add_same_cancel1 order_refl zero_less_numeral)

lemma bearer_header:
  "take 7 h = bearer_prefix \<Longrightarrow> h = bearer_prefix @ drop 7 h"
  by (metis append_take_drop_id)

lemma get_token_bearer:
  "get_token_from_request req = Some t \<longleftrightarrow> req_headers req ''authorization'' = Some (bearer_prefix @ t)"
  by (auto simp: get_token_from_request_def bearer_prefix_def split: option.splits if_splits
      dest: bearer_header[unfolded bearer_prefix_def])

lemma login_fields:
  assumes "req_body req = Some (JObj kvs)"
    and "json_get kvs ''email'' = Some (JStr em)" and "json_get kvs ''password'' = Some (JStr p)"
    and "em \<noteq> []" and "p \<noteq> []" and "admins d = Some rs"
  shows "login_post lib cmp e now req d =
     (case filter (\<lambda>r. em = ad_email r) rs of
        [] \<Rightarrow> error_response 401 ''Invalid credentials''
      | a # _ \<Rightarrow> (if cmp p (ad_password_hash a)
                 then json_response (login_body
                        (generate_token lib e now \<lparr>adminId = uuid_text (ad_id a), pl_email = ad_email a\<rparr>) a)
                 else error_response 401 ''Invalid credentials''))"
  using assms
  by (simp add: login_post_def compare_password_def split: list.split)

text \<open>
  C10: \<open>requireAuth\<close> runs the wrapped handler only for a request whose
  \<open>Authorization\<close> header is \<open>Bearer\<close> followed by a non-empty token that verifies,
  with the verified payload attached as \<open>request.user\<close>; every other request is
  answered 401 and leaves the store unchanged.
\<close>

theorem require_auth_only_verified:
  "require_auth lib e now h req c d = (error_response 401 ''Authentication required'', d)
   \<or> require_auth lib e now h req c d = (error_response 401 ''Invalid or expired token'', d)
   \<or> (\<exists>t pl. req_headers req ''authorization'' = Some (bearer_prefix @ t) \<and> t \<noteq> []
        \<and> verify_token lib e now t = Some pl
        \<and> require_auth lib e now h req c d = h (req\<lparr>req_user := Some pl\<rparr>) c d)"
  by (cases "get_token_from_request req")
     (auto simp: require_auth_def split: option.splits dest: get_token_bearer[THEN iffD1])

text \<open>
  C11: when \<open>JWT_SECRET\<close> is unset or empty, tokens are signed and checked with the
  constant \<open>"fallback-secret"\<close> of the source, so any token signed with that public
  constant passes \<open>requireAuth\<close> and reaches the handler.
\<close>

theorem fallback_secret_token_accepted:
  assumes "\<not> js_truthy (e ''JWT_SECRET'')"
    and "jwt_verify lib ''fallback-secret'' now tok = Some pl" and "tok \<noteq> []"
    and "req_headers req ''authorization'' = Some (''Bearer '' @ tok)"
  shows "require_auth lib e now h req c d = h (req\<lparr>req_user := Some pl\<rparr>) c d"
proof -
  have "jwt_secret e = ''fallback-secret''"
    using assms(1) by (simp add: jwt_secret_def js_or_truthy)
  moreover have "get_token_from_request req = Some tok"
    using assms(4) by (simp add: get_token_bearer bearer_prefix_def)
  ultimately show ?thesis
    using assms(2,3) by (simp add: require_auth_def verify_token_def)
qed

theorem fallback_secret_token_accepted_witness:
  "require_auth \<lparr>jwt_sign = \<lambda>s t p. s,
                 jwt_verify = \<lambda>s n tok. if tok = s then Some \<lparr>adminId = ''0'', pl_email = ''x''\<rparr> else None\<rparr>
     (\<lambda>_. None) 0 (\<lambda>r c d. (json_response (JStr ''ok''), d))
     \<lparr>req_headers = \<lambda>k. if k = ''authorization'' then Some ''Bearer fallback-secret'' else None,
      req_query = [], req_body = None, req_user = None\<rparr> () fresh_db
   = (json_response (JStr ''ok''), fresh_db)"
  using fallback_secret_token_accepted
    [of "\<lambda>_. None" "\<lparr>jwt_sign = \<lambda>s t p. s,
         jwt_verify = \<lambda>s n tok. if tok = s then Some \<lparr>adminId = ''0'', pl_email = ''x''\<rparr> else None\<rparr>"
        0 "''fallback-secret''" "\<lparr>adminId = ''0'', pl_email = ''x''\<rparr>"
        "\<lparr>req_headers = \<lambda>k. if k = ''authorization'' then Some ''Bearer fallback-secret'' else None,
          req_query = [], req_body = None, req_user = None\<rparr>"
        "\<lambda>r c d. (json_response (JStr ''ok''), d)" "()" fresh_db]
  by simp

text \<open>
  C12: login answers an unknown email and a wrong password with the same 401
  response, so a caller cannot tell which of the two failed.
\<close>

theorem login_uniform_rejection:
  assumes "req_body req = Some (JObj kvs)"
    and "json_get kvs ''email'' = Some (JStr em)" and "json_get kvs ''password'' = Some (JStr p)"
    and "em \<noteq> []" and "p \<noteq> []" and "admins d = Some rs"
    and "\<not> (\<exists>a \<in> set rs. ad_email a = em \<and> cmp p (ad_password_hash a))"
  shows "login_post lib cmp e now req d = error_response 401 ''Invalid credentials''"
proof -
  have "\<not> cmp p (ad_password_hash a)" if "filter (\<lambda>r. em = ad_email r) rs = a # r" for a r
  proof -
    have "a \<in> set (filter (\<lambda>r. em = ad_email r) rs)" using that by simp
    then show ?thesis using assms(7) by auto
  qed
  then show ?thesis
    using login_fields[OF assms(1-6)] by (simp split: list.split)
qed

text \<open>
  C13: login with the email and password of a stored admin (emails unique) returns
  200 with a token for the admin's id and email and the admin's public fields.
\<close>

theorem login_success:
  assumes "req_body req = Some (JObj kvs)"
    and "json_get kvs ''email'' = Some (JStr em)" and "json_get kvs ''password'' = Some (JStr p)"
    and "em \<noteq> []" and "p \<noteq> []" and "admins d = Some rs" and "distinct (map ad_email rs)"
    and "a \<in> set rs" and "ad_email a = em" and "cmp p (ad_password_hash a)"
  shows "login_post lib cmp e now req d =
           json_response (login_body
             (generate_token lib e now \<lparr>adminId = uuid_text (ad_id a), pl_email = em\<rparr>) a)"
proof -
  have eq: "(\<lambda>r. em = ad_email r) = (\<lambda>x. ad_email x = ad_email a)"
    using assms(9) by auto
  have "filter (\<lambda>r. em = ad_email r) rs = [a]"
    unfolding eq by (rule distinct_key_filter_single[OF assms(7,8)])
  then show ?thesis using login_fields[OF assms(1-6)] assms(9,10) by simp
qed

theorem login_success_witness:
  "login_post \<lparr>jwt_sign = \<lambda>s t p. ''tok'', jwt_verify = \<lambda>s n t. None\<rparr>
     (\<lambda>p h. p = ''pw'' \<and> h = ''h'') (\<lambda>_. None) 0
     \<lparr>req_headers = \<lambda>_. None, req_query = [],
      req_body = Some (JObj [(''email'', JStr ''a@x''), (''password'', JStr ''pw'')]), req_user = None\<rparr>
     (fresh_db\<lparr>admins := Some [\<lparr>ad_id = 0, ad_email = ''a@x'', ad_password_hash = ''h'', ad_name = ''A'', ad_created_at = 0\<rparr>]\<rparr>)
   = json_response (login_body ''tok'' \<lparr>ad_id = 0, ad_email = ''a@x'', ad_password_hash = ''h'', ad_name = ''A'', ad_created_at = 0\<rparr>)"
  using login_success[where req = "\<lparr>req_headers = \<lambda>_. None, req_query = [],
      req_body = Some (JObj [(''email'', JStr ''a@x''), (''password'', JStr ''pw'')]), req_user = None\<rparr>"
      and kvs = "[(''email'', JStr ''a@x''), (''password'', JStr ''pw'')]" and em = "''a@x''"
      and p = "''pw''" and d = "fresh_db\<lparr>admins := Some [\<lparr>ad_id = 0, ad_email = ''a@x'', ad_password_hash = ''h'', ad_name = ''A'', ad_created_at = 0\<rparr>]\<rparr>" and rs = "[\<lparr>ad_id = 0, ad_email = ''a@x'', ad_password_hash = ''h'', ad_name = ''A'', ad_created_at = 0\<rparr>]"
      and a = "\<lparr>ad_id = 0, ad_email = ''a@x'', ad_password_hash = ''h'', ad_name = ''A'', ad_created_at = 0\<rparr>" and cmp = "\<lambda>p h. p = ''pw'' \<and> h = ''h''"
      and lib = "\<lparr>jwt_sign = \<lambda>s t p. ''tok'', jwt_verify = \<lambda>s n t. None\<rparr>"
      and e = "\<lambda>_. None" and now = 0]
  by (simp add: json_get_def generate_token_def)

theorem login_uniform_rejection_witness:
  "login_post \<lparr>jwt_sign = \<lambda>s t p. ''tok'', jwt_verify = \<lambda>s n t. None\<rparr>
     (\<lambda>p h. p = ''pw'' \<and> h = ''h'') (\<lambda>_. None) 0
     \<lparr>req_headers = \<lambda>_. None, req_query = [],
      req_body = Some (JObj [(''email'', JStr ''a@x''), (''password'', JStr ''guess'')]), req_user = None\<rparr>
     (fresh_db\<lparr>admins := Some [\<lparr>ad_id = 0, ad_email = ''a@x'', ad_password_hash = ''h'', ad_name = ''A'', ad_created_at = 0\<rparr>]\<rparr>)
   = error_response 401 ''Invalid credentials''"
  using login_uniform_rejection[where req = "\<lparr>req_headers = \<lambda>_. None, req_query = [],
      req_body = Some (JObj [(''email'', JStr ''a@x''), (''password'', JStr ''guess'')]), req_user = None\<rparr>"
      and kvs = "[(''email'', JStr ''a@x''), (''password'', JStr ''guess'')]" and em = "''a@x''"
      and p = "''guess''" and d = "fresh_db\<lparr>admins := Some [\<lparr>ad_id = 0, ad_email = ''a@x'', ad_password_hash = ''h'', ad_name = ''A'', ad_created_at = 0\<rparr>]\<rparr>" and rs = "[\<lparr>ad_id = 0, ad_email = ''a@x'', ad_password_hash = ''h'', ad_name = ''A'', ad_created_at = 0\<rparr>]"
      and cmp = "\<lambda>p h. p = ''pw'' \<and> h = ''h''"
      and lib = "\<lparr>jwt_sign = \<lambda>s t p. ''tok'', jwt_verify = \<lambda>s n t. None\<rparr>"
      and e = "\<lambda>_. None" and now = 0]
  by (simp add: json_get_def)
end
