(* ===== verification/ClientsRoute.thy ===== *)
theory ClientsRoute
  imports Auth
begin

text \<open>
  \<open>GET /api/clients\<close> (\<^verbatim>\<open>src/app/api/clients/route.ts\<close>): the optional
  \<open>search\<close> filter (\<open>ILIKE '%search%'\<close> on name, email and phone), pagination with
  \<open>page\<close> and \<open>limit\<close> read by \<open>Number.parseInt\<close>, the row count and
  \<open>totalPages\<close>, behind \<open>requireAuth\<close>.  \<open>ORDER BY created_at DESC\<close> leaves the order
  of rows with equal timestamps to the executor: the model takes the order the executor
  produces as a parameter, a \<open>planner\<close>, and the lemmas state what they need of it.
  The background \<open>mockApiClient.fetchClients()\<close> never rejects (theory \<open>MockApi\<close>) and
  its result is discarded, so it has no effect on the response.  Timestamps are written
  as their numeric value, standing for the ISO text of a \<open>Date\<close>.
\<close>

section \<open>Definitions\<close>

type_synonym 'a planner = "'a list \<Rightarrow> 'a list"

definition ts_json :: "timestamp \<Rightarrow> json" where
  "ts_json t = JStr (show_nat t)"

definition opt_json :: "string option \<Rightarrow> json" where
  "opt_json v = (case v of None \<Rightarrow> JNull | Some s \<Rightarrow> JStr s)"

text \<open>A row of \<open>SELECT * FROM clients\<close> as \<open>NextResponse.json\<close> writes it.\<close>

definition client_json :: "client_row \<Rightarrow> json" where
  "client_json r =
     JObj [(''id'', JStr (uuid_text (cl_id r))), (''external_id'', opt_json (cl_external_id r)),
           (''name'', JStr (cl_name r)), (''email'', JStr (cl_email r)),
           (''phone'', opt_json (cl_phone r)), (''created_at'', ts_json (cl_created_at r)),
           (''updated_at'', ts_json (cl_updated_at r))]"

text \<open>
  \<open>name ILIKE $1 OR email ILIKE $1 OR phone ILIKE $1\<close>: a \<open>NULL\<close> phone makes its
  disjunct unknown, which \<open>WHERE\<close> treats as false.
\<close>

definition client_matches :: "string \<Rightarrow> client_row \<Rightarrow> bool" where
  "client_matches pat r \<longleftrightarrow>
     ilike (cl_name r) pat \<or> ilike (cl_email r) pat
     \<or> (case cl_phone r of None \<Rightarrow> False | Some ph \<Rightarrow> ilike ph pat)"

definition search_filter :: "string \<Rightarrow> client_row list \<Rightarrow> client_row list" where
  "search_filter search rs =
     (if search \<noteq> [] then filter (client_matches (CHR ''%'' # search @ ''%'')) rs else rs)"

text \<open>A JavaScript number as \<open>JSON.stringify\<close> writes it; \<open>NaN\<close> is \<open>null\<close>.\<close>

definition num_json :: "int option \<Rightarrow> json" where
  "num_json n = (case n of None \<Rightarrow> JNull | Some i \<Rightarrow> JNum i)"

text \<open>The text \<open>node-postgres\<close> sends for a JavaScript number parameter.\<close>

definition num_text :: "int option \<Rightarrow> string" where
  "num_text n = (case n of None \<Rightarrow> ''NaN'' | Some i \<Rightarrow> show_int i)"

definition page_offset :: "int option \<Rightarrow> int option \<Rightarrow> int option" where
  "page_offset page limit =
     (case (page, limit) of (Some p, Some l) \<Rightarrow> Some ((p - 1) * l) | _ \<Rightarrow> None)"

definition get_clients :: "client_row planner \<Rightarrow> 'c handler" where
  "get_clients ord req c d =
     (let q = req_query req;
          search = js_or (search_get q ''search'') [];
          page = parse_int (js_or (search_get q ''page'') ''1'');
          limit = parse_int (js_or (search_get q ''limit'') ''10'');
          offset = page_offset page limit
      in case clients d of
           None \<Rightarrow> (error_response 500 ''Failed to fetch clients'', d)
         | Some rs \<Rightarrow>
           (case pg_limit_offset (num_text limit) (num_text offset) of
              Inl _ \<Rightarrow> (error_response 500 ''Failed to fetch clients'', d)
            | Inr (l, off) \<Rightarrow>
                (let matching = search_filter search rs;
                     total = int (length matching)
                 in (json_response
                       (JObj [(''clients'', JArr (map client_json (take l (drop off (ord matching))))),
                              (''total'', JNum total), (''page'', num_json page),
                              (''limit'', num_json limit),
                              (''totalPages'', (case limit of None \<Rightarrow> JNull
                                                | Some lm \<Rightarrow> js_ceil_div total lm))]), d))))"

definition clients_GET :: "jwt_lib \<Rightarrow> env \<Rightarrow> int \<Rightarrow> client_row planner \<Rightarrow> 'c handler" where
  "clients_GET lib e now ord = require_auth lib e now (get_clients ord)"

text \<open>The array member of a response body, as \<open>data.clients\<close> reads it.\<close>

definition json_items :: "json option \<Rightarrow> json list" where
  "json_items v = (case v of Some (JArr xs) \<Rightarrow> xs | _ \<Rightarrow> [])"

text \<open>The specification of the search: the text occurs, ignoring ASCII case.\<close>

definition client_contains :: "string \<Rightarrow> client_row \<Rightarrow> bool" where
  "client_contains s r \<longleftrightarrow>
     sublist (map ascii_lower s) (map ascii_lower (cl_name r))
     \<or> sublist (map ascii_lower s) (map ascii_lower (cl_email r))
     \<or> (case cl_phone r of None \<Rightarrow> False
         | Some ph \<Rightarrow> sublist (map ascii_lower s) (map ascii_lower ph))"

section \<open>Lemmas\<close>

lemma search_filter_contains:
  "list_all (\<lambda>c. \<not> like_special c) s \<Longrightarrow> search_filter s rs = filter (client_contains s) rs"
  by (auto simp: search_filter_def client_matches_def client_contains_def ilike_search_contains
      intro!: filter_cong split: option.splits)

lemma get_clients_ok:
  assumes "clients d = Some rs"
    and "js_or (search_get (req_query req) ''search'') [] = s"
    and "parse_int (js_or (search_get (req_query req) ''page'') ''1'') = Some p"
    and "parse_int (js_or (search_get (req_query req) ''limit'') ''10'') = Some l"
    and "0 \<le> l" "l < 2 ^ 63" "0 \<le> (p - 1) * l" "(p - 1) * l < 2 ^ 63"
  shows "get_clients ord req c d =
    (json_response (JObj
       [(''clients'', JArr (map client_json (take (nat l) (drop (nat ((p - 1) * l)) (ord (search_filter s rs)))))),
        (''total'', JNum (int (length (search_filter s rs)))), (''page'', JNum p), (''limit'', JNum l),
        (''totalPages'', js_ceil_div (int (length (search_filter s rs))) l)]), d)"
  using assms
  by (simp add: get_clients_def Let_def num_text_def page_offset_def num_json_def pg_limit_offset_ok)

text \<open>
  C14: when the executor returns rows with equal timestamps in the same order on every
  query, the pages \<open>1 .. totalPages\<close> of a search, all with the same positive
  \<open>limit\<close>, together list every matching client exactly once, in order.
\<close>

theorem clients_pages_cover:
  assumes "clients d = Some rs" and "0 < l" and "int (length rs) + l < 2 ^ 63"
    and "length (ord (search_filter s rs)) = length (search_filter s rs)"
    and "\<forall>p. js_or (search_get (req_query (rq p)) ''search'') [] = s
             \<and> parse_int (js_or (search_get (req_query (rq p)) ''page'') ''1'') = Some (int p)
             \<and> parse_int (js_or (search_get (req_query (rq p)) ''limit'') ''10'') = Some l"
  shows "concat (map (\<lambda>p. json_items (resp_get (fst (get_clients ord (rq p) c d)) ''clients''))
                  [1..<Suc (nat (- ((- int (length (search_filter s rs))) div l)))])
         = map client_json (ord (search_filter s rs))"
proof -
  let ?xs = "ord (search_filter s rs)"
  let ?n = "int (length (search_filter s rs))"
  let ?k = "nat (- ((- ?n) div l))"
  have len: "length (search_filter s rs) \<le> length rs" by (simp add: search_filter_def)
  have cover: "?n \<le> - ((- ?n) div l) * l" and last: "(- ((- ?n) div l) - 1) * l < ?n"
    using ceil_div_bounds[OF assms(2)] by blast+
  have page: "json_items (resp_get (fst (get_clients ord (rq (Suc i)) c d)) ''clients'')
                = map client_json (take (nat l) (drop (i * nat l) ?xs))" if "i < ?k" for i
  proof -
    have "int i * l \<le> (- ((- ?n) div l) - 1) * l"
      using that assms(2) by (intro mult_right_mono) auto
    moreover have "?n \<le> int (length rs)" using len by simp
    ultimately have "int i * l < 2 ^ 63" using last assms(2,3) by linarith
    moreover have "nat (int i * l) = i * nat l" using assms(2) by (simp add: nat_mult_distrib)
    moreover have "l < 2 ^ 63" using assms(2,3) by linarith
    moreover have "0 \<le> int i * l" using assms(2) by simp
    ultimately show ?thesis
      using assms(1,2,5) get_clients_ok[of d rs "rq (Suc i)" s "int (Suc i)" l ord c]
      by (simp add: resp_get_def json_response_def json_items_def json_get_def)
  qed
  have "concat (map (\<lambda>p. json_items (resp_get (fst (get_clients ord (rq p) c d)) ''clients'')) [1..<Suc ?k])
        = concat (map (\<lambda>i. map client_json (take (nat l) (drop (i * nat l) ?xs))) [0..<?k])"
  proof -
    have eq: "[1..<Suc ?k] = map Suc [0..<?k]" by (simp only: map_Suc_upt One_nat_def)
    show ?thesis unfolding eq map_map
      by (intro arg_cong[where f = concat] map_cong refl) (simp add: page)
  qed
  also have "\<dots> = map client_json (take (?k * nat l) ?xs)"
    by (simp only: concat_pages[symmetric] map_concat map_map comp_def)
  also have "take (?k * nat l) ?xs = ?xs"
  proof -
    have "(- ?n) div l \<le> 0" using assms(2) by (simp add: div_nonpos_pos_le0)
    then have "int (?k * nat l) = - ((- ?n) div l) * l" using assms(2) by simp
    then have "length ?xs \<le> ?k * nat l" using cover assms(4) by linarith
    then show ?thesis by simp
  qed
  finally show ?thesis .
qed

theorem clients_pages_cover_witness:
  "concat (map (\<lambda>p. json_items (resp_get (fst (get_clients id
              (\<lparr>req_headers = \<lambda>_. None, req_query = [(''page'', show_int (int p)), (''limit'', ''1'')], req_body = None, req_user = None\<rparr>) () (fresh_db\<lparr>clients := Some [\<lparr>cl_id = 0, cl_external_id = None, cl_name = ''Ann'', cl_email = ''a@x'', cl_phone = Some ''555'', cl_created_at = 0, cl_updated_at = 0\<rparr>]\<rparr>))) ''clients''))
      [1..<Suc (nat (- ((- int (length (search_filter [] [\<lparr>cl_id = 0, cl_external_id = None, cl_name = ''Ann'', cl_email = ''a@x'', cl_phone = Some ''555'', cl_created_at = 0, cl_updated_at = 0\<rparr>]))) div 1)))])
   = map client_json (id (search_filter [] [\<lparr>cl_id = 0, cl_external_id = None, cl_name = ''Ann'', cl_email = ''a@x'', cl_phone = Some ''555'', cl_created_at = 0, cl_updated_at = 0\<rparr>]))"
  by (rule clients_pages_cover[where rq = "\<lambda>p. \<lparr>req_headers = \<lambda>_. None, req_query = [(''page'', show_int (int p)), (''limit'', ''1'')], req_body = None, req_user = None\<rparr>"])
     (simp_all add: search_get_def parse_int_show_int parse_int_one)

text \<open>
  C15: \<open>limit=0\<close> is accepted: the answer is 200 with no rows, and
  \<open>totalPages\<close> (\<open>Math.ceil(count / 0)\<close>, \<open>Infinity\<close> or \<open>NaN\<close>) is
  written as \<open>null\<close>.
\<close>

theorem clients_limit_zero:
  assumes "clients d = Some rs"
    and "parse_int (js_or (search_get (req_query req) ''page'') ''1'') = Some p"
    and "parse_int (js_or (search_get (req_query req) ''limit'') ''10'') = Some 0"
  shows "status (fst (get_clients ord req c d)) = 200
         \<and> resp_get (fst (get_clients ord req c d)) ''clients'' = Some (JArr [])
         \<and> resp_get (fst (get_clients ord req c d)) ''totalPages'' = Some JNull"
  using get_clients_ok[where ord = ord and c = c, OF assms(1) refl assms(2,3)]
  by (simp add: resp_get_def json_response_def json_get_def js_ceil_div_def)

theorem clients_limit_zero_witness:
  "status (fst (get_clients id (\<lparr>req_headers = \<lambda>_. None, req_query = [(''limit'', ''0'')], req_body = None, req_user = None\<rparr>) () (fresh_db\<lparr>clients := Some [\<lparr>cl_id = 0, cl_external_id = None, cl_name = ''Ann'', cl_email = ''a@x'', cl_phone = Some ''555'', cl_created_at = 0, cl_updated_at = 0\<rparr>]\<rparr>))) = 200
   \<and> resp_get (fst (get_clients id (\<lparr>req_headers = \<lambda>_. None, req_query = [(''limit'', ''0'')], req_body = None, req_user = None\<rparr>) () (fresh_db\<lparr>clients := Some [\<lparr>cl_id = 0, cl_external_id = None, cl_name = ''Ann'', cl_email = ''a@x'', cl_phone = Some ''555'', cl_created_at = 0, cl_updated_at = 0\<rparr>]\<rparr>))) ''clients'' = Some (JArr [])
   \<and> resp_get (fst (get_clients id (\<lparr>req_headers = \<lambda>_. None, req_query = [(''limit'', ''0'')], req_body = None, req_user = None\<rparr>) () (fresh_db\<lparr>clients := Some [\<lparr>cl_id = 0, cl_external_id = None, cl_name = ''Ann'', cl_email = ''a@x'', cl_phone = Some ''555'', cl_created_at = 0, cl_updated_at = 0\<rparr>]\<rparr>))) ''totalPages'' = Some JNull"
  by (rule clients_limit_zero[where p = 1 and rs = "[\<lparr>cl_id = 0, cl_external_id = None, cl_name = ''Ann'', cl_email = ''a@x'', cl_phone = Some ''555'', cl_created_at = 0, cl_updated_at = 0\<rparr>]"])
     (simp_all add: search_get_def parse_int_def digit_value_def digits_value_def js_space_def)

text \<open>
  C16: a \<open>page\<close> below 1, or one that is not a number, makes the offset negative
  or \<open>NaN\<close>; PostgreSQL rejects it and the handler answers 500.
\<close>

theorem clients_bad_page_fails:
  assumes "clients d = Some rs"
    and "parse_int (js_or (search_get (req_query req) ''limit'') ''10'') = Some l"
    and "0 < l" and "l < 2 ^ 63"
    and "parse_int (js_or (search_get (req_query req) ''page'') ''1'') = None
         \<or> (\<exists>p. parse_int (js_or (search_get (req_query req) ''page'') ''1'') = Some p \<and> p < 1)"
  shows "get_clients ord req c d = (error_response 500 ''Failed to fetch clients'', d)"
  using assms(5)
proof
  assume "parse_int (js_or (search_get (req_query req) ''page'') ''1'') = None"
  then show ?thesis using assms(1-4)
    by (simp add: get_clients_def Let_def page_offset_def num_text_def pg_limit_offset_def
        pg_int8_in_def pg_int_in_show_int pg_int_in_NaN)
next
  assume "\<exists>p. parse_int (js_or (search_get (req_query req) ''page'') ''1'') = Some p \<and> p < 1"
  then obtain p where p: "parse_int (js_or (search_get (req_query req) ''page'') ''1'') = Some p" "p < 1"
    by blast
  have "(p - 1) * l < 0" using p(2) assms(3) by (simp add: mult_neg_pos)
  then obtain err where "pg_limit_offset (show_int l) (show_int ((p - 1) * l)) = Inl err"
    using pg_limit_offset_neg assms(3,4) by force
  then show ?thesis using assms(1,2) p(1)
    by (simp add: get_clients_def Let_def page_offset_def num_text_def)
qed

theorem clients_bad_page_fails_witness:
  "get_clients id (\<lparr>req_headers = \<lambda>_. None, req_query = [(''page'', ''0'')], req_body = None, req_user = None\<rparr>) () (fresh_db\<lparr>clients := Some [\<lparr>cl_id = 0, cl_external_id = None, cl_name = ''Ann'', cl_email = ''a@x'', cl_phone = Some ''555'', cl_created_at = 0, cl_updated_at = 0\<rparr>]\<rparr>) = (error_response 500 ''Failed to fetch clients'', (fresh_db\<lparr>clients := Some [\<lparr>cl_id = 0, cl_external_id = None, cl_name = ''Ann'', cl_email = ''a@x'', cl_phone = Some ''555'', cl_created_at = 0, cl_updated_at = 0\<rparr>]\<rparr>))"
  by (rule clients_bad_page_fails[where l = 10 and rs = "[\<lparr>cl_id = 0, cl_external_id = None, cl_name = ''Ann'', cl_email = ''a@x'', cl_phone = Some ''555'', cl_created_at = 0, cl_updated_at = 0\<rparr>]"])
     (simp_all add: search_get_def parse_int_def digit_value_def digits_value_def js_space_def)

text \<open>
  C17: for a search text without \<open>LIKE\<close> wildcards, \<open>total\<close> is the number of
  clients whose name, email or phone contains the text, ignoring ASCII case.
\<close>

theorem clients_search_total:
  assumes "clients d = Some rs"
    and "js_or (search_get (req_query req) ''search'') [] = s" and "list_all (\<lambda>c. \<not> like_special c) s"
    and "parse_int (js_or (search_get (req_query req) ''page'') ''1'') = Some p"
    and "parse_int (js_or (search_get (req_query req) ''limit'') ''10'') = Some l"
    and "1 \<le> p" "0 \<le> l" "l < 2 ^ 63" "(p - 1) * l < 2 ^ 63"
  shows "resp_get (fst (get_clients ord req c d)) ''total''
           = Some (JNum (int (length (filter (client_contains s) rs))))"
  using get_clients_ok[where ord = ord and c = c, OF assms(1,2,4,5,7,8) _ assms(9)] assms(3,6,7)
  by (simp add: resp_get_def json_response_def json_get_def search_filter_contains)

theorem clients_search_total_witness:
  "resp_get (fst (get_clients id (\<lparr>req_headers = \<lambda>_. None, req_query = [(''search'', ''ANN'')], req_body = None, req_user = None\<rparr>) () (fresh_db\<lparr>clients := Some [\<lparr>cl_id = 0, cl_external_id = None, cl_name = ''Ann'', cl_email = ''a@x'', cl_phone = Some ''555'', cl_created_at = 0, cl_updated_at = 0\<rparr>]\<rparr>))) ''total''
     = Some (JNum (int (length (filter (client_contains ''ANN'') [\<lparr>cl_id = 0, cl_external_id = None, cl_name = ''Ann'', cl_email = ''a@x'', cl_phone = Some ''555'', cl_created_at = 0, cl_updated_at = 0\<rparr>]))))"
  by (rule clients_search_total[where p = 1 and l = 10])
     (simp_all add: search_get_def parse_int_def digit_value_def digits_value_def js_space_def like_special_def)

text \<open>
  C18: the search text is not escaped: a search for \<open>_\<close> matches every client
  with a non-empty name, email or phone.
\<close>

theorem search_underscore_matches_all:
  "search_filter ''_'' rs =
     filter (\<lambda>r. cl_name r \<noteq> [] \<or> cl_email r \<noteq> [] \<or> (\<exists>ph. cl_phone r = Some ph \<and> ph \<noteq> [])) rs"
  by (auto simp: search_filter_def client_matches_def ilike_underscore_any intro!: filter_cong
      split: option.splits)

theorem search_underscore_matches_all_witness:
  "search_filter ''_'' [\<lparr>cl_id = 0, cl_external_id = None, cl_name = ''Ann'', cl_email = ''a@x'', cl_phone = Some ''555'', cl_created_at = 0, cl_updated_at = 0\<rparr>, \<lparr>cl_id = 0, cl_external_id = None, cl_name = ''Ann'', cl_email = ''a@x'', cl_phone = Some ''555'', cl_created_at = 0, cl_updated_at = 0\<rparr>\<lparr>cl_name := ''Bo''\<rparr>] = [\<lparr>cl_id = 0, cl_external_id = None, cl_name = ''Ann'', cl_email = ''a@x'', cl_phone = Some ''555'', cl_created_at = 0, cl_updated_at = 0\<rparr>, \<lparr>cl_id = 0, cl_external_id = None, cl_name = ''Ann'', cl_email = ''a@x'', cl_phone = Some ''555'', cl_created_at = 0, cl_updated_at = 0\<rparr>\<lparr>cl_name := ''Bo''\<rparr>]"
proof -
  have "search_filter ''_'' [\<lparr>cl_id = 0, cl_external_id = None, cl_name = ''Ann'', cl_email = ''a@x'', cl_phone = Some ''555'', cl_created_at = 0, cl_updated_at = 0\<rparr>, \<lparr>cl_id = 0, cl_external_id = None, cl_name = ''Ann'', cl_email = ''a@x'', cl_phone = Some ''555'', cl_created_at = 0, cl_updated_at = 0\<rparr>\<lparr>cl_name := ''Bo''\<rparr>] =
        filter (\<lambda>r. cl_name r \<noteq> [] \<or> cl_email r \<noteq> [] \<or> (\<exists>ph. cl_phone r = Some ph \<and> ph \<noteq> []))
          [\<lparr>cl_id = 0, cl_external_id = None, cl_name = ''Ann'', cl_email = ''a@x'', cl_phone = Some ''555'', cl_created_at = 0, cl_updated_at = 0\<rparr>, \<lparr>cl_id = 0, cl_external_id = None, cl_name = ''Ann'', cl_email = ''a@x'', cl_phone = Some ''555'', cl_created_at = 0, cl_updated_at = 0\<rparr>\<lparr>cl_name := ''Bo''\<rparr>]"
    by (rule search_underscore_matches_all)
  then show ?thesis by simp
qed

end
