(* ===== verification/AppointmentsRoute.thy ===== *)
theory AppointmentsRoute
  imports ClientsRoute
begin

text \<open>
  The appointment routes: \<open>GET\<close> and \<open>POST /api/appointments\<close>
  (\<^verbatim>\<open>src/app/api/appointments/route.ts\<close>) and \<open>PUT\<close> and
  \<open>DELETE /api/appointments/[id]\<close> (\<^verbatim>\<open>src/app/api/appointments/[id]/route.ts\<close>),
  each behind \<open>requireAuth\<close>.  \<open>GET\<close> builds its \<open>WHERE\<close> clause and parameter
  list step by step, numbering the placeholders \<open>$n\<close> from the list's length; the model
  keeps each condition with the placeholder number the code computed, renders the SQL
  text from it, and binds it to the parameter list as PostgreSQL does (a placeholder
  beyond the list, or a list of another length than the statement's highest placeholder,
  is an error).  Timestamps travel as their numeric text (\<open>toISOString\<close> and the
  \<open>timestamptz\<close> input are written in decimal, as in theory \<open>ClientsRoute\<close>).  The
  order \<open>ORDER BY appointment_date ASC\<close> gives to equal dates is a \<open>planner\<close>.  The
  background \<open>mockApiClient.createAppointment\<close> never rejects and its result is unused.
\<close>

section \<open>Definitions\<close>

subsection \<open>Rows and timestamps\<close>

definition pg_timestamptz_in :: "string \<Rightarrow> sql_error + int" where
  "pg_timestamptz_in = pg_int_in ''timestamp with time zone'' 64"

definition iso_string :: "int \<Rightarrow> string" where
  "iso_string t = show_int t"

definition uuid_opt_json :: "uuid option \<Rightarrow> json" where
  "uuid_opt_json u = (case u of None \<Rightarrow> JNull | Some i \<Rightarrow> JStr (uuid_text i))"

definition int_opt_json :: "int option \<Rightarrow> json" where
  "int_opt_json v = (case v of None \<Rightarrow> JNull | Some i \<Rightarrow> JNum i)"

text \<open>The columns of \<open>a.*\<close> (and of \<open>RETURNING *\<close>).\<close>

definition appointment_fields :: "appointment_row \<Rightarrow> (string \<times> json) list" where
  "appointment_fields a =
     [(''id'', JStr (uuid_text (ap_id a))), (''external_id'', opt_json (ap_external_id a)),
      (''client_id'', uuid_opt_json (ap_client_id a)), (''title'', JStr (ap_title a)),
      (''description'', opt_json (ap_description a)),
      (''appointment_date'', JStr (iso_string (ap_date a))),
      (''duration_minutes'', int_opt_json (ap_duration a)), (''status'', opt_json (ap_status a)),
      (''created_at'', ts_json (ap_created_at a)), (''updated_at'', ts_json (ap_updated_at a))]"

definition joined_json :: "appointment_row \<times> client_row \<Rightarrow> json" where
  "joined_json ac =
     JObj (appointment_fields (fst ac) @
           [(''client_name'', JStr (cl_name (snd ac))), (''client_email'', JStr (cl_email (snd ac)))])"

text \<open>\<open>FROM appointments a JOIN clients c ON a.client_id = c.id\<close>\<close>

definition join_clients :: "appointment_row list \<Rightarrow> client_row list \<Rightarrow> (appointment_row \<times> client_row) list" where
  "join_clients as cs = concat (map (\<lambda>a. map (\<lambda>c. (a, c)) (filter (\<lambda>c. ap_client_id a = Some (cl_id c)) cs)) as)"

subsection \<open>\<open>GET /api/appointments\<close>\<close>

datatype appt_cond = ClientIdEq nat | DateGe nat

fun cond_sql :: "appt_cond \<Rightarrow> string" where
  "cond_sql (ClientIdEq k) = ''a.client_id = $'' @ show_nat k"
| "cond_sql (DateGe k) = ''a.appointment_date >= $'' @ show_nat k"

definition where_clause :: "appt_cond list \<Rightarrow> string" where
  "where_clause cs = (if cs = [] then [] else '' WHERE '' @ join_with '' AND '' (map cond_sql cs))"

fun cond_param :: "appt_cond \<Rightarrow> nat" where
  "cond_param (ClientIdEq k) = k"
| "cond_param (DateGe k) = k"

text \<open>
  Lines 24--32: each condition is pushed with placeholder \<open>params.length + 1\<close> and its
  value appended to \<open>params\<close>.
\<close>

definition build_filters :: "string option \<Rightarrow> bool \<Rightarrow> int \<Rightarrow> appt_cond list \<times> string list" where
  "build_filters clientId upcoming now =
     (let (cs, ps) = (case clientId of
                        Some cid \<Rightarrow> (if cid \<noteq> [] then ([ClientIdEq (length ([] :: string list) + 1)], [cid])
                                     else ([], []))
                      | None \<Rightarrow> ([], []))
      in if upcoming then (cs @ [DateGe (length ps + 1)], ps @ [iso_string now]) else (cs, ps))"

text \<open>Binding a condition's placeholder to the parameter list.\<close>

fun bind_cond :: "string list \<Rightarrow> appt_cond \<Rightarrow> sql_error + (appointment_row \<Rightarrow> bool)" where
  "bind_cond ps (ClientIdEq k) =
     (if 0 < k \<and> k \<le> length ps then
        (case pg_uuid_in (ps ! (k - 1)) of
           Inl e \<Rightarrow> Inl e
         | Inr u \<Rightarrow> Inr (\<lambda>a. ap_client_id a = Some u))
      else Inl (UndefinedParameter k))"
| "bind_cond ps (DateGe k) =
     (if 0 < k \<and> k \<le> length ps then
        (case pg_timestamptz_in (ps ! (k - 1)) of
           Inl e \<Rightarrow> Inl e
         | Inr t \<Rightarrow> Inr (\<lambda>a. t \<le> ap_date a))
      else Inl (UndefinedParameter k))"

fun bind_conds :: "string list \<Rightarrow> appt_cond list \<Rightarrow> sql_error + (appointment_row \<Rightarrow> bool)" where
  "bind_conds ps [] = Inr (\<lambda>_. True)"
| "bind_conds ps (c # cs) =
     (case bind_cond ps c of
        Inl e \<Rightarrow> Inl e
      | Inr P \<Rightarrow> (case bind_conds ps cs of Inl e \<Rightarrow> Inl e | Inr Q \<Rightarrow> Inr (\<lambda>a. P a \<and> Q a)))"

text \<open>The statement expects as many parameters as its highest placeholder.\<close>

definition check_arity :: "nat \<Rightarrow> string list \<Rightarrow> sql_error + unit" where
  "check_arity n ps = (if length ps = n then Inr () else Inl (BindMismatch (length ps) n))"

definition max_param :: "appt_cond list \<Rightarrow> nat" where
  "max_param cs = foldr (\<lambda>c m. max (cond_param c) m) cs 0"

text \<open>
  The page query (lines 40--41, 44): the conditions, then \<open>LIMIT $(n+1) OFFSET $(n+2)\<close>
  with \<open>n = params.length\<close>, over \<open>params\<close> with the limit and offset appended.
\<close>

definition appointments_page ::
  "(appointment_row \<times> client_row) planner \<Rightarrow> appt_cond list \<Rightarrow> nat \<Rightarrow> string list \<Rightarrow>
   (appointment_row \<times> client_row) list \<Rightarrow> sql_error + (appointment_row \<times> client_row) list" where
  "appointments_page ord cs n ps rows =
     (case check_arity (max (max_param cs) (n + 2)) ps of
        Inl e \<Rightarrow> Inl e
      | Inr _ \<Rightarrow>
     (case bind_conds ps cs of
        Inl e \<Rightarrow> Inl e
      | Inr P \<Rightarrow>
     (case pg_limit_offset (ps ! n) (ps ! (n + 1)) of
        Inl e \<Rightarrow> Inl e
      | Inr (l, off) \<Rightarrow> Inr (take l (drop off (ord (filter (\<lambda>ac. P (fst ac)) rows)))))))"

text \<open>The count query (lines 20, 45) over \<open>params.slice(0, -2)\<close>.\<close>

definition appointments_count ::
  "appt_cond list \<Rightarrow> string list \<Rightarrow> (appointment_row \<times> client_row) list \<Rightarrow> sql_error + nat" where
  "appointments_count cs ps rows =
     (case check_arity (max_param cs) ps of
        Inl e \<Rightarrow> Inl e
      | Inr _ \<Rightarrow>
     (case bind_conds ps cs of
        Inl e \<Rightarrow> Inl e
      | Inr P \<Rightarrow> Inr (length (filter (\<lambda>ac. P (fst ac)) rows))))"

definition get_appointments :: "(appointment_row \<times> client_row) planner \<Rightarrow> int \<Rightarrow> 'c handler" where
  "get_appointments ord now req c d =
     (let q = req_query req;
          clientId = search_get q ''clientId'';
          upcoming = (search_get q ''upcoming'' = Some ''true'');
          page = parse_int (js_or (search_get q ''page'') ''1'');
          limit = parse_int (js_or (search_get q ''limit'') ''10'');
          offset = page_offset page limit;
          (cs, ps) = build_filters clientId upcoming now;
          n = length ps;
          params = ps @ [num_text limit, num_text offset];
          fail = (error_response 500 ''Failed to fetch appointments'', d)
      in case (appointments d, clients d) of
           (Some as, Some cls) \<Rightarrow>
             (let rows = join_clients as cls
              in case (appointments_page ord cs n params rows,
                       appointments_count cs (take (length params - 2) params) rows) of
                   (Inr page_rows, Inr cnt) \<Rightarrow>
                     (json_response
                        (JObj [(''appointments'', JArr (map joined_json page_rows)),
                               (''total'', JNum (int cnt)), (''page'', num_json page),
                               (''limit'', num_json limit),
                               (''totalPages'', (case limit of None \<Rightarrow> JNull
                                                 | Some lm \<Rightarrow> js_ceil_div (int cnt) lm))]), d)
                 | _ \<Rightarrow> fail)
         | _ \<Rightarrow> fail)"

text \<open>The SQL text the handler sends for the page and the count query.\<close>

definition appointments_sql :: "appt_cond list \<Rightarrow> nat \<Rightarrow> string \<times> string" where
  "appointments_sql cs n =
     (''SELECT a.*, c.name as client_name, c.email as client_email FROM appointments a JOIN clients c ON a.client_id = c.id''
        @ where_clause cs @ '' ORDER BY a.appointment_date ASC LIMIT $'' @ show_nat (n + 1)
        @ '' OFFSET $'' @ show_nat (n + 2),
      ''SELECT COUNT(*) FROM appointments a JOIN clients c ON a.client_id = c.id'' @ where_clause cs)"

definition appointments_GET ::
  "jwt_lib \<Rightarrow> env \<Rightarrow> int \<Rightarrow> (appointment_row \<times> client_row) planner \<Rightarrow> 'c handler" where
  "appointments_GET lib e now ord = require_auth lib e now (get_appointments ord now)"

subsection \<open>\<open>POST /api/appointments\<close>\<close>

text \<open>\<open>x || d\<close> on a destructured field.\<close>

definition or_default :: "json option \<Rightarrow> json \<Rightarrow> json option" where
  "or_default v dflt = (if field_truthy v then v else Some dflt)"

text \<open>A parameter bound to a \<open>NOT NULL\<close> column of a given input type.\<close>

definition bind_not_null ::
  "string \<Rightarrow> (string \<Rightarrow> sql_error + 'a) \<Rightarrow> json option \<Rightarrow> sql_error + 'a" where
  "bind_not_null col input v =
     (case pg_param v of None \<Rightarrow> Inl (NotNullViolation col) | Some s \<Rightarrow> input s)"

text \<open>A parameter bound to a nullable column.\<close>

definition bind_nullable :: "(string \<Rightarrow> sql_error + 'a) \<Rightarrow> json option \<Rightarrow> sql_error + 'a option" where
  "bind_nullable input v =
     (case pg_param v of
        None \<Rightarrow> Inr None
      | Some s \<Rightarrow> (case input s of Inl e \<Rightarrow> Inl e | Inr x \<Rightarrow> Inr (Some x)))"

definition text_in :: "string \<Rightarrow> sql_error + string" where
  "text_in s = Inr s"

text \<open>
  \<open>INSERT INTO appointments (client_id, title, description, appointment_date,
  duration_minutes) VALUES ($1, $2, $3, $4, $5) RETURNING *\<close>: the other columns take
  their defaults (\<open>gen_random_uuid()\<close>, \<open>NULL\<close>, \<open>'scheduled'\<close>, \<open>NOW()\<close>); the
  foreign key is checked.
\<close>

definition insert_appointment ::
  "uuid \<Rightarrow> string \<Rightarrow> string option \<Rightarrow> int \<Rightarrow> int option \<Rightarrow> db \<Rightarrow> sql_error + (appointment_row \<times> db)" where
  "insert_appointment cid title descr date dur d =
     (case appointments d of
        None \<Rightarrow> Inl (UndefinedTable ''appointments'')
      | Some as \<Rightarrow>
          (if appointments_fk d \<and> cid \<notin> set (client_ids d)
           then Inl (ForeignKeyViolation ''appointments_client_id_fkey'')
           else (let r = \<lparr>ap_id = next_uuid d, ap_external_id = None, ap_client_id = Some cid,
                         ap_title = title, ap_description = descr, ap_date = date, ap_duration = dur,
                         ap_status = Some ''scheduled'', ap_created_at = clock d,
                         ap_updated_at = clock d\<rparr>
                 in Inr (r, d\<lparr>appointments := Some (as @ [r]), next_uuid := Suc (next_uuid d)\<rparr>))))"

definition create_appointment :: "'c handler" where
  "create_appointment req c d =
     (let fail = (error_response 500 ''Failed to create appointment'', d) in
      case req_body req of
        None \<Rightarrow> fail
      | Some j \<Rightarrow>
     (case destructure j of
        None \<Rightarrow> fail
      | Some f \<Rightarrow>
     (let clientId = f ''clientId''; title = f ''title''; description = f ''description'';
          appointmentDate = f ''appointmentDate''; durationMinutes = f ''durationMinutes''
      in if \<not> field_truthy clientId \<or> \<not> field_truthy title \<or> \<not> field_truthy appointmentDate
         then (error_response 400 ''Client ID, title, and appointment date are required'', d)
         else
     (case clients d of
        None \<Rightarrow> fail
      | Some cs \<Rightarrow>
     (case pg_param clientId of
        None \<Rightarrow> (error_response 404 ''Client not found'', d)
      | Some cid_text \<Rightarrow>
     (case pg_uuid_in cid_text of
        Inl _ \<Rightarrow> fail
      | Inr cid \<Rightarrow>
     (if cid \<notin> set (map cl_id cs) then (error_response 404 ''Client not found'', d)
      else
     (case (bind_not_null ''title'' text_in title, bind_nullable text_in description,
            bind_not_null ''appointment_date'' pg_timestamptz_in appointmentDate,
            bind_nullable pg_int4_in (or_default durationMinutes (JNum 60))) of
        (Inr t, Inr ds, Inr dt, Inr du) \<Rightarrow>
          (case insert_appointment cid t ds dt du d of
             Inl _ \<Rightarrow> fail
           | Inr (r, d') \<Rightarrow> (\<lparr>status = 201, body = JObj (appointment_fields r)\<rparr>, d'))
      | _ \<Rightarrow> fail))))))))"

definition appointments_POST :: "jwt_lib \<Rightarrow> env \<Rightarrow> int \<Rightarrow> 'c handler" where
  "appointments_POST lib e now = require_auth lib e now create_appointment"

subsection \<open>\<open>PUT /api/appointments/[id]\<close>\<close>

text \<open>
  \<open>UPDATE appointments SET title = COALESCE($1, title), \<dots>, status = COALESCE($5,
  status) WHERE id = $6 RETURNING *\<close>: a \<open>NULL\<close> parameter keeps the column;
  \<open>updated_at\<close> is not touched.
\<close>

definition coalesce_row ::
  "string option \<Rightarrow> string option \<Rightarrow> int option \<Rightarrow> int option \<Rightarrow> string option \<Rightarrow>
   appointment_row \<Rightarrow> appointment_row" where
  "coalesce_row t ds dt du st a =
     a\<lparr>ap_title := (case t of None \<Rightarrow> ap_title a | Some x \<Rightarrow> x),
       ap_description := (case ds of None \<Rightarrow> ap_description a | Some x \<Rightarrow> Some x),
       ap_date := (case dt of None \<Rightarrow> ap_date a | Some x \<Rightarrow> x),
       ap_duration := (case du of None \<Rightarrow> ap_duration a | Some x \<Rightarrow> Some x),
       ap_status := (case st of None \<Rightarrow> ap_status a | Some x \<Rightarrow> Some x)\<rparr>"

definition update_appointment :: "string handler" where
  "update_appointment req i d =
     (let fail = (error_response 500 ''Failed to update appointment'', d) in
      case req_body req of
        None \<Rightarrow> fail
      | Some j \<Rightarrow>
     (case destructure j of
        None \<Rightarrow> fail
      | Some f \<Rightarrow>
     (case (bind_nullable text_in (f ''title''), bind_nullable text_in (f ''description''),
            bind_nullable pg_timestamptz_in (f ''appointmentDate''),
            bind_nullable pg_int4_in (f ''durationMinutes''), bind_nullable text_in (f ''status''),
            pg_uuid_in i) of
        (Inr t, Inr ds, Inr dt, Inr du, Inr st, Inr u) \<Rightarrow>
          (case appointments d of
             None \<Rightarrow> fail
           | Some as \<Rightarrow>
               (let as' = update_where (\<lambda>a. ap_id a = u) (coalesce_row t ds dt du st) as
                in case filter (\<lambda>a. ap_id a = u) as' of
                     [] \<Rightarrow> (error_response 404 ''Appointment not found'', d)
                   | r # _ \<Rightarrow> (json_response (JObj (appointment_fields r)),
                               d\<lparr>appointments := Some as'\<rparr>)))
      | _ \<Rightarrow> fail)))"

definition appointment_PUT :: "jwt_lib \<Rightarrow> env \<Rightarrow> int \<Rightarrow> string handler" where
  "appointment_PUT lib e now = require_auth lib e now update_appointment"

subsection \<open>\<open>DELETE /api/appointments/[id]\<close>\<close>

definition delete_appointment :: "string handler" where
  "delete_appointment req i d =
     (let fail = (error_response 500 ''Failed to delete appointment'', d) in
      case pg_uuid_in i of
        Inl _ \<Rightarrow> fail
      | Inr u \<Rightarrow>
     (case appointments d of
        None \<Rightarrow> fail
      | Some as \<Rightarrow>
          (if \<not> list_ex (\<lambda>a. ap_id a = u) as then (error_response 404 ''Appointment not found'', d)
           else (json_response (JObj [(''message'', JStr ''Appointment deleted successfully'')]),
                 d\<lparr>appointments := Some (filter (\<lambda>a. ap_id a \<noteq> u) as)\<rparr>))))"

definition appointment_DELETE :: "jwt_lib \<Rightarrow> env \<Rightarrow> int \<Rightarrow> string handler" where
  "appointment_DELETE lib e now = require_auth lib e now delete_appointment"

text \<open>The \<open>clientId\<close> filter the request asks for: none when absent or empty.\<close>

definition client_param :: "string option \<Rightarrow> sql_error + uuid option" where
  "client_param v = (case v of None \<Rightarrow> Inr None
                     | Some cid \<Rightarrow> (if cid = [] then Inr None
                                   else (case pg_uuid_in cid of Inl e \<Rightarrow> Inl e | Inr u \<Rightarrow> Inr (Some u))))"

text \<open>The specification of the filter: the client, and dates from \<open>now\<close> on.\<close>

definition appt_filter :: "uuid option \<Rightarrow> bool \<Rightarrow> int \<Rightarrow> appointment_row \<Rightarrow> bool" where
  "appt_filter cu up now a \<longleftrightarrow>
     (case cu of None \<Rightarrow> True | Some u \<Rightarrow> ap_client_id a = Some u) \<and> (if up then now \<le> ap_date a else True)"

subsection \<open>A sample store\<close>

text \<open>One client with one appointment, the store the witnesses below run the handlers on.\<close>

definition sample_client :: client_row where
  "sample_client = \<lparr>cl_id = 0, cl_external_id = None, cl_name = ''Ann'', cl_email = ''a@x'',
     cl_phone = None, cl_created_at = 0, cl_updated_at = 0\<rparr>"

definition sample_appointment :: appointment_row where
  "sample_appointment = \<lparr>ap_id = 1, ap_external_id = None, ap_client_id = Some 0, ap_title = ''Yoga'',
     ap_description = None, ap_date = 5, ap_duration = Some 60, ap_status = Some ''scheduled'',
     ap_created_at = 0, ap_updated_at = 0\<rparr>"

definition sample_db :: db where
  "sample_db = fresh_db\<lparr>clients := Some [sample_client], appointments := Some [sample_appointment],
     appointments_fk := True, admins := Some [], next_uuid := 2\<rparr>"

section \<open>Lemmas\<close>

lemmas sample_defs = sample_db_def sample_client_def sample_appointment_def

lemma iso_string_in:
  "- (2 ^ 63) \<le> now \<Longrightarrow> now < 2 ^ 63 \<Longrightarrow> pg_timestamptz_in (iso_string now) = Inr now"
  by (simp add: pg_timestamptz_in_def iso_string_def pg_int_in_show_int)

lemma build_filters_spec:
  assumes "build_filters clientId up now = (cs, ps)" and "client_param clientId = Inr cu"
    and "- (2 ^ 63) \<le> now" "now < 2 ^ 63"
  shows "max_param cs = length ps
         \<and> (\<exists>P. bind_conds (ps @ ext) cs = Inr P \<and> (\<forall>a. P a = appt_filter cu up now a))"
proof (cases clientId)
  case None
  then show ?thesis using assms
    by (cases up) (auto simp: build_filters_def client_param_def max_param_def appt_filter_def iso_string_in)
next
  case (Some cid)
  show ?thesis
  proof (cases "cid = []")
    case True
    then show ?thesis using assms Some
      by (cases up) (auto simp: build_filters_def client_param_def max_param_def appt_filter_def iso_string_in)
  next
    case False
    then obtain u where u: "pg_uuid_in cid = Inr u" "cu = Some u"
      using assms(2) Some by (auto simp: client_param_def split: sum.splits)
    then show ?thesis using assms Some False
      by (cases up) (auto simp: build_filters_def max_param_def appt_filter_def iso_string_in)
  qed
qed

text \<open>
  C19: for a valid page and limit and a \<open>clientId\<close> that is absent or a valid
  identifier, \<open>GET /api/appointments\<close> answers with the page of the joined rows that
  satisfy exactly the requested filter, and its \<open>total\<close> counts the same rows: the
  placeholders the code numbers while it builds the query bind to the intended values,
  and the count query's \<open>params.slice(0, -2)\<close> are the filter's parameters.
\<close>

theorem appointments_get_filter:
  assumes "appointments d = Some as" and "clients d = Some cls"
    and "client_param (search_get (req_query req) ''clientId'') = Inr cu"
    and "up = (search_get (req_query req) ''upcoming'' = Some ''true'')"
    and "parse_int (js_or (search_get (req_query req) ''page'') ''1'') = Some p"
    and "parse_int (js_or (search_get (req_query req) ''limit'') ''10'') = Some l"
    and "1 \<le> p" "0 \<le> l" "l < 2 ^ 63" "(p - 1) * l < 2 ^ 63"
    and "- (2 ^ 63) \<le> now" "now < 2 ^ 63"
  shows "get_appointments ord now req c d =
    (let sel = filter (\<lambda>ac. appt_filter cu up now (fst ac)) (join_clients as cls)
     in (json_response (JObj
          [(''appointments'', JArr (map joined_json (take (nat l) (drop (nat ((p - 1) * l)) (ord sel))))),
           (''total'', JNum (int (length sel))), (''page'', JNum p), (''limit'', JNum l),
           (''totalPages'', js_ceil_div (int (length sel)) l)]), d))"
proof -
  obtain cs ps where b: "build_filters (search_get (req_query req) ''clientId'') up now = (cs, ps)"
    by (cases "build_filters (search_get (req_query req) ''clientId'') up now") blast
  note b' = b[unfolded assms(4)]
  let ?lo = "[show_int l, show_int ((p - 1) * l)]"
  obtain P where mp: "max_param cs = length ps"
    and P: "bind_conds (ps @ ?lo) cs = Inr P" "\<forall>a. P a = appt_filter cu up now a"
    using build_filters_spec[OF b assms(3,11,12), of ?lo] by blast
  obtain Q where Q: "bind_conds ps cs = Inr Q" "\<forall>a. Q a = appt_filter cu up now a"
    using build_filters_spec[OF b assms(3,11,12), of "[]"] by auto
  have lo: "pg_limit_offset (show_int l) (show_int ((p - 1) * l)) = Inr (nat l, nat ((p - 1) * l))"
    using assms(7-10) by (intro pg_limit_offset_ok) simp_all
  have fP: "P = appt_filter cu up now" using P(2) by auto
  have fQ: "Q = appt_filter cu up now" using Q(2) by auto
  show ?thesis
    using assms(1,2,4,5,6) b' mp P(1)[unfolded fP assms(4)] Q(1)[unfolded fQ assms(4)] lo
    by (simp add: get_appointments_def Let_def page_offset_def num_text_def num_json_def
        appointments_page_def appointments_count_def check_arity_def nth_append)
qed

theorem appointments_get_filter_witness:
  "get_appointments id 0 (\<lparr>req_headers = \<lambda>_. None, req_query = [(''clientId'', ''0''), (''upcoming'', ''true'')], req_body = None, req_user = None\<rparr>) () sample_db =
    (let sel = filter (\<lambda>ac. appt_filter (Some 0) True 0 (fst ac)) (join_clients [sample_appointment] [sample_client])
     in (json_response (JObj
          [(''appointments'', JArr (map joined_json (take (nat 10) (drop (nat ((1 - 1) * 10)) (id sel))))),
           (''total'', JNum (int (length sel))), (''page'', JNum 1), (''limit'', JNum 10),
           (''totalPages'', js_ceil_div (int (length sel)) 10)]), sample_db))"
  by (rule appointments_get_filter[where cu = "Some 0" and up = True])
     (simp_all add: sample_defs search_get_def parse_int_def digit_value_def digits_value_def js_space_def client_param_def pg_uuid_in_def dec_digit_def)

lemma create_fields:
  assumes "req_body req = Some (JObj kvs)"
    and "json_get kvs ''clientId'' = Some (JStr cid)" and "cid \<noteq> []" and "pg_uuid_in cid = Inr u"
    and "field_truthy (json_get kvs ''title'')" and "field_truthy (json_get kvs ''appointmentDate'')"
    and "clients d = Some cs"
  shows "create_appointment req c d =
     (if u \<notin> set (map cl_id cs) then (error_response 404 ''Client not found'', d)
      else
     (case (bind_not_null ''title'' text_in (json_get kvs ''title''),
            bind_nullable text_in (json_get kvs ''description''),
            bind_not_null ''appointment_date'' pg_timestamptz_in (json_get kvs ''appointmentDate''),
            bind_nullable pg_int4_in (or_default (json_get kvs ''durationMinutes'') (JNum 60))) of
        (Inr t, Inr ds, Inr dt, Inr du) \<Rightarrow>
          (case insert_appointment u t ds dt du d of
             Inl _ \<Rightarrow> (error_response 500 ''Failed to create appointment'', d)
           | Inr (r, d') \<Rightarrow> (\<lparr>status = 201, body = JObj (appointment_fields r)\<rparr>, d'))
      | _ \<Rightarrow> (error_response 500 ''Failed to create appointment'', d)))"
  using assms by (simp add: create_appointment_def Let_def)

text \<open>
  C21: creating an appointment for a client that does not exist is answered 404 and
  leaves the store unchanged.
\<close>

theorem create_appointment_missing_client:
  assumes "req_body req = Some (JObj kvs)"
    and "json_get kvs ''clientId'' = Some (JStr cid)" and "cid \<noteq> []" and "pg_uuid_in cid = Inr u"
    and "field_truthy (json_get kvs ''title'')" and "field_truthy (json_get kvs ''appointmentDate'')"
    and "clients d = Some cs" and "u \<notin> set (map cl_id cs)"
  shows "create_appointment req c d = (error_response 404 ''Client not found'', d)"
  using create_fields[OF assms(1-7)] assms(8) by simp

theorem create_appointment_missing_client_witness:
  "create_appointment (\<lparr>req_headers = \<lambda>_. None, req_query = [], req_body = Some (JObj [(''clientId'', JStr ''9''), (''title'', JStr ''Run''), (''appointmentDate'', JStr ''7'')]), req_user = None\<rparr>) () sample_db = (error_response 404 ''Client not found'', sample_db)"
  by (rule create_appointment_missing_client[where kvs = "[(''clientId'', JStr ''9''), (''title'', JStr ''Run''), (''appointmentDate'', JStr ''7'')]" and cid = "''9''" and u = 9 and cs = "[sample_client]"])
     (simp_all add: sample_defs json_get_def pg_uuid_in_def dec_digit_def digits_value_def digit_value_def)

lemma create_appointment_success:
  assumes "req_body req = Some (JObj kvs)"
    and "json_get kvs ''clientId'' = Some (JStr cid)" and "cid \<noteq> []" and "pg_uuid_in cid = Inr u"
    and "json_get kvs ''title'' = Some (JStr t)" and "t \<noteq> []"
    and "json_get kvs ''appointmentDate'' = Some (JStr ds)" and "ds \<noteq> []"
    and "pg_timestamptz_in ds = Inr dt"
    and "bind_nullable text_in (json_get kvs ''description'') = Inr descr"
    and "bind_nullable pg_int4_in (or_default (json_get kvs ''durationMinutes'') (JNum 60)) = Inr du"
    and "clients d = Some cs" and "u \<in> set (map cl_id cs)" and "appointments d = Some as"
  shows "create_appointment req c d =
     (let r = \<lparr>ap_id = next_uuid d, ap_external_id = None, ap_client_id = Some u,
               ap_title = t, ap_description = descr, ap_date = dt, ap_duration = du,
               ap_status = Some ''scheduled'', ap_created_at = clock d, ap_updated_at = clock d\<rparr>
      in (\<lparr>status = 201, body = JObj (appointment_fields r)\<rparr>,
          d\<lparr>appointments := Some (as @ [r]), next_uuid := Suc (next_uuid d)\<rparr>))"
proof -
  have "bind_not_null ''title'' text_in (json_get kvs ''title'') = Inr t"
    using assms(5) by (simp add: bind_not_null_def text_in_def)
  moreover have "bind_not_null ''appointment_date'' pg_timestamptz_in (json_get kvs ''appointmentDate'') = Inr dt"
    using assms(7,9) by (simp add: bind_not_null_def)
  moreover have "client_ids d = map cl_id cs" using assms(12) by (simp add: client_ids_def)
  ultimately show ?thesis
    using create_fields[OF assms(1-4) _ _ assms(12)] assms(5-8,10,11,13,14)
    by (simp add: insert_appointment_def Let_def)
qed

text \<open>
  C20: \<open>durationMinutes || 60\<close> replaces an explicit duration of 0 by 60: the stored
  appointment has duration 60.
\<close>

theorem create_appointment_duration_default:
  assumes "req_body req = Some (JObj kvs)"
    and "json_get kvs ''clientId'' = Some (JStr cid)" and "cid \<noteq> []" and "pg_uuid_in cid = Inr u"
    and "json_get kvs ''title'' = Some (JStr t)" and "t \<noteq> []"
    and "json_get kvs ''appointmentDate'' = Some (JStr ds)" and "ds \<noteq> []"
    and "pg_timestamptz_in ds = Inr dt" and "json_get kvs ''description'' = None"
    and "json_get kvs ''durationMinutes'' = Some (JNum 0)"
    and "clients d = Some cs" and "u \<in> set (map cl_id cs)" and "appointments d = Some as"
  shows "snd (create_appointment req c d) =
           d\<lparr>appointments := Some (as @ [\<lparr>ap_id = next_uuid d, ap_external_id = None,
               ap_client_id = Some u, ap_title = t, ap_description = None, ap_date = dt,
               ap_duration = Some 60, ap_status = Some ''scheduled'', ap_created_at = clock d,
               ap_updated_at = clock d\<rparr>]), next_uuid := Suc (next_uuid d)\<rparr>"
proof -
  have du: "bind_nullable pg_int4_in (or_default (json_get kvs ''durationMinutes'') (JNum 60)) = Inr (Some 60)"
    using assms(11) pg_int_in_show_int[of "''integer''" 32 60]
    by (simp add: or_default_def bind_nullable_def pg_int4_in_def show_int_def show_nat.simps)
  have ds: "bind_nullable text_in (json_get kvs ''description'') = Inr None"
    using assms(10) by (simp add: bind_nullable_def)
  show ?thesis
    using create_appointment_success[where c = c, OF assms(1-9) ds du assms(12-14)] by (simp add: Let_def)
qed

theorem create_appointment_duration_default_witness:
  "snd (create_appointment (\<lparr>req_headers = \<lambda>_. None, req_query = [], req_body = Some (JObj [(''clientId'', JStr ''0''), (''title'', JStr ''Run''), (''appointmentDate'', JStr ''7''), (''durationMinutes'', JNum 0)]), req_user = None\<rparr>) () sample_db) =
     sample_db\<lparr>appointments := Some ([sample_appointment] @ [\<lparr>ap_id = next_uuid sample_db, ap_external_id = None,
         ap_client_id = Some 0, ap_title = ''Run'', ap_description = None, ap_date = 7,
         ap_duration = Some 60, ap_status = Some ''scheduled'', ap_created_at = clock sample_db,
         ap_updated_at = clock sample_db\<rparr>]), next_uuid := Suc (next_uuid sample_db)\<rparr>"
  by (rule create_appointment_duration_default[where kvs = "[(''clientId'', JStr ''0''), (''title'', JStr ''Run''), (''appointmentDate'', JStr ''7''), (''durationMinutes'', JNum 0)]"
        and cid = "''0''" and u = 0 and ds = "''7''" and cs = "[sample_client]"])
     (simp_all add: sample_defs json_get_def pg_uuid_in_def dec_digit_def digits_value_def digit_value_def
        pg_timestamptz_in_def pg_int_in_def js_trim_def js_space_def)

lemma coalesce_row_keeps [simp]:
  "ap_id (coalesce_row t ds dt du st a) = ap_id a"
  "ap_external_id (coalesce_row t ds dt du st a) = ap_external_id a"
  "ap_client_id (coalesce_row t ds dt du st a) = ap_client_id a"
  by (simp_all add: coalesce_row_def)

lemma insert_appointment_wf:
  assumes "wf_db d" and "insert_appointment u t ds dt du d = Inr (r, d')"
  shows "wf_db d'"
proof -
  obtain as where as: "appointments d = Some as"
    using assms(2) by (cases "appointments d") (simp_all add: insert_appointment_def)
  have fk: "appointments_fk d \<longrightarrow> u \<in> set (client_ids d)"
    using assms(2) as by (auto simp: insert_appointment_def split: if_splits)
  define r0 where "r0 = \<lparr>ap_id = next_uuid d, ap_external_id = None, ap_client_id = Some u,
                  ap_title = t, ap_description = ds, ap_date = dt, ap_duration = du,
                  ap_status = Some ''scheduled'', ap_created_at = clock d, ap_updated_at = clock d\<rparr>"
  have "insert_appointment u t ds dt du d
          = Inr (r0, d\<lparr>appointments := Some (as @ [r0]), next_uuid := Suc (next_uuid d)\<rparr>)"
    using as fk by (simp add: insert_appointment_def r0_def Let_def)
  then have r: "r = r0" and d': "d' = d\<lparr>appointments := Some (as @ [r0]), next_uuid := Suc (next_uuid d)\<rparr>"
    using assms(2) by simp_all
  have wf: "clients_ok d" "admins_ok d" "appointments_ok d" using assms(1) by (simp_all add: wf_db_def)
  have "clients_ok d'" using clients_ok_frame[OF wf(1)] d' by simp
  moreover have "admins_ok d'" using admins_ok_frame[OF wf(2)] d' by simp
  moreover have "appointments_ok d'"
    using appointments_ok_append_fresh[OF wf(3) as, of r0 d'] fk d' by (simp add: r0_def)
  ultimately show ?thesis by (simp add: wf_db_def)
qed

lemma create_appointment_wf:
  assumes "wf_db d"
  shows "wf_db (snd (create_appointment req c d))"
  using \<open>wf_db d\<close> insert_appointment_wf
  by (auto simp: create_appointment_def Let_def split: option.splits sum.splits prod.splits if_splits)

lemma update_appointment_wf:
  assumes "wf_db d"
  shows "wf_db (snd (update_appointment req i d))"
proof (cases "snd (update_appointment req i d) = d")
  case False
  then obtain as u t ds dt du st where as: "appointments d = Some as"
    and d': "snd (update_appointment req i d) =
             d\<lparr>appointments := Some (update_where (\<lambda>a. ap_id a = u) (coalesce_row t ds dt du st) as)\<rparr>"
    by (auto simp: update_appointment_def Let_def split: option.splits sum.splits prod.splits list.splits)
  have "appointments_ok d" using \<open>wf_db d\<close> by (simp add: wf_db_def)
  then have "appointments_ok (snd (update_appointment req i d))"
    using appointments_ok_same_keys[OF _ as, of "snd (update_appointment req i d)"] d'
    by (simp add: map_update_where_keep present_values_update_where_keep)
  then show ?thesis using wf_db_set_appointments[OF \<open>wf_db d\<close>] d' by simp
qed (simp add: \<open>wf_db d\<close>)

lemma delete_appointment_wf:
  assumes "wf_db d"
  shows "wf_db (snd (delete_appointment req i d))"
proof (cases "snd (delete_appointment req i d) = d")
  case False
  then obtain as u where as: "appointments d = Some as"
    and d': "snd (delete_appointment req i d) = d\<lparr>appointments := Some (filter (\<lambda>a. ap_id a \<noteq> u) as)\<rparr>"
    by (auto simp: delete_appointment_def Let_def split: option.splits sum.splits if_splits)
  have "appointments_ok d" using \<open>wf_db d\<close> by (simp add: wf_db_def)
  then have "appointments_ok (snd (delete_appointment req i d))"
    using appointments_ok_filter[OF _ as, of "snd (delete_appointment req i d)"] d' by simp
  then show ?thesis using wf_db_set_appointments[OF \<open>wf_db d\<close>] d' by simp
qed (simp add: \<open>wf_db d\<close>)

lemma update_fields:
  assumes "req_body req = Some (JObj kvs)" and "pg_uuid_in i = Inr u" and "appointments d = Some as"
    and "bind_nullable text_in (json_get kvs ''title'') = Inr t"
    and "bind_nullable text_in (json_get kvs ''description'') = Inr ds"
    and "bind_nullable pg_timestamptz_in (json_get kvs ''appointmentDate'') = Inr dt"
    and "bind_nullable pg_int4_in (json_get kvs ''durationMinutes'') = Inr du"
    and "bind_nullable text_in (json_get kvs ''status'') = Inr st"
  shows "update_appointment req i d =
     (let as' = update_where (\<lambda>a. ap_id a = u) (coalesce_row t ds dt du st) as
      in case filter (\<lambda>a. ap_id a = u) as' of
           [] \<Rightarrow> (error_response 404 ''Appointment not found'', d)
         | r # _ \<Rightarrow> (json_response (JObj (appointment_fields r)), d\<lparr>appointments := Some as'\<rparr>))"
  using assms by (simp add: update_appointment_def Let_def)

lemma bind_nullable_None [simp]: "bind_nullable input None = Inr None"
  by (simp add: bind_nullable_def)



text \<open>
  C23: \<open>PUT\<close> stores an empty title (\<open>COALESCE('', title)\<close> is \<open>''\<close>), which
  \<open>POST\<close> rejects with 400.
\<close>

theorem update_accepts_empty_title:
  assumes "req_body req = Some (JObj [(''title'', JStr [])])" and "pg_uuid_in i = Inr u"
    and "appointments d = Some as" and "distinct (map ap_id as)" and "a \<in> set as" and "ap_id a = u"
  shows "update_appointment req i d =
           (json_response (JObj (appointment_fields (a\<lparr>ap_title := []\<rparr>))),
            d\<lparr>appointments := Some (update_where (\<lambda>x. ap_id x = u) (\<lambda>x. x\<lparr>ap_title := []\<rparr>) as)\<rparr>)"
proof -
  have c: "coalesce_row (Some []) None None None None = (\<lambda>x. x\<lparr>ap_title := []\<rparr>)"
    by (simp add: coalesce_row_def fun_eq_iff)
  have t: "bind_nullable text_in (json_get [(''title'', JStr [])] ''title'') = Inr (Some [])"
    by (simp add: json_get_def bind_nullable_def text_in_def)
  have "filter (\<lambda>x. ap_id x = ap_id a) (update_where (\<lambda>x. ap_id x = ap_id a) (\<lambda>x. x\<lparr>ap_title := []\<rparr>) as)
          = [a\<lparr>ap_title := []\<rparr>]"
    by (rule filter_update_where_single[OF assms(4,5)]) simp
  then show ?thesis
    using update_fields[OF assms(1-3) t] assms(6) by (simp add: json_get_def c)
qed

theorem update_accepts_empty_title_witness:
  "update_appointment (\<lparr>req_headers = \<lambda>_. None, req_query = [], req_body = Some (JObj [(''title'', JStr [])]), req_user = None\<rparr>) ''1'' sample_db =
     (json_response (JObj (appointment_fields (sample_appointment\<lparr>ap_title := []\<rparr>))),
      sample_db\<lparr>appointments := Some (update_where (\<lambda>x. ap_id x = 1) (\<lambda>x. x\<lparr>ap_title := []\<rparr>) [sample_appointment])\<rparr>)"
  by (rule update_accepts_empty_title[where as = "[sample_appointment]"])
     (simp_all add: sample_defs pg_uuid_in_def dec_digit_def digits_value_def digit_value_def)

text \<open>
  C25: \<open>DELETE\<close> removes exactly the appointments with the given id, keeping every
  other row in order; it answers 200 when one existed and 404 otherwise.
\<close>

theorem delete_appointment_removes:
  assumes "pg_uuid_in i = Inr u" and "appointments d = Some as"
  shows "appointments (snd (delete_appointment req i d)) = Some (filter (\<lambda>a. ap_id a \<noteq> u) as)
         \<and> status (fst (delete_appointment req i d)) = (if u \<in> ap_id ` set as then 200 else 404)"
proof (cases "list_ex (\<lambda>a. ap_id a = u) as")
  case True
  then show ?thesis using assms
    by (auto simp: delete_appointment_def json_response_def list_ex_iff)
next
  case False
  then have "filter (\<lambda>a. ap_id a \<noteq> u) as = as" by (auto simp: list_ex_iff)
  then show ?thesis using assms False
    by (auto simp: delete_appointment_def error_response_def list_ex_iff)
qed

theorem delete_appointment_removes_witness:
  "appointments (snd (delete_appointment (\<lparr>req_headers = \<lambda>_. None, req_query = [], req_body = None, req_user = None\<rparr>) ''1'' sample_db)) = Some (filter (\<lambda>a. ap_id a \<noteq> 1) [sample_appointment])
   \<and> status (fst (delete_appointment (\<lparr>req_headers = \<lambda>_. None, req_query = [], req_body = None, req_user = None\<rparr>) ''1'' sample_db)) = (if (1::nat) \<in> ap_id ` set [sample_appointment] then 200 else 404)"
  by (rule delete_appointment_removes)
     (simp_all add: sample_defs pg_uuid_in_def dec_digit_def digits_value_def digit_value_def)

text \<open>
  C22: \<open>POST\<close> without a truthy \<open>clientId\<close>, \<open>title\<close> or
  \<open>appointmentDate\<close> is answered 400 and leaves the store unchanged.
\<close>

theorem create_appointment_requires_fields:
  assumes "req_body req = Some (JObj kvs)"
    and "\<not> field_truthy (json_get kvs ''clientId'') \<or> \<not> field_truthy (json_get kvs ''title'')
         \<or> \<not> field_truthy (json_get kvs ''appointmentDate'')"
  shows "create_appointment req c d =
           (error_response 400 ''Client ID, title, and appointment date are required'', d)"
  using assms by (auto simp: create_appointment_def Let_def)

theorem create_appointment_requires_fields_witness:
  "create_appointment (\<lparr>req_headers = \<lambda>_. None, req_query = [], req_body = Some (JObj [(''clientId'', JStr ''0''), (''title'', JStr [])]), req_user = None\<rparr>) () sample_db =
     (error_response 400 ''Client ID, title, and appointment date are required'', sample_db)"
  by (rule create_appointment_requires_fields[where kvs = "[(''clientId'', JStr ''0''), (''title'', JStr [])]"])
     (simp_all add: sample_defs json_get_def)

end
