(* ===== verification/JsonParse.thy ===== *)
theory JsonParse
  imports Js
begin

text \<open>
  \<open>JSON.parse\<close>, which the session hook applies to the stored admin
  (\<^verbatim>\<open>src/hooks/use-auth.ts\<close>, line 46) and \<open>response.json()\<close> applies to every
  response body.  It is a recursive-descent parser over the text: \<open>parse_value\<close>,
  \<open>parse_elems\<close> and \<open>parse_members\<close> call each other on the rest of the input and
  carry a fuel argument; a result is the parsed value with the rest of the input, a
  syntax error (the \<open>SyntaxError\<close> \<open>JSON.parse\<close> throws) or the fuel running out.
  The fuel \<open>json_fuel s = 2 * length s + 1\<close> is enough: the lemmas below show that the
  parser never runs out of it and that more fuel gives the same answer.
  The value type is the one of the model (\<open>Js.json\<close>): numbers are integers, so a
  number with a fraction or an exponent is rejected, and characters are 8-bit, so a
  \<open>\u\<close> escape above 0xFF is rejected.
\<close>

section \<open>Definitions\<close>

datatype 'a presult = Parsed 'a string | Syntax_error | Out_of_fuel

primrec pmap :: "('a \<Rightarrow> 'b) \<Rightarrow> 'a presult \<Rightarrow> 'b presult" where
  "pmap f (Parsed v r) = Parsed (f v) r"
| "pmap f Syntax_error = Syntax_error"
| "pmap f Out_of_fuel = Out_of_fuel"

text \<open>JSON white space: space, tab, line feed, carriage return.\<close>

definition json_ws :: "char \<Rightarrow> bool" where
  "json_ws c \<longleftrightarrow> c = CHR '' '' \<or> c = CHR 0x09 \<or> c = CHR 0x0A \<or> c = CHR 0x0D"

definition skip_ws :: "string \<Rightarrow> string" where
  "skip_ws s = dropWhile json_ws s"

definition is_digit :: "char \<Rightarrow> bool" where
  "is_digit c \<longleftrightarrow> digit_value 10 c \<noteq> None"

text \<open>The character a one-letter escape \<open>\e\<close> stands for.\<close>

definition unescape :: "char \<Rightarrow> char option" where
  "unescape e =
     (if e = CHR 0x22 then Some (CHR 0x22)
      else if e = CHR 0x5C then Some (CHR 0x5C)
      else if e = CHR ''/'' then Some (CHR ''/'')
      else if e = CHR ''b'' then Some (CHR 0x08)
      else if e = CHR ''f'' then Some (CHR 0x0C)
      else if e = CHR ''n'' then Some (CHR 0x0A)
      else if e = CHR ''r'' then Some (CHR 0x0D)
      else if e = CHR ''t'' then Some (CHR 0x09)
      else None)"

definition hex4 :: "string \<Rightarrow> nat option" where
  "hex4 s =
     (if 4 \<le> length s \<and> list_all (\<lambda>c. digit_value 16 c \<noteq> None) (take 4 s)
      then Some (digits_value 16 (take 4 s)) else None)"

definition pcons :: "char \<Rightarrow> (string \<times> string) option \<Rightarrow> (string \<times> string) option" where
  "pcons c r = map_option (\<lambda>(s, rest). (c # s, rest)) r"

text \<open>The body of a string literal after its opening quote.\<close>

fun parse_string :: "string \<Rightarrow> (string \<times> string) option" where
  "parse_string [] = None"
| "parse_string (c # r) =
     (if c = CHR 0x22 then Some ([], r)
      else if c = CHR 0x5C then
        (case r of
           [] \<Rightarrow> None
         | e # r' \<Rightarrow>
             (if e = CHR ''u'' then
                (case hex4 r' of
                   None \<Rightarrow> None
                 | Some v \<Rightarrow> (if v < 256 then pcons (char_of v) (parse_string (drop 4 r')) else None))
              else (case unescape e of
                      None \<Rightarrow> None
                    | Some ch \<Rightarrow> pcons ch (parse_string r'))))
      else if (of_char c :: nat) < 32 then None
      else pcons c (parse_string r))"

text \<open>
  A number: an optional minus, then \<open>0\<close> or a digit run without a leading zero.
  A fraction or exponent makes a number that is not an integer.
\<close>

definition int_digits :: "string \<Rightarrow> string" where
  "int_digits s = (case s of c # _ \<Rightarrow> (if c = CHR ''0'' then [c] else takeWhile is_digit s) | [] \<Rightarrow> [])"

definition frac_or_exp :: "string \<Rightarrow> bool" where
  "frac_or_exp s = (case s of c # _ \<Rightarrow> c = CHR ''.'' \<or> c = CHR ''e'' \<or> c = CHR ''E'' | [] \<Rightarrow> False)"

definition parse_unsigned :: "string \<Rightarrow> (nat \<times> string) option" where
  "parse_unsigned s =
     (let ds = int_digits s; rest = drop (length ds) s
      in if ds = [] \<or> frac_or_exp rest then None else Some (digits_value 10 ds, rest))"

definition parse_number :: "string \<Rightarrow> (int \<times> string) option" where
  "parse_number s =
     (case s of
        c # r \<Rightarrow> (if c = CHR ''-'' then map_option (\<lambda>(k, rest). (- int k, rest)) (parse_unsigned r)
                  else map_option (\<lambda>(k, rest). (int k, rest)) (parse_unsigned s))
      | [] \<Rightarrow> None)"

definition parse_literal :: "string \<Rightarrow> json presult" where
  "parse_literal s =
     (if take 4 s = ''null'' then Parsed JNull (drop 4 s)
      else if take 4 s = ''true'' then Parsed (JBool True) (drop 4 s)
      else if take 5 s = ''false'' then Parsed (JBool False) (drop 5 s)
      else (case parse_number s of
              Some (i, r) \<Rightarrow> Parsed (JNum i) r
            | None \<Rightarrow> Syntax_error))"

fun parse_value :: "nat \<Rightarrow> string \<Rightarrow> json presult"
and parse_elems :: "nat \<Rightarrow> string \<Rightarrow> json list presult"
and parse_members :: "nat \<Rightarrow> string \<Rightarrow> (string \<times> json) list presult" where
  "parse_value 0 s = Out_of_fuel"
| "parse_value (Suc n) s =
     (case skip_ws s of
        [] \<Rightarrow> Syntax_error
      | c # r \<Rightarrow>
          (if c = CHR ''['' then
             (case skip_ws r of
                d # r' \<Rightarrow> (if d = CHR '']'' then Parsed (JArr []) r' else pmap JArr (parse_elems n r))
              | [] \<Rightarrow> Syntax_error)
           else if c = CHR ''{'' then
             (case skip_ws r of
                d # r' \<Rightarrow> (if d = CHR ''}'' then Parsed (JObj []) r' else pmap JObj (parse_members n r))
              | [] \<Rightarrow> Syntax_error)
           else if c = CHR 0x22 then
             (case parse_string r of
                Some (str, r') \<Rightarrow> Parsed (JStr str) r'
              | None \<Rightarrow> Syntax_error)
           else parse_literal (c # r)))"
| "parse_elems 0 s = Out_of_fuel"
| "parse_elems (Suc n) s =
     (case parse_value n s of
        Parsed v r \<Rightarrow>
          (case skip_ws r of
             d # r' \<Rightarrow> (if d = CHR '','' then pmap (Cons v) (parse_elems n r')
                        else if d = CHR '']'' then Parsed [v] r' else Syntax_error)
           | [] \<Rightarrow> Syntax_error)
      | Syntax_error \<Rightarrow> Syntax_error
      | Out_of_fuel \<Rightarrow> Out_of_fuel)"
| "parse_members 0 s = Out_of_fuel"
| "parse_members (Suc n) s =
     (case skip_ws s of
        q # r \<Rightarrow>
          (if q = CHR 0x22 then
             (case parse_string r of
                Some (k, r1) \<Rightarrow>
                  (case skip_ws r1 of
                     e # r2 \<Rightarrow>
                       (if e = CHR '':'' then
                          (case parse_value n r2 of
                             Parsed v r3 \<Rightarrow>
                               (case skip_ws r3 of
                                  d # r4 \<Rightarrow> (if d = CHR '','' then pmap (Cons (k, v)) (parse_members n r4)
                                             else if d = CHR ''}'' then Parsed [(k, v)] r4
                                             else Syntax_error)
                                | [] \<Rightarrow> Syntax_error)
                           | Syntax_error \<Rightarrow> Syntax_error
                           | Out_of_fuel \<Rightarrow> Out_of_fuel)
                        else Syntax_error)
                   | [] \<Rightarrow> Syntax_error)
              | None \<Rightarrow> Syntax_error)
           else Syntax_error)
      | [] \<Rightarrow> Syntax_error)"

definition json_fuel :: "string \<Rightarrow> nat" where
  "json_fuel s = 2 * length s + 1"

text \<open>\<open>JSON.parse(s)\<close>: one value, then only white space; \<open>None\<close> where it throws.\<close>

definition json_parse :: "string \<Rightarrow> json option" where
  "json_parse s =
     (case parse_value (json_fuel s) s of
        Parsed v r \<Rightarrow> (if skip_ws r = [] then Some v else None)
      | _ \<Rightarrow> None)"

text \<open>What may follow a number and a value in printed JSON, and the text of an object member.\<close>

definition num_stop :: "string \<Rightarrow> bool" where
  "num_stop rest \<longleftrightarrow> (case rest of [] \<Rightarrow> True | c # _ \<Rightarrow> \<not> is_digit c) \<and> \<not> frac_or_exp rest"

definition value_stop :: "string \<Rightarrow> bool" where
  "value_stop rest \<longleftrightarrow> (case rest of [] \<Rightarrow> True
     | c # _ \<Rightarrow> c = CHR '','' \<or> c = CHR '']'' \<or> c = CHR ''}'')"

abbreviation member_text :: "string \<times> json \<Rightarrow> string" where
  "member_text kv \<equiv> json_quote (fst kv) @ CHR '':'' # json_stringify (snd kv)"

section \<open>Lemmas\<close>

subsection \<open>Every call consumes input\<close>

lemma length_skip_ws [simp]: "length (skip_ws s) \<le> length s"
  by (simp add: skip_ws_def length_dropWhile_le)

lemma skip_ws_Cons_length: "skip_ws s = c # r \<Longrightarrow> length r < length s"
  using length_skip_ws[of s] by simp

lemma parse_string_length: "parse_string s = Some (t, rest) \<Longrightarrow> length rest < length s"
proof (induction s arbitrary: t rule: parse_string.induct)
  case 1
  then show ?case by simp
next
  case (2 c r)
  then show ?case
    by (fastforce simp: pcons_def split: if_splits list.splits option.splits)
qed

lemma parse_unsigned_length: "parse_unsigned s = Some (k, r) \<Longrightarrow> length r < length s"
  by (auto simp: parse_unsigned_def int_digits_def Let_def split: list.splits if_splits)

lemma parse_number_length: "parse_number s = Some (i, r) \<Longrightarrow> length r < length s"
  by (auto simp: parse_number_def dest!: parse_unsigned_length split: list.splits if_splits)

lemma take_eq_length: "take k s = t \<Longrightarrow> length t = k \<Longrightarrow> 0 < k \<Longrightarrow> length s - k < length s"
  by (metis diff_less length_take min.absorb_iff2 min_def not_gr0 take_eq_Nil)

lemma parse_literal_length: "parse_literal s = Parsed v r \<Longrightarrow> length r < length s"
  by (auto simp: parse_literal_def dest!: parse_number_length take_eq_length
           split: if_splits option.splits prod.splits)

lemma pmap_Parsed [simp]: "pmap f x = Parsed v r \<longleftrightarrow> (\<exists>u. x = Parsed u r \<and> v = f u)"
  by (cases x) auto

lemma pmap_Out_of_fuel [simp]: "pmap f x = Out_of_fuel \<longleftrightarrow> x = Out_of_fuel"
  by (cases x) auto

lemma parse_shorter:
  "(\<forall>s v r. parse_value n s = Parsed v r \<longrightarrow> length r < length s)
   \<and> (\<forall>s v r. parse_elems n s = Parsed v r \<longrightarrow> length r < length s)
   \<and> (\<forall>s v r. parse_members n s = Parsed v r \<longrightarrow> length r < length s)"
proof (induction n)
  case 0
  then show ?case by simp
next
  case (Suc n)
  have v: "length r < length s" if "parse_value (Suc n) s = Parsed v r" for s v r
    using that Suc skip_ws_Cons_length[of s]
    by (fastforce split: list.splits if_splits option.splits prod.splits
                  dest: parse_string_length parse_literal_length skip_ws_Cons_length)
  have e: "length r < length s" if "parse_elems (Suc n) s = Parsed v r" for s v r
    using that Suc
    by (fastforce split: list.splits if_splits presult.splits dest: skip_ws_Cons_length)
  have m: "length r < length s" if "parse_members (Suc n) s = Parsed v r" for s v r
    using that Suc
    by (fastforce split: list.splits if_splits presult.splits option.splits prod.splits
                  dest: skip_ws_Cons_length parse_string_length)
  show ?case using v e m by blast
qed

lemma parse_value_shorter: "parse_value n s = Parsed v r \<Longrightarrow> length r < length s"
  using parse_shorter by blast

lemma parse_literal_fuel [simp]: "parse_literal s \<noteq> Out_of_fuel"
  by (simp add: parse_literal_def split: option.splits prod.splits)

lemmas parse_Suc_simps = parse_value.simps(2) parse_elems.simps(2) parse_members.simps(2)

lemma parse_fuel_enough:
  "(\<forall>s. 2 * length s < n \<longrightarrow> parse_value n s \<noteq> Out_of_fuel)
   \<and> (\<forall>s. 2 * length s + 1 < n \<longrightarrow> parse_elems n s \<noteq> Out_of_fuel)
   \<and> (\<forall>s. 2 * length s + 1 < n \<longrightarrow> parse_members n s \<noteq> Out_of_fuel)"
proof (induction n)
  case 0
  then show ?case by simp
next
  case (Suc n)
  have V: "parse_value n s \<noteq> Out_of_fuel" if "2 * length s < n" for s
    using that Suc.IH by blast
  have E: "parse_elems n s \<noteq> Out_of_fuel" if "2 * length s + 1 < n" for s
    using that Suc.IH by blast
  have M: "parse_members n s \<noteq> Out_of_fuel" if "2 * length s + 1 < n" for s
    using that Suc.IH by blast
  have v: "parse_value (Suc n) s \<noteq> Out_of_fuel" if h: "2 * length s < Suc n" for s
  proof (cases "skip_ws s")
    case (Cons c r)
    with h have "2 * length r + 1 < n" using skip_ws_Cons_length[OF Cons] by simp
    then show ?thesis
      using Cons E[of r] M[of r] unfolding parse_value.simps(2)[of n s]
      by (simp del: parse_Suc_simps split: list.splits option.splits prod.splits)
  qed simp
  have e: "parse_elems (Suc n) s \<noteq> Out_of_fuel" if h: "2 * length s + 1 < Suc n" for s
  proof (cases "parse_value n s")
    case (Parsed x r)
    have "length r < length s" using Parsed by (rule parse_value_shorter)
    then have "2 * length r' + 1 < n" if "skip_ws r = d # r'" for d r'
      using h skip_ws_Cons_length[OF that] by simp
    then show ?thesis
      using Parsed E unfolding parse_elems.simps(2)[of n s]
      by (simp del: parse_Suc_simps split: list.splits)
  next
    case Out_of_fuel
    with h V[of s] show ?thesis by simp
  qed (simp del: parse_Suc_simps add: parse_elems.simps(2)[of n s])
  have m: "parse_members (Suc n) s \<noteq> Out_of_fuel" if h: "2 * length s + 1 < Suc n" for s
  proof -
    have A: "parse_value n r2 \<noteq> Out_of_fuel" if "length r2 < length s" for r2
      using that h V by simp
    have B: "parse_members n r4 \<noteq> Out_of_fuel" if "length r4 + 2 < length s" for r4
      using that h M by simp
    show ?thesis
      unfolding parse_members.simps(2)[of n s]
      apply (simp del: parse_Suc_simps split: list.split option.split prod.split presult.split,
             intro allI impI conjI)
      subgoal premises p for r k r1 r2 x r3 r4
        using skip_ws_Cons_length[OF p(5)] parse_string_length[OF p(4)] skip_ws_Cons_length[OF p(3)]
          parse_value_shorter[OF p(2)] skip_ws_Cons_length[OF p(1)]
        by (intro B) simp
      subgoal premises p for r k r1 r2
      proof
        assume "skip_ws s = CHR 0x22 # r"
        then show False
          using skip_ws_Cons_length parse_string_length[OF p(3)] skip_ws_Cons_length[OF p(2)] A[of r2] p(1)
          by fastforce
      qed
      done
  qed
  show ?case using v e m by blast
qed


lemma parse_fuel_mono:
  "(\<forall>s. parse_value n s \<noteq> Out_of_fuel \<longrightarrow> parse_value (Suc n) s = parse_value n s)
   \<and> (\<forall>s. parse_elems n s \<noteq> Out_of_fuel \<longrightarrow> parse_elems (Suc n) s = parse_elems n s)
   \<and> (\<forall>s. parse_members n s \<noteq> Out_of_fuel \<longrightarrow> parse_members (Suc n) s = parse_members n s)"
proof (induction n)
  case 0
  then show ?case by simp
next
  case (Suc n)
  have V: "parse_value (Suc n) s = parse_value n s" if "parse_value n s \<noteq> Out_of_fuel" for s
    using that Suc.IH by blast
  have E: "parse_elems (Suc n) s = parse_elems n s" if "parse_elems n s \<noteq> Out_of_fuel" for s
    using that Suc.IH by blast
  have M: "parse_members (Suc n) s = parse_members n s" if "parse_members n s \<noteq> Out_of_fuel" for s
    using that Suc.IH by blast
  have v: "parse_value (Suc (Suc n)) s = parse_value (Suc n) s"
    if h: "parse_value (Suc n) s \<noteq> Out_of_fuel" for s
  proof (cases "skip_ws s")
    case (Cons c r)
    consider "c = CHR ''[''" | "c = CHR ''{''" | "c \<noteq> CHR ''[''" "c \<noteq> CHR ''{''" by blast
    then show ?thesis
    proof cases
      case 1
      then show ?thesis
        using h Cons E[of r]
        by (cases "parse_elems n r") (simp_all del: parse_Suc_simps add: parse_value.simps(2) split: list.splits if_splits)
    next
      case 2
      then show ?thesis
        using h Cons M[of r]
        by (cases "parse_members n r") (simp_all del: parse_Suc_simps add: parse_value.simps(2) split: list.splits if_splits)
    qed (use Cons in simp)
  qed simp
  have e: "parse_elems (Suc (Suc n)) s = parse_elems (Suc n) s"
    if h: "parse_elems (Suc n) s \<noteq> Out_of_fuel" for s
  proof -
    have "parse_value n s \<noteq> Out_of_fuel"
      using h by (auto simp only: parse_elems.simps(2)[of n s] split: presult.splits)
    then have V': "parse_value (Suc n) s = parse_value n s" by (rule V)
    show ?thesis
      using h unfolding parse_elems.simps(2)[of "Suc n" s] parse_elems.simps(2)[of n s] V'
      by (auto simp del: parse_Suc_simps simp add: E split: presult.splits list.splits if_splits)
  qed
  have m: "parse_members (Suc (Suc n)) s = parse_members (Suc n) s"
    if h: "parse_members (Suc n) s \<noteq> Out_of_fuel" for s
  proof (cases "\<exists>r k r1 r2. skip_ws s = CHR 0x22 # r \<and> parse_string r = Some (k, r1)
                              \<and> skip_ws r1 = CHR '':'' # r2")
    case True
    then obtain r k r1 r2 where c: "skip_ws s = CHR 0x22 # r" "parse_string r = Some (k, r1)"
      "skip_ws r1 = CHR '':'' # r2" by blast
    note unf = parse_members.simps(2)[of "Suc n" s] parse_members.simps(2)[of n s]
    show ?thesis
    proof (cases "parse_value n r2")
      case (Parsed x r3)
      with V[of r2] have "parse_value (Suc n) r2 = Parsed x r3" by simp
      with Parsed h c M show ?thesis
        unfolding unf by (auto simp del: parse_Suc_simps split: list.splits)
    next
      case Syntax_error
      with V[of r2] have "parse_value (Suc n) r2 = Syntax_error" by simp
      with Syntax_error c show ?thesis
        unfolding unf by (simp del: parse_Suc_simps)
    next
      case Out_of_fuel
      with h c show ?thesis
        unfolding unf by (simp del: parse_Suc_simps)
    qed
  next
    case False
    then show ?thesis
      unfolding parse_members.simps(2)[of "Suc n" s] parse_members.simps(2)[of n s]
      by (auto simp del: parse_Suc_simps split: list.splits option.splits prod.splits)
  qed
  show ?case using v e m by blast
qed

lemma parse_mono_le:
  assumes "n \<le> m"
  shows "(parse_value n s \<noteq> Out_of_fuel \<longrightarrow> parse_value m s = parse_value n s)
       \<and> (parse_elems n s \<noteq> Out_of_fuel \<longrightarrow> parse_elems m s = parse_elems n s)
       \<and> (parse_members n s \<noteq> Out_of_fuel \<longrightarrow> parse_members m s = parse_members n s)"
  using assms
proof (induction m)
  case (Suc m)
  show ?case
  proof (cases "n = Suc m")
    case False
    with Suc have "n \<le> m" by simp
    with Suc.IH parse_fuel_mono[of m] show ?thesis by metis
  qed simp
qed simp

lemma parse_value_mono: "parse_value n s = Parsed v r \<Longrightarrow> n \<le> m \<Longrightarrow> parse_value m s = Parsed v r"
  using parse_mono_le[of n m s] by simp

lemma parse_elems_mono: "parse_elems n s = Parsed v r \<Longrightarrow> n \<le> m \<Longrightarrow> parse_elems m s = Parsed v r"
  using parse_mono_le[of n m s] by simp

lemma parse_members_mono: "parse_members n s = Parsed v r \<Longrightarrow> n \<le> m \<Longrightarrow> parse_members m s = Parsed v r"
  using parse_mono_le[of n m s] by simp

subsection \<open>Text of strings and numbers\<close>

lemma digit_value_hex_digit: "k < 16 \<Longrightarrow> digit_value 16 (hex_digit k) = Some k"
  by (auto simp: digit_value_def hex_digit_def Let_def of_char_of)

lemma digit_value_zero: "digit_value 16 (CHR ''0'') = Some 0"
  by (simp add: digit_value_def)

lemma hex4_escape:
  assumes "n < 32"
  shows "hex4 (CHR ''0'' # CHR ''0'' # hex_digit (n div 16) # hex_digit (n mod 16) # x) = Some n"
proof -
  have "n div 16 < 16" using assms by simp
  then show ?thesis
    by (simp add: hex4_def digit_value_hex_digit digits_value_def digit_value_zero)
qed

lemma char_of_controls:
  "char_of (8::nat) = CHR 0x08" "char_of (9::nat) = CHR 0x09" "char_of (10::nat) = CHR 0x0A"
  "char_of (12::nat) = CHR 0x0C" "char_of (13::nat) = CHR 0x0D"
  by code_simp+

lemma parse_string_escape: "parse_string (json_escape c @ x) = pcons c (parse_string x)"
proof -
  define n where "n = (of_char c :: nat)"
  have c: "c = char_of n" by (simp add: n_def)
  have "n < 256" by (simp add: n_def)
  show ?thesis
    unfolding json_escape_def Let_def n_def[symmetric]
    using \<open>n < 256\<close>
    by (auto simp: c unescape_def hex4_escape char_of_controls)
qed

lemma parse_string_quote:
  "parse_string (concat (map json_escape s) @ CHR 0x22 # rest) = Some (s, rest)"
  by (induction s) (simp_all add: parse_string_escape pcons_def)

lemma parse_json_quote:
  "json_quote s @ rest = CHR 0x22 # (concat (map json_escape s) @ CHR 0x22 # rest)"
  by (simp add: json_quote_def)

lemma takeWhile_show_nat:
  "num_stop rest \<Longrightarrow> takeWhile is_digit (show_nat m @ rest) = show_nat m"
  using show_nat_digits[of m]
  by (auto simp: takeWhile_append list_all_iff is_digit_def num_stop_def split: list.splits)

lemma parse_unsigned_show_nat:
  assumes "num_stop rest"
  shows "parse_unsigned (show_nat m @ rest) = Some (m, rest)"
proof -
  obtain c r where cr: "show_nat m = c # r" "c = CHR ''0'' \<longrightarrow> r = []"
    using show_nat_hd[of m] by blast
  have "int_digits (show_nat m @ rest) = show_nat m"
  proof (cases "c = CHR ''0''")
    case True
    then show ?thesis using cr by (simp add: int_digits_def)
  next
    case False
    then show ?thesis using cr takeWhile_show_nat[OF assms, of m] by (simp add: int_digits_def)
  qed
  then show ?thesis
    using assms show_nat_value[of m] by (simp add: parse_unsigned_def num_stop_def)
qed

lemma parse_number_show_int:
  assumes "num_stop rest"
  shows "parse_number (show_int i @ rest) = Some (i, rest)"
proof -
  obtain c r where cr: "show_nat (nat i) = c # r" "48 \<le> (of_char c :: nat)"
    using show_nat_hd[of "nat i"] by blast
  then have "c \<noteq> CHR ''-''" by auto
  then show ?thesis
    using cr parse_unsigned_show_nat[OF assms, of "nat (- i)"] parse_unsigned_show_nat[OF assms, of "nat i"]
    by (simp add: show_int_def parse_number_def)
qed

lemma show_int_head:
  "\<exists>c r. show_int i = c # r \<and> (c = CHR ''-'' \<or> is_digit c)"
  using show_nat_hd[of "nat (- i)"] show_nat_hd[of "nat i"]
  by (auto simp: show_int_def is_digit_def digit_value_def Let_def)

lemma parse_literal_show_int:
  assumes "num_stop rest"
  shows "parse_literal (show_int i @ rest) = Parsed (JNum i) rest"
proof -
  obtain c r where "show_int i = c # r" "c = CHR ''-'' \<or> is_digit c"
    using show_int_head by blast
  then have "c \<noteq> CHR ''n'' \<and> c \<noteq> CHR ''t'' \<and> c \<noteq> CHR ''f''"
    by (auto simp: is_digit_def digit_value_def)
  then show ?thesis
    using parse_number_show_int[OF assms, of i]
    unfolding parse_literal_def \<open>show_int i = c # r\<close> by simp
qed

subsection \<open>Parsing what \<open>JSON.stringify\<close> prints\<close>

lemma value_stop_num_stop: "value_stop rest \<Longrightarrow> num_stop rest"
  by (auto simp: value_stop_def num_stop_def is_digit_def digit_value_def frac_or_exp_def split: list.splits)

lemma skip_ws_Cons [simp]: "\<not> json_ws c \<Longrightarrow> skip_ws (c # r) = c # r"
  by (simp add: skip_ws_def)

lemma json_ws_simps [simp]:
  "\<not> json_ws CHR '',''" "\<not> json_ws CHR '']''" "\<not> json_ws CHR ''}''" "\<not> json_ws CHR '':''"
  "\<not> json_ws CHR ''[''" "\<not> json_ws CHR ''{''" "\<not> json_ws CHR 0x22" "\<not> json_ws CHR ''-''"
  by (simp_all add: json_ws_def)

lemma stringify_head:
  "\<exists>c r. json_stringify j = c # r \<and> \<not> json_ws c \<and> c \<noteq> CHR '']'' \<and> c \<noteq> CHR ''}''"
proof (cases j)
  case (JNum i)
  obtain c r where "show_int i = c # r" "c = CHR ''-'' \<or> is_digit c"
    using show_int_head by blast
  with JNum show ?thesis
    by (auto simp: is_digit_def digit_value_def json_ws_def)
qed (auto simp: json_quote_def json_ws_def)

lemma skip_ws_stringify [simp]: "skip_ws (json_stringify j @ rest) = json_stringify j @ rest"
  using stringify_head[of j] by auto

lemma parse_elems_stringify:
  assumes "xs \<noteq> []"
    and "\<forall>x \<in> set xs. \<forall>rest. value_stop rest \<longrightarrow> (\<exists>n. parse_value n (json_stringify x @ rest) = Parsed x rest)"
  shows "\<exists>n. parse_elems n (join_with '','' (map json_stringify xs) @ CHR '']'' # rest) = Parsed xs rest"
  using assms
proof (induction xs)
  case (Cons x xs)
  show ?case
  proof (cases xs)
    case Nil
    have "value_stop (CHR '']'' # rest)" by (simp add: value_stop_def)
    then obtain n where "parse_value n (json_stringify x @ CHR '']'' # rest) = Parsed x (CHR '']'' # rest)"
      using Cons.prems(2) by auto
    then have "parse_elems (Suc n) (json_stringify x @ CHR '']'' # rest) = Parsed [x] rest"
      by simp
    with Nil show ?thesis by (auto simp del: parse_Suc_simps)
  next
    case (Cons y ys)
    let ?tl = "join_with '','' (map json_stringify xs) @ CHR '']'' # rest"
    have "value_stop (CHR '','' # ?tl)" by (simp add: value_stop_def)
    then obtain n1 where n1: "parse_value n1 (json_stringify x @ CHR '','' # ?tl) = Parsed x (CHR '','' # ?tl)"
      using \<open>\<forall>x \<in> set (x # xs). _\<close> by auto
    obtain n2 where n2: "parse_elems n2 ?tl = Parsed xs rest"
      using Cons.IH \<open>\<forall>x \<in> set (x # xs). _\<close> \<open>xs = y # ys\<close> by auto
    have "parse_value (max n1 n2) (json_stringify x @ CHR '','' # ?tl) = Parsed x (CHR '','' # ?tl)"
      using parse_value_mono[OF n1] by simp
    moreover have "parse_elems (max n1 n2) ?tl = Parsed xs rest"
      using parse_elems_mono[OF n2] by simp
    ultimately have "parse_elems (Suc (max n1 n2)) (json_stringify x @ CHR '','' # ?tl) = Parsed (x # xs) rest"
      by simp
    with \<open>xs = y # ys\<close> show ?thesis by (auto simp del: parse_Suc_simps)
  qed
qed simp

lemma parse_member_step:
  assumes "parse_value n (json_stringify v @ d # t) = Parsed v (d # t)" and "\<not> json_ws d"
  shows "parse_members (Suc n) (member_text (k, v) @ d # t) =
           (if d = CHR '','' then pmap (Cons (k, v)) (parse_members n t)
            else if d = CHR ''}'' then Parsed [(k, v)] t else Syntax_error)"
  using assms by (simp add: json_quote_def parse_string_quote)

lemma parse_members_stringify:
  assumes "kvs \<noteq> []"
    and "\<forall>kv \<in> set kvs. \<forall>rest. value_stop rest \<longrightarrow>
           (\<exists>n. parse_value n (json_stringify (snd kv) @ rest) = Parsed (snd kv) rest)"
  shows "\<exists>n. parse_members n (join_with '','' (map member_text kvs) @ CHR ''}'' # rest) = Parsed kvs rest"
  using assms
proof (induction kvs)
  case (Cons kv kvs)
  obtain k v where kv: "kv = (k, v)" by fastforce
  show ?case
  proof (cases kvs)
    case Nil
    have "value_stop (CHR ''}'' # rest)" by (simp add: value_stop_def)
    then obtain n where "parse_value n (json_stringify v @ CHR ''}'' # rest) = Parsed v (CHR ''}'' # rest)"
      using Cons.prems(2) kv by auto
    from parse_member_step[OF this, of k, simplified]
    have "parse_members (Suc n) (member_text (k, v) @ CHR ''}'' # rest) = Parsed [(k, v)] rest"
      by simp
    with Nil kv show ?thesis by (auto simp del: parse_Suc_simps)
  next
    case (Cons y ys)
    let ?tl = "join_with '','' (map member_text kvs) @ CHR ''}'' # rest"
    have "value_stop (CHR '','' # ?tl)" by (simp add: value_stop_def)
    then obtain n1 where n1: "parse_value n1 (json_stringify v @ CHR '','' # ?tl) = Parsed v (CHR '','' # ?tl)"
      using \<open>\<forall>kv \<in> set (kv # kvs). _\<close> kv by auto
    obtain n2 where n2: "parse_members n2 ?tl = Parsed kvs rest"
      using Cons.IH \<open>\<forall>kv \<in> set (kv # kvs). _\<close> \<open>kvs = y # ys\<close> by auto
    have "parse_value (max n1 n2) (json_stringify v @ CHR '','' # ?tl) = Parsed v (CHR '','' # ?tl)"
      using parse_value_mono[OF n1] by simp
    from parse_member_step[OF this, of k, simplified]
    have "parse_members (Suc (max n1 n2)) (member_text (k, v) @ CHR '','' # ?tl) = Parsed ((k, v) # kvs) rest"
      using parse_members_mono[OF n2, of "max n1 n2"] by simp
    with \<open>kvs = y # ys\<close> kv show ?thesis by (auto simp del: parse_Suc_simps)
  qed
qed simp

lemma parse_stringify:
  "value_stop rest \<Longrightarrow> \<exists>n. parse_value n (json_stringify j @ rest) = Parsed j rest"
proof (induction j arbitrary: rest)
  case JNull
  show ?case
    using skip_ws_stringify[of JNull rest] by (intro exI[of _ 1]) (simp add: parse_literal_def)
next
  case (JBool b)
  show ?case
    using skip_ws_stringify[of "JBool b" rest] by (intro exI[of _ 1]) (cases b; simp add: parse_literal_def)
next
  case (JNum i)
  obtain c r where "show_int i = c # r" "c = CHR ''-'' \<or> is_digit c"
    using show_int_head by blast
  then have "\<not> json_ws c \<and> c \<noteq> CHR ''['' \<and> c \<noteq> CHR ''{'' \<and> c \<noteq> CHR 0x22"
    by (auto simp: is_digit_def digit_value_def json_ws_def)
  with \<open>show_int i = c # r\<close>
  have "parse_value 1 (show_int i @ rest) = parse_literal (show_int i @ rest)"
    by simp
  then show ?case
    using parse_literal_show_int[OF value_stop_num_stop[OF JNum.prems]] by (intro exI[of _ 1]) simp
next
  case (JStr s)
  then show ?case by (intro exI[of _ 1]) (simp add: json_quote_def parse_string_quote)
next
  case (JArr xs)
  show ?case
  proof (cases xs)
    case Nil
    then show ?thesis using JArr.prems by (intro exI[of _ 1]) (simp add: value_stop_def split: list.splits)
  next
    case (Cons y ys)
    then obtain n where n: "parse_elems n (join_with '','' (map json_stringify xs) @ CHR '']'' # rest) = Parsed xs rest"
      using parse_elems_stringify[of xs rest] JArr.IH by auto
    obtain c r where "json_stringify y = c # r" "\<not> json_ws c" "c \<noteq> CHR '']''"
      using stringify_head[of y] by blast
    with n Cons have "parse_value (Suc n) (json_stringify (JArr xs) @ rest) = Parsed (JArr xs) rest"
      by (cases ys) simp_all
    then show ?thesis by blast
  qed
next
  case (JObj kvs)
  show ?case
  proof (cases kvs)
    case Nil
    then show ?thesis using JObj.prems by (intro exI[of _ 1]) (simp add: value_stop_def split: list.splits)
  next
    case (Cons y ys)
    have "\<forall>kv \<in> set kvs. \<forall>rest. value_stop rest \<longrightarrow>
           (\<exists>n. parse_value n (json_stringify (snd kv) @ rest) = Parsed (snd kv) rest)"
      using JObj.IH by (metis prod.collapse snds.intros)
    then obtain n where n: "parse_members n (join_with '','' (map member_text kvs) @ CHR ''}'' # rest) = Parsed kvs rest"
      using parse_members_stringify[of kvs rest] Cons by auto
    with Cons have "parse_value (Suc n) (json_stringify (JObj kvs) @ rest) = Parsed (JObj kvs) rest"
      by (cases ys) (simp_all add: json_quote_def)
    then show ?thesis by blast
  qed
qed

section \<open>Properties\<close>

text \<open>\<open>JSON.parse\<close> reads back what \<open>JSON.stringify\<close> prints, for every value
  of the model.\<close>

theorem json_parse_stringify: "json_parse (json_stringify j) = Some j"
proof -
  let ?s = "json_stringify j"
  obtain n where n: "parse_value n ?s = Parsed j []"
    using parse_stringify[of "[]" j] by (auto simp: value_stop_def)
  have "parse_value (json_fuel ?s) ?s \<noteq> Out_of_fuel"
    using parse_fuel_enough[of "json_fuel ?s"] by (simp add: json_fuel_def)
  then have "parse_value (max n (json_fuel ?s)) ?s = parse_value (json_fuel ?s) ?s"
    using parse_mono_le[of "json_fuel ?s" "max n (json_fuel ?s)" ?s] by simp
  moreover have "parse_value (max n (json_fuel ?s)) ?s = Parsed j []"
    using parse_value_mono[OF n] by simp
  ultimately have "parse_value (json_fuel ?s) ?s = Parsed j []" by simp
  then show ?thesis
    by (simp add: json_parse_def skip_ws_def)
qed

end
