(* ===== verification/MockApi.thy ===== *)
theory MockApi
  imports Js Prelude
begin

text \<open>
  The client of the external appointment source, \<^verbatim>\<open>src/lib/mock-api.ts\<close>.  The
  network is a parameter: a \<open>fetcher\<close> gives the outcome of one \<open>fetch(url, {method,
  body})\<close>, either a network failure or a response with its status and its body read by
  \<open>response.json()\<close> (\<open>None\<close> when the body is not JSON).  Each method catches every
  failure and returns a fallback value, so none of them rejects; the route handlers that
  call them (\<open>getClients\<close>, \<open>createAppointment\<close>) discard the result.
\<close>

section \<open>Definitions\<close>

datatype fetch_outcome = NetworkError | HttpResponse nat "json option"

type_synonym fetcher = "string \<Rightarrow> string \<Rightarrow> json option \<Rightarrow> fetch_outcome"

definition mock_base_url :: "env \<Rightarrow> string" where
  "mock_base_url e = js_or (e ''MOCK_API_BASE_URL'') ''https://mock.api''"

text \<open>\<open>response.ok\<close>: a status in 200--299.\<close>

definition http_ok :: "nat \<Rightarrow> bool" where
  "http_ok st \<longleftrightarrow> 200 \<le> st \<and> st \<le> 299"

text \<open>
  The shared shape of the three methods: the parsed body of a 2xx response, the fallback
  for a network error, a non-2xx status (the thrown \<open>HTTP error!\<close>) or a body that is
  not JSON.
\<close>

definition fetch_or :: "fetch_outcome \<Rightarrow> json \<Rightarrow> json" where
  "fetch_or r fallback =
     (case r of
        HttpResponse st (Some j) \<Rightarrow> (if http_ok st then j else fallback)
      | _ \<Rightarrow> fallback)"

definition fallback_clients :: json where
  "fallback_clients =
     JArr [JObj [(''id'', JStr ''mock_1''), (''name'', JStr ''John Doe''),
                 (''email'', JStr ''john@example.com''), (''phone'', JStr ''+1-555-0101'')],
           JObj [(''id'', JStr ''mock_2''), (''name'', JStr ''Jane Smith''),
                 (''email'', JStr ''jane@example.com''), (''phone'', JStr ''+1-555-0102'')]]"

definition fetch_clients :: "fetcher \<Rightarrow> env \<Rightarrow> json" where
  "fetch_clients F e = fetch_or (F ''GET'' (mock_base_url e @ ''/clients'') None) fallback_clients"

definition fetch_appointments :: "fetcher \<Rightarrow> env \<Rightarrow> json" where
  "fetch_appointments F e = fetch_or (F ''GET'' (mock_base_url e @ ''/appointments'') None) (JArr [])"

text \<open>
  \<open>{ id: `mock_${Date.now()}`, ...appointment }\<close>: the spread comes after \<open>id\<close>, so a
  member of the argument wins over it (lookup from the end).
\<close>

definition mock_appointment :: "int \<Rightarrow> json \<Rightarrow> json" where
  "mock_appointment now a =
     JObj ((''id'', JStr (''mock_'' @ show_int now)) # (case a of JObj kvs \<Rightarrow> kvs | _ \<Rightarrow> []))"

definition create_appointment_mock :: "fetcher \<Rightarrow> env \<Rightarrow> int \<Rightarrow> json \<Rightarrow> json" where
  "create_appointment_mock F e now a =
     fetch_or (F ''POST'' (mock_base_url e @ ''/appointments'') (Some a)) (mock_appointment now a)"

text \<open>The argument \<open>createAppointment\<close> of the appointments route passes (lines 142--149).\<close>

definition mock_sync_payload :: "json option \<Rightarrow> json option \<Rightarrow> json option \<Rightarrow> json option \<Rightarrow> json option \<Rightarrow> json" where
  "mock_sync_payload clientId title description appointmentDate durationMinutes =
     JObj (present_values (\<lambda>kv. case snd kv of None \<Rightarrow> None | Some v \<Rightarrow> Some (fst kv, v))
       [(''clientId'', clientId), (''title'', title),
        (''description'', Some (if field_truthy description then the description else JStr [])),
        (''date'', appointmentDate),
        (''duration'', Some (if field_truthy durationMinutes then the durationMinutes else JNum 60)),
        (''status'', Some (JStr ''scheduled''))])"

section \<open>Lemmas\<close>

lemma fetch_or_fail:
  "\<not> (\<exists>st j. r = HttpResponse st (Some j) \<and> http_ok st) \<Longrightarrow> fetch_or r d = d"
  by (cases r) (auto simp: fetch_or_def split: option.splits)

lemma json_get_absent: "k \<notin> fst ` set kvs \<Longrightarrow> json_get kvs k = None"
  by (simp add: json_get_def map_of_eq_None_iff)

lemma mock_sync_payload_no_id:
  "mock_sync_payload ci t d ad dm = JObj kvs \<Longrightarrow> json_get kvs ''id'' = None"
  unfolding mock_sync_payload_def
  by (rule json_get_absent) (auto split: option.splits)

text \<open>C26: when the external service fails, answers with a non-2xx status or a body that is
  not JSON, \<open>createAppointment\<close> returns the synced appointment itself: every member the
  route sent, a \<open>mock_<now>\<close> id and no other member.\<close>

theorem mock_create_fallback_echo:
  assumes "\<not> (\<exists>st j. F ''POST'' (mock_base_url e @ ''/appointments'') (Some p) = HttpResponse st (Some j) \<and> http_ok st)"
    and "p = mock_sync_payload ci t d ad dm"
  shows "destructure (create_appointment_mock F e now p) =
           Some (\<lambda>k. if k = ''id'' then Some (JStr (''mock_'' @ show_int now)) else the (destructure p) k)"
proof -
  obtain kvs where p: "p = JObj kvs"
    using assms(2) by (simp add: mock_sync_payload_def)
  then have none: "json_get kvs ''id'' = None"
    using assms(2) by (simp add: mock_sync_payload_no_id)
  have "create_appointment_mock F e now p = JObj ((''id'', JStr (''mock_'' @ show_int now)) # kvs)"
    using assms(1) p by (simp add: create_appointment_mock_def fetch_or_fail mock_appointment_def)
  moreover have "json_get ((''id'', JStr (''mock_'' @ show_int now)) # kvs) k =
      (if k = ''id'' then Some (JStr (''mock_'' @ show_int now)) else json_get kvs k)" for k
    using none by (auto split: option.splits)
  ultimately show ?thesis
    using p by auto
qed

theorem mock_create_fallback_echo_witness:
  "\<not> (\<exists>st j. (\<lambda>_ _ _. NetworkError) ''POST'' (mock_base_url (\<lambda>_. None) @ ''/appointments'')
          (Some (mock_sync_payload (Some (JNum 1)) (Some (JStr ''Check-up'')) None (Some (JNum 5)) None))
        = HttpResponse st (Some j) \<and> http_ok st)
   \<and> destructure (create_appointment_mock (\<lambda>_ _ _. NetworkError) (\<lambda>_. None) 7
          (mock_sync_payload (Some (JNum 1)) (Some (JStr ''Check-up'')) None (Some (JNum 5)) None)) =
       Some (\<lambda>k. if k = ''id'' then Some (JStr (''mock_'' @ show_int 7))
                 else the (destructure (mock_sync_payload (Some (JNum 1)) (Some (JStr ''Check-up''))
                                          None (Some (JNum 5)) None)) k)"
  using mock_create_fallback_echo[where F = "\<lambda>_ _ _. NetworkError" and e = "\<lambda>_. None" and now = 7,
          OF _ refl]
  by simp

end
