(* ===== verification/Session.thy ===== *)
theory Session
  imports Auth JsonParse MockApi
begin

text \<open>
  The browser side of the session: the \<open>AuthProvider\<close> of
  \<^verbatim>\<open>src/hooks/use-auth.ts\<close>, the request helper \<open>apiCall\<close> of
  \<^verbatim>\<open>src/hooks/use-api.ts\<close> and the page \<^verbatim>\<open>src/app/page.tsx\<close>.
  The provider's React state is a record (\<open>admin\<close>, \<open>token\<close>, \<open>isLoading\<close>);
  \<open>localStorage\<close> is a map from keys to strings.  \<open>null\<close> and \<open>undefined\<close> are
  both \<open>JNull\<close> in the state: the code only tests them for truth.  A browser is the
  provider's state, the storage and the page's \<open>mounted\<close> flag, and
  \<open>session_step\<close> is the relation of what can happen next: the two mount effects, a
  login answered by the server, a logout, a reload of the page.  \<open>model_jwt\<close> is
  a JWT library that meets \<open>Auth.jwt_contract\<close>, used by the witnesses.
\<close>

section \<open>Definitions\<close>

subsection \<open>JavaScript string conversion\<close>

text \<open>
  \<open>String(v)\<close>, as \<open>new Error(v)\<close>, \<open>localStorage.setItem\<close> and a template literal
  apply it; \<open>Array.prototype.join\<close> writes \<open>null\<close> elements as the empty string.
\<close>

fun js_string :: "json \<Rightarrow> string" where
  "js_string JNull = ''null''"
| "js_string (JBool b) = (if b then ''true'' else ''false'')"
| "js_string (JNum i) = show_int i"
| "js_string (JStr s) = s"
| "js_string (JArr xs) = join_with '','' (map (\<lambda>x. if x = JNull then [] else js_string x) xs)"
| "js_string (JObj _) = ''[object Object]''"

subsection \<open>\<^verbatim>\<open>src/hooks/use-auth.ts\<close>\<close>

record auth_state =
  st_admin :: json
  st_token :: json
  st_loading :: bool

type_synonym storage = "string \<Rightarrow> string option"

definition initial_auth :: auth_state where
  "initial_auth = \<lparr>st_admin = JNull, st_token = JNull, st_loading = True\<rparr>"

text \<open>
  The mount effect: restore the token and the admin from the storage; an admin that
  \<open>JSON.parse\<close> rejects is removed from the storage.  Outside a browser
  (\<open>typeof window === "undefined"\<close>) it does nothing.
\<close>

definition restore_session :: "bool \<Rightarrow> auth_state \<times> storage \<Rightarrow> auth_state \<times> storage" where
  "restore_session in_browser sl =
     (let (st, ls) = sl in
      if \<not> in_browser then (st, ls)
      else
        (let storedToken = ls ''auth_token'';
             storedAdmin = ls ''admin_data'';
             st1 = (if js_truthy storedToken then st\<lparr>st_token := JStr (the storedToken)\<rparr> else st);
             (st2, ls2) = (if js_truthy storedAdmin then
                             (case json_parse (the storedAdmin) of
                                Some a \<Rightarrow> (st1\<lparr>st_admin := a\<rparr>, ls)
                              | None \<Rightarrow> (st1, ls(''admin_data'' := None)))
                           else (st1, ls))
         in (st2\<lparr>st_loading := False\<rparr>, ls2)))"

text \<open>The body of the login request.\<close>

definition login_request :: "string \<Rightarrow> string \<Rightarrow> json" where
  "login_request em pw = JObj [(''email'', JStr em), (''password'', JStr pw)]"

text \<open>\<open>error?.error || "Login failed"\<close> on the body of a failed login.\<close>

definition login_error :: "json \<Rightarrow> string" where
  "login_error b =
     (case b of
        JObj kvs \<Rightarrow> (case json_get kvs ''error'' of
                      Some v \<Rightarrow> (if json_truthy v then js_string v else ''Login failed'')
                    | None \<Rightarrow> ''Login failed'')
      | _ \<Rightarrow> ''Login failed'')"

text \<open>
  \<open>login\<close> after the server's answer: a rejected promise (\<open>Inl\<close>, its message) for a
  status outside 200--299 or a \<open>null\<close> body; otherwise the token and admin are
  written to the storage (\<open>String(token)\<close>, \<open>JSON.stringify(admin)\<close>; an absent
  member is \<open>undefined\<close>, stored as the text \<open>undefined\<close>) and to the state.
\<close>

definition login_client :: "response \<Rightarrow> auth_state \<times> storage \<Rightarrow> string + auth_state \<times> storage" where
  "login_client r sl =
     (let (st, ls) = sl in
      if \<not> http_ok (status r) then Inl (login_error (body r))
      else
        (case destructure (body r) of
           None \<Rightarrow> Inl ''TypeError''
         | Some f \<Rightarrow>
             Inr (st\<lparr>st_token := (case f ''token'' of None \<Rightarrow> JNull | Some t \<Rightarrow> t),
                     st_admin := (case f ''admin'' of None \<Rightarrow> JNull | Some a \<Rightarrow> a)\<rparr>,
                  ls(''auth_token'' := Some (case f ''token'' of None \<Rightarrow> ''undefined'' | Some t \<Rightarrow> js_string t),
                     ''admin_data'' := Some (case f ''admin'' of None \<Rightarrow> ''undefined''
                                                          | Some a \<Rightarrow> json_stringify a)))))"

definition logout :: "auth_state \<times> storage \<Rightarrow> auth_state \<times> storage" where
  "logout sl =
     (let (st, ls) = sl in
      (st\<lparr>st_token := JNull, st_admin := JNull\<rparr>, ls(''auth_token'' := None, ''admin_data'' := None)))"

text \<open>\<open>useAuth()\<close>: the context value, or the error it throws outside an \<open>AuthProvider\<close>.\<close>

definition use_auth :: "'a option \<Rightarrow> string + 'a" where
  "use_auth ctx = (case ctx of None \<Rightarrow> Inl ''useAuth must be used within an AuthProvider'' | Some c \<Rightarrow> Inr c)"

subsection \<open>\<^verbatim>\<open>src/hooks/use-api.ts\<close>\<close>

text \<open>
  Object spread \<open>{...a, ...b}\<close>: a key of \<open>b\<close> already in \<open>a\<close> keeps its place and
  takes the new value; a new key is appended.
\<close>

definition obj_set :: "(string \<times> 'a) list \<Rightarrow> string \<Rightarrow> 'a \<Rightarrow> (string \<times> 'a) list" where
  "obj_set kvs k v =
     (if k \<in> set (map fst kvs) then map (\<lambda>p. if fst p = k then (k, v) else p) kvs else kvs @ [(k, v)])"

primrec obj_spread :: "(string \<times> 'a) list \<Rightarrow> (string \<times> 'a) list \<Rightarrow> (string \<times> 'a) list" where
  "obj_spread kvs [] = kvs"
| "obj_spread kvs (p # ps) = obj_spread (obj_set kvs (fst p) (snd p)) ps"

definition api_headers :: "json \<Rightarrow> (string \<times> string) list \<Rightarrow> (string \<times> string) list" where
  "api_headers token opts =
     obj_spread
       (obj_spread [(''Content-Type'', ''application/json'')]
          (if json_truthy token then [(''Authorization'', bearer_prefix @ js_string token)] else []))
       opts"

text \<open>
  \<open>fetch\<close> turns the header object into \<open>Headers\<close>: names are matched without case
  and the values of one name are joined with \<open>", "\<close>; the server reads them with
  \<open>request.headers.get\<close> under the lower-case name.
\<close>

definition headers_get :: "(string \<times> string) list \<Rightarrow> string \<Rightarrow> string option" where
  "headers_get hs name =
     (case [snd p. p \<leftarrow> hs, map ascii_lower (fst p) = name] of
        [] \<Rightarrow> None
      | vs \<Rightarrow> Some (join_with '', '' vs))"

text \<open>The request \<open>apiCall(url, options)\<close> sends, as the route handlers see it.\<close>

definition api_request ::
  "json \<Rightarrow> (string \<times> string) list \<Rightarrow> (string \<times> string) list \<Rightarrow> json option \<Rightarrow> request" where
  "api_request token opts q b =
     \<lparr>req_headers = headers_get (api_headers token opts), req_query = q, req_body = b, req_user = None\<rparr>"

datatype api_error = ApiError string | ApiTypeError

text \<open>
  What \<open>apiCall\<close> resolves to: the body of a 2xx response, or the \<open>Error\<close> it
  throws with \<open>error.error || "API call failed"\<close> (a \<open>TypeError\<close> on a \<open>null\<close>
  body).
\<close>

definition api_result :: "response \<Rightarrow> api_error + json" where
  "api_result r =
     (if http_ok (status r) then Inr (body r)
      else (case destructure (body r) of
              None \<Rightarrow> Inl ApiTypeError
            | Some f \<Rightarrow> Inl (ApiError (if field_truthy (f ''error'') then js_string (the (f ''error''))
                                     else ''API call failed''))))"

subsection \<open>\<^verbatim>\<open>src/app/page.tsx\<close>\<close>

datatype screen = LoadingScreen | DashboardScreen | LoginScreen

definition page_render :: "bool \<Rightarrow> auth_state \<Rightarrow> screen" where
  "page_render mounted st =
     (if \<not> mounted \<or> st_loading st then LoadingScreen
      else if json_truthy (st_admin st) then DashboardScreen else LoginScreen)"

subsection \<open>The browser\<close>

record browser =
  b_auth :: auth_state
  b_store :: storage
  b_mounted :: bool

definition fresh_page :: "storage \<Rightarrow> browser" where
  "fresh_page ls = \<lparr>b_auth = initial_auth, b_store = ls, b_mounted = False\<rparr>"

definition render :: "browser \<Rightarrow> screen" where
  "render b = page_render (b_mounted b) (b_auth b)"

definition with_session :: "browser \<Rightarrow> auth_state \<times> storage \<Rightarrow> browser" where
  "with_session b sl = b\<lparr>b_auth := fst sl, b_store := snd sl\<rparr>"

text \<open>
  One step of the page, for logins answered with a response of \<open>ok\<close>: the page's
  mount effect; the provider's mount effect, once per load; a login from the login
  form, which changes the session when it succeeds; a logout from the dashboard; a
  reload, which keeps only the storage.
\<close>

inductive session_step :: "(response \<Rightarrow> bool) \<Rightarrow> browser \<Rightarrow> browser \<Rightarrow> bool" for ok where
  page_mount: "\<not> b_mounted b \<Longrightarrow> session_step ok b (b\<lparr>b_mounted := True\<rparr>)"
| restore: "st_loading (b_auth b) \<Longrightarrow>
    session_step ok b (with_session b (restore_session True (b_auth b, b_store b)))"
| login: "render b = LoginScreen \<Longrightarrow> ok r \<Longrightarrow> login_client r (b_auth b, b_store b) = Inr sl \<Longrightarrow>
    session_step ok b (with_session b sl)"
| logout: "render b = DashboardScreen \<Longrightarrow> session_step ok b (with_session b (logout (b_auth b, b_store b)))"
| reload: "session_step ok b (fresh_page (b_store b))"

inductive reachable :: "(response \<Rightarrow> bool) \<Rightarrow> storage \<Rightarrow> browser \<Rightarrow> bool" for ok ls0 where
  start: "reachable ok ls0 (fresh_page ls0)"
| step: "reachable ok ls0 b \<Longrightarrow> session_step ok b b' \<Longrightarrow> reachable ok ls0 b'"

text \<open>A page load: the page's mount effect, then the provider's.\<close>

definition loaded_page :: "storage \<Rightarrow> browser" where
  "loaded_page ls = with_session ((fresh_page ls)\<lparr>b_mounted := True\<rparr>) (restore_session True (initial_auth, ls))"

text \<open>A sample: an empty storage, a page load and the login of one admin.\<close>

definition sample_admin :: admin_row where
  "sample_admin = \<lparr>ad_id = 0, ad_email = ''a@x'', ad_password_hash = ''h'', ad_name = ''A'', ad_created_at = 0\<rparr>"

definition sample_login :: browser where
  "sample_login =
     with_session (loaded_page (\<lambda>_. None))
       (projr (login_client (json_response (login_body ''tok'' sample_admin))
                 (b_auth (loaded_page (\<lambda>_. None)), b_store (loaded_page (\<lambda>_. None)))))"

text \<open>
  The answers of the login route the client can rely on: a 2xx answer carries a
  non-empty string token and an admin object.
\<close>

definition login_answer_ok :: "response \<Rightarrow> bool" where
  "login_answer_ok r \<longleftrightarrow>
     (http_ok (status r) \<longrightarrow>
       (\<exists>kvs t a. body r = JObj kvs \<and> json_get kvs ''token'' = Some (JStr t) \<and> t \<noteq> []
                  \<and> json_get kvs ''admin'' = Some (JObj a)))"

text \<open>
  A JWT library for the samples that meets \<open>Auth.jwt_contract\<close>: the token is the
  JSON text of the secret, the issue time and the payload.
\<close>

definition model_jwt :: jwt_lib where
  "model_jwt =
     \<lparr>jwt_sign = \<lambda>s t pl. json_stringify (JArr [JStr s, JNum t, JStr (adminId pl), JStr (pl_email pl)]),
      jwt_verify = \<lambda>s t' tok.
        (case json_parse tok of
           Some (JArr [JStr s', JNum t, JStr a, JStr m]) \<Rightarrow>
             (if s' = s \<and> t \<le> t' \<and> t' < t + 86400 then Some \<lparr>adminId = a, pl_email = m\<rparr> else None)
         | _ \<Rightarrow> None)\<rparr>"

text \<open>Storage as the provider writes it: both keys or neither.\<close>

definition storage_ok :: "storage \<Rightarrow> bool" where
  "storage_ok ls \<longleftrightarrow>
     (ls ''auth_token'' = None \<and> ls ''admin_data'' = None)
     \<or> (\<exists>t a. t \<noteq> [] \<and> ls ''auth_token'' = Some t \<and> ls ''admin_data'' = Some (json_stringify (JObj a)))"

definition session_inv :: "browser \<Rightarrow> bool" where
  "session_inv b \<longleftrightarrow>
     storage_ok (b_store b)
     \<and> (if st_loading (b_auth b) then b_auth b = initial_auth
        else restore_session True (initial_auth, b_store b) = (b_auth b, b_store b))"

section \<open>Lemmas\<close>

lemma restore_empty:
  "ls ''auth_token'' = None \<Longrightarrow> ls ''admin_data'' = None \<Longrightarrow>
   restore_session True (st, ls) = (st\<lparr>st_loading := False\<rparr>, ls)"
  by (simp add: restore_session_def)

lemma json_stringify_not_Nil [simp]: "json_stringify a \<noteq> []"
  using stringify_head[of a] by auto

lemma model_jwt_contract: "jwt_contract model_jwt"
  by (simp add: jwt_contract_def model_jwt_def json_parse_stringify del: json_stringify.simps)

text \<open>C31: for a JWT library that meets its contract, every 2xx answer of the login route
  carries a non-empty string token and an admin object: the login route gives only
  answers of the kind the page's \<open>session_step\<close> assumes (\<open>login_answer_ok\<close>).\<close>

lemma login_post_answer_ok:
  assumes "jwt_contract lib"
  shows "login_answer_ok (login_post lib cmp e now req d)"
proof -
  have "generate_token lib e now pl \<noteq> []" for pl
    using jwt_contract_token[OF assms] by simp
  then show ?thesis
    by (simp add: login_post_def login_answer_ok_def login_body_def json_response_def internal_error_def
                  error_response_def http_ok_def split: option.splits list.splits bool.splits)
qed

theorem login_post_answer_ok_witness:
  "jwt_contract model_jwt
   \<and> login_answer_ok (login_post model_jwt (\<lambda>p h. p = h) (\<lambda>_. None) 0
        \<lparr>req_headers = \<lambda>_. None, req_query = [], req_body = Some (login_request ''a@x'' ''h''), req_user = None\<rparr>
        (fresh_db\<lparr>admins := Some [sample_admin]\<rparr>))"
  using login_post_answer_ok[OF model_jwt_contract, of "\<lambda>p h. p = h" "\<lambda>_. None" 0
          "\<lparr>req_headers = \<lambda>_. None, req_query = [], req_body = Some (login_request ''a@x'' ''h''), req_user = None\<rparr>"
          "fresh_db\<lparr>admins := Some [sample_admin]\<rparr>"] model_jwt_contract
  by blast

lemma restore_full:
  "t \<noteq> [] \<Longrightarrow> ls ''auth_token'' = Some t \<Longrightarrow> ls ''admin_data'' = Some (json_stringify a) \<Longrightarrow>
   restore_session True (st, ls) = (st\<lparr>st_token := JStr t, st_admin := a, st_loading := False\<rparr>, ls)"
  by (simp add: restore_session_def json_parse_stringify)

lemma restore_storage_ok:
  assumes "storage_ok ls"
  shows "\<exists>st'. restore_session True (st, ls) = (st', ls) \<and> \<not> st_loading st'"
  using assms unfolding storage_ok_def
proof
  assume "ls ''auth_token'' = None \<and> ls ''admin_data'' = None"
  then show ?thesis by (simp add: restore_empty)
next
  assume "\<exists>t a. t \<noteq> [] \<and> ls ''auth_token'' = Some t \<and> ls ''admin_data'' = Some (json_stringify (JObj a))"
  then obtain t a where "t \<noteq> []" "ls ''auth_token'' = Some t" "ls ''admin_data'' = Some (json_stringify (JObj a))"
    by blast
  from restore_full[OF this] show ?thesis by simp
qed

lemma login_client_ok:
  assumes "login_answer_ok r" and "login_client r (st, ls) = Inr sl"
  shows "\<exists>t a. t \<noteq> [] \<and> sl = (st\<lparr>st_token := JStr t, st_admin := JObj a\<rparr>,
                               ls(''auth_token'' := Some t, ''admin_data'' := Some (json_stringify (JObj a))))"
proof -
  have ok: "http_ok (status r)" using assms(2) by (auto simp: login_client_def split: if_splits)
  then obtain kvs t a where b: "body r = JObj kvs" "json_get kvs ''token'' = Some (JStr t)" "t \<noteq> []"
    "json_get kvs ''admin'' = Some (JObj a)"
    using assms(1) unfolding login_answer_ok_def by blast
  then have "sl = (st\<lparr>st_token := JStr t, st_admin := JObj a\<rparr>,
                   ls(''auth_token'' := Some t, ''admin_data'' := Some (json_stringify (JObj a))))"
    using assms(2) ok by (simp add: login_client_def del: json_stringify.simps)
  with \<open>t \<noteq> []\<close> show ?thesis by blast
qed

lemma render_not_loading:
  "render b = LoginScreen \<or> render b = DashboardScreen \<Longrightarrow> \<not> st_loading (b_auth b)"
  by (auto simp: render_def page_render_def split: if_splits)

lemma storage_ok_login: "t \<noteq> [] \<Longrightarrow> storage_ok (ls(''auth_token'' := Some t, ''admin_data'' := Some (json_stringify (JObj a))))"
  by (auto simp: storage_ok_def)

lemma storage_ok_logout: "storage_ok (ls(''auth_token'' := None, ''admin_data'' := None))"
  by (simp add: storage_ok_def)

lemma session_step_inv:
  assumes "session_step ok b b'" and "session_inv b" and "\<forall>r. ok r \<longrightarrow> login_answer_ok r"
  shows "session_inv b'"
  using assms(1)
proof cases
  case page_mount
  with assms(2) show ?thesis by (simp add: session_inv_def)
next
  case restore
  with assms(2) have "b_auth b = initial_auth" "storage_ok (b_store b)" by (simp_all add: session_inv_def)
  moreover obtain st' where "restore_session True (initial_auth, b_store b) = (st', b_store b)"
    "\<not> st_loading st'"
    using restore_storage_ok[OF \<open>storage_ok (b_store b)\<close>] by blast
  ultimately show ?thesis
    using restore by (simp add: session_inv_def with_session_def)
next
  case (login r sl)
  then obtain t a where sl: "t \<noteq> []" "sl = ((b_auth b)\<lparr>st_token := JStr t, st_admin := JObj a\<rparr>,
      (b_store b)(''auth_token'' := Some t, ''admin_data'' := Some (json_stringify (JObj a))))"
    using assms(3) login_client_ok by blast
  have "\<not> st_loading (b_auth b)" using login render_not_loading by blast
  with login sl show ?thesis
    by (simp add: session_inv_def with_session_def storage_ok_login restore_full initial_auth_def
             del: json_stringify.simps)
next
  case logout
  have "\<not> st_loading (b_auth b)" using logout render_not_loading by blast
  with logout show ?thesis
    by (simp add: session_inv_def with_session_def logout_def storage_ok_logout restore_empty initial_auth_def)
next
  case reload
  with assms(2) show ?thesis by (simp add: session_inv_def fresh_page_def initial_auth_def)
qed

lemma reachable_inv:
  assumes "reachable ok ls0 b" and "storage_ok ls0" and "\<forall>r. ok r \<longrightarrow> login_answer_ok r"
  shows "session_inv b"
  using assms(1)
proof induction
  case start
  show ?case using assms(2) by (simp add: session_inv_def fresh_page_def initial_auth_def)
next
  case (step b b')
  then show ?case using session_step_inv assms(3) by blast
qed

lemma headers_get_bearer:
  "headers_get [(''Content-Type'', ''application/json''), (''Authorization'', v)] ''authorization'' = Some v"
  by (simp add: headers_get_def ascii_lower_def)

lemma headers_get_plain:
  "headers_get [(''Content-Type'', ''application/json'')] ''authorization'' = None"
  by (simp add: headers_get_def ascii_lower_def)

lemma api_request_token:
  "t \<noteq> [] \<Longrightarrow> get_token_from_request (api_request (JStr t) [] q b) = Some t"
  by (simp add: get_token_bearer api_request_def api_headers_def obj_set_def headers_get_bearer)

lemma api_request_no_token:
  "\<not> json_truthy tok \<Longrightarrow> get_token_from_request (api_request tok [] q b) = None"
  by (simp add: get_token_from_request_def api_request_def api_headers_def headers_get_plain)

lemma reachable_loaded: "reachable ok ls (loaded_page ls)"
proof -
  let ?b = "(fresh_page ls)\<lparr>b_mounted := True\<rparr>"
  have "reachable ok ls ?b"
    using reachable.step[OF reachable.start session_step.page_mount] by (simp add: fresh_page_def)
  moreover have "session_step ok ?b (with_session ?b (restore_session True (b_auth ?b, b_store ?b)))"
    by (rule session_step.restore) (simp add: fresh_page_def initial_auth_def)
  ultimately have "reachable ok ls (with_session ?b (restore_session True (b_auth ?b, b_store ?b)))"
    by (rule reachable.step)
  then show ?thesis by (simp add: loaded_page_def fresh_page_def)
qed

lemma restore_admin_only:
  "ls ''auth_token'' = None \<Longrightarrow> ls ''admin_data'' = Some (json_stringify a) \<Longrightarrow>
   restore_session True (st, ls) = (st\<lparr>st_admin := a, st_loading := False\<rparr>, ls)"
  by (simp add: restore_session_def json_parse_stringify)

subsection \<open>The sample session\<close>

lemma loaded_empty:
  "loaded_page (\<lambda>_. None) = \<lparr>b_auth = initial_auth\<lparr>st_loading := False\<rparr>, b_store = \<lambda>_. None, b_mounted = True\<rparr>"
  by (simp add: loaded_page_def with_session_def fresh_page_def restore_empty)

lemma sample_login_reachable: "reachable login_answer_ok (\<lambda>_. None) sample_login"
proof -
  let ?r = "json_response (login_body ''tok'' sample_admin)"
  let ?b = "loaded_page (\<lambda>_. None)"
  have "session_step login_answer_ok ?b
          (with_session ?b (projr (login_client ?r (b_auth ?b, b_store ?b))))"
    by (rule session_step.login[where r = ?r])
       (simp_all add: loaded_empty render_def page_render_def initial_auth_def login_answer_ok_def
          json_response_def login_body_def http_ok_def login_client_def)
  then show ?thesis unfolding sample_login_def by (rule reachable.step[OF reachable_loaded])
qed

lemma sample_login_auth:
  "b_auth sample_login = \<lparr>st_admin = JObj [(''id'', JStr (uuid_text 0)), (''email'', JStr ''a@x''), (''name'', JStr ''A'')],
                          st_token = JStr ''tok'', st_loading = False\<rparr>"
  by (simp add: sample_login_def loaded_empty with_session_def login_client_def json_response_def
      login_body_def http_ok_def sample_admin_def initial_auth_def)

section \<open>Properties\<close>

text \<open>C27: reloading the page and running the provider's mount effect again restores
  exactly the session in memory and leaves the storage as it is.\<close>

theorem session_reload_roundtrip:
  assumes "reachable login_answer_ok ls0 b" and "storage_ok ls0" and "\<not> st_loading (b_auth b)"
  shows "restore_session True (initial_auth, b_store b) = (b_auth b, b_store b)"
  using reachable_inv[OF assms(1,2)] assms(3) by (simp add: session_inv_def)

text \<open>C28: whenever the page shows the dashboard, the provider holds a non-empty token
  and every \<open>apiCall\<close> sends it in a header that \<open>getTokenFromRequest\<close> reads back.\<close>

theorem dashboard_sends_token:
  assumes "reachable login_answer_ok ls0 b" and "storage_ok ls0" and "render b = DashboardScreen"
  shows "\<exists>t. st_token (b_auth b) = JStr t \<and> t \<noteq> []
             \<and> get_token_from_request (api_request (st_token (b_auth b)) [] q bd) = Some t"
proof -
  have inv: "session_inv b" using reachable_inv[OF assms(1,2)] by simp
  have nl: "\<not> st_loading (b_auth b)" using assms(3) render_not_loading by blast
  with inv have eq: "restore_session True (initial_auth, b_store b) = (b_auth b, b_store b)"
    and ok: "storage_ok (b_store b)" by (simp_all add: session_inv_def)
  show ?thesis
    using ok unfolding storage_ok_def
  proof
    assume "b_store b ''auth_token'' = None \<and> b_store b ''admin_data'' = None"
    with eq have "b_auth b = initial_auth\<lparr>st_loading := False\<rparr>"
      by (simp add: restore_empty)
    then have "st_admin (b_auth b) = JNull" by (simp add: initial_auth_def)
    with assms(3) show ?thesis by (simp add: render_def page_render_def split: if_splits)
  next
    assume "\<exists>t a. t \<noteq> [] \<and> b_store b ''auth_token'' = Some t
                  \<and> b_store b ''admin_data'' = Some (json_stringify (JObj a))"
    then obtain t a where "t \<noteq> []" "b_store b ''auth_token'' = Some t"
      "b_store b ''admin_data'' = Some (json_stringify (JObj a))" by blast
    with eq have "b_auth b = initial_auth\<lparr>st_token := JStr t, st_admin := JObj a, st_loading := False\<rparr>"
      by (simp add: restore_full del: json_stringify.simps)
    then have "st_token (b_auth b) = JStr t" by simp
    with \<open>t \<noteq> []\<close> show ?thesis by (simp add: api_request_token)
  qed
qed

text \<open>C29: a storage that holds an admin but no token (cleared by hand, or written by an
  older version) restores to the dashboard, and every \<open>apiCall\<close> it makes is
  answered 401 by \<open>requireAuth\<close>: the page never falls back to the login form.\<close>

theorem stale_admin_rejected:
  assumes "ls ''auth_token'' = None" and "ls ''admin_data'' = Some (json_stringify (JObj a))"
  shows "\<exists>b. reachable ok ls b \<and> render b = DashboardScreen
             \<and> require_auth lib e now h (api_request (st_token (b_auth b)) [] q bd) c d
                = (error_response 401 ''Authentication required'', d)"
proof -
  let ?b2 = "loaded_page ls"
  have r: "reachable ok ls ?b2" by (rule reachable_loaded)
  have auth: "b_auth ?b2 = initial_auth\<lparr>st_admin := JObj a, st_loading := False\<rparr>"
    using assms by (simp add: loaded_page_def with_session_def fresh_page_def restore_admin_only
                         del: json_stringify.simps)
  then have "render ?b2 = DashboardScreen"
    by (simp add: render_def page_render_def loaded_page_def with_session_def initial_auth_def)
  moreover have "require_auth lib e now h (api_request (st_token (b_auth ?b2)) [] q bd) c d
                 = (error_response 401 ''Authentication required'', d)"
    using auth by (simp add: require_auth_def api_request_no_token initial_auth_def)
  ultimately show ?thesis using r by blast
qed

text \<open>C30: a successful login composes: the token the login route returns is stored by the
  provider, sent by \<open>apiCall\<close> and accepted by \<open>requireAuth\<close>, which runs the
  handler with the admin's payload for the 24 hours after the login, for any JWT library
  that meets its contract: \<open>generateToken\<close> and \<open>verifyToken\<close> use the same secret.\<close>

theorem login_token_accepted:
  assumes "req_body req = Some (login_request em pw)" and "em \<noteq> []" and "pw \<noteq> []"
    and "admins d = Some rs" and "filter (\<lambda>r. em = ad_email r) rs = a # others"
    and "cmp pw (ad_password_hash a)"
    and "pl = \<lparr>adminId = uuid_text (ad_id a), pl_email = ad_email a\<rparr>"
    and "jwt_contract lib" and "now \<le> now'" and "now' < now + 86400"
  shows "\<exists>st' ls'. login_client (login_post lib cmp e now req d) (st, ls) = Inr (st', ls')
           \<and> require_auth lib e now' h (api_request (st_token st') [] q bd) c d'
             = h ((api_request (st_token st') [] q bd)\<lparr>req_user := Some pl\<rparr>) c d'"
proof -
  let ?tok = "generate_token lib e now pl"
  have "login_post lib cmp e now req d = json_response (login_body ?tok a)"
    using login_fields[OF assms(1)[unfolded login_request_def] _ _ assms(2,3,4)] assms(5-7)
    by (simp add: json_get_def)
  then have "\<exists>st' ls'. login_client (login_post lib cmp e now req d) (st, ls) = Inr (st', ls')
                        \<and> st_token st' = JStr ?tok"
    by (simp add: login_client_def json_response_def login_body_def http_ok_def del: json_stringify.simps)
  then obtain st' ls' where lc: "login_client (login_post lib cmp e now req d) (st, ls) = Inr (st', ls')"
    and tok: "st_token st' = JStr ?tok" by blast
  have "require_auth lib e now' h (api_request (st_token st') [] q bd) c d'
        = h ((api_request (st_token st') [] q bd)\<lparr>req_user := Some pl\<rparr>) c d'"
    using tok assms(8-10) by (simp add: require_auth_def api_request_token jwt_contract_def
                                         generate_token_def verify_token_def)
  with lc show ?thesis by blast
qed

theorem session_reload_roundtrip_witness:
  "reachable login_answer_ok (\<lambda>_. None) sample_login \<and> storage_ok (\<lambda>_. None)
   \<and> \<not> st_loading (b_auth sample_login)
   \<and> restore_session True (initial_auth, b_store sample_login) = (b_auth sample_login, b_store sample_login)"
  using session_reload_roundtrip[OF sample_login_reachable] sample_login_reachable
  by (simp add: storage_ok_def sample_login_auth)

theorem dashboard_sends_token_witness:
  "reachable login_answer_ok (\<lambda>_. None) sample_login \<and> storage_ok (\<lambda>_. None)
   \<and> render sample_login = DashboardScreen
   \<and> (\<exists>t. st_token (b_auth sample_login) = JStr t \<and> t \<noteq> []
          \<and> get_token_from_request (api_request (st_token (b_auth sample_login)) [] [] None) = Some t)"
proof -
  have d: "render sample_login = DashboardScreen"
    by (simp add: render_def page_render_def sample_login_auth)
       (simp add: sample_login_def loaded_empty with_session_def)
  show ?thesis
    using dashboard_sends_token[OF sample_login_reachable _ d, of "[]" None] sample_login_reachable d
    by (simp add: storage_ok_def)
qed

theorem stale_admin_rejected_witness:
  "((\<lambda>_. None)(''admin_data'' := Some (json_stringify (JObj [])))) ''auth_token'' = None
   \<and> ((\<lambda>_. None)(''admin_data'' := Some (json_stringify (JObj [])))) ''admin_data'' = Some (json_stringify (JObj []))
   \<and> (\<exists>b. reachable (\<lambda>_. True) ((\<lambda>_. None)(''admin_data'' := Some (json_stringify (JObj [])))) b
          \<and> render b = DashboardScreen
          \<and> require_auth \<lparr>jwt_sign = \<lambda>s t p. ''tok'', jwt_verify = \<lambda>s n t. None\<rparr> (\<lambda>_. None) 0
               (\<lambda>req c d. (json_response JNull, d)) (api_request (st_token (b_auth b)) [] [] None) () fresh_db
             = (error_response 401 ''Authentication required'', fresh_db))"
  using stale_admin_rejected[where ls = "(\<lambda>_. None)(''admin_data'' := Some (json_stringify (JObj [])))"
          and a = "[]" and ok = "\<lambda>_. True" and h = "\<lambda>req c d. (json_response JNull, d)"
          and lib = "\<lparr>jwt_sign = \<lambda>s t p. ''tok'', jwt_verify = \<lambda>s n t. None\<rparr>"
          and e = "\<lambda>_. None" and now = 0 and q = "[]" and bd = None and c = "()" and d = fresh_db]
  by simp

theorem login_token_accepted_witness:
  "req_body (\<lparr>req_headers = \<lambda>_. None, req_query = [], req_body = Some (login_request ''a@x'' ''pw''), req_user = None\<rparr>) = Some (login_request ''a@x'' ''pw'') \<and> ''a@x'' \<noteq> [] \<and> ''pw'' \<noteq> []
   \<and> admins (fresh_db\<lparr>admins := Some [sample_admin]\<rparr>) = Some [sample_admin]
   \<and> filter (\<lambda>r. ''a@x'' = ad_email r) [sample_admin] = sample_admin # []
   \<and> (\<lambda>p h. p = ''pw'' \<and> h = ''h'') ''pw'' (ad_password_hash sample_admin)
   \<and> \<lparr>adminId = uuid_text 0, pl_email = ''a@x''\<rparr> = \<lparr>adminId = uuid_text (ad_id sample_admin), pl_email = ad_email sample_admin\<rparr>
   \<and> jwt_contract model_jwt \<and> (0::int) \<le> 5 \<and> (5::int) < 0 + 86400
   \<and> (\<exists>st' ls'. login_client (login_post model_jwt (\<lambda>p h. p = ''pw'' \<and> h = ''h'') (\<lambda>_. None) 0 (\<lparr>req_headers = \<lambda>_. None, req_query = [], req_body = Some (login_request ''a@x'' ''pw''), req_user = None\<rparr>) (fresh_db\<lparr>admins := Some [sample_admin]\<rparr>)) (initial_auth, \<lambda>_. None) = Inr (st', ls')
         \<and> require_auth model_jwt (\<lambda>_. None) 5 (\<lambda>req c d. (json_response JNull, d)) (api_request (st_token st') [] [] None) () fresh_db
           = (\<lambda>req c d. (json_response JNull, d)) ((api_request (st_token st') [] [] None)\<lparr>req_user := Some (\<lparr>adminId = uuid_text 0, pl_email = ''a@x''\<rparr>)\<rparr>) () fresh_db)"
proof -
  note th = login_token_accepted[where req = "\<lparr>req_headers = \<lambda>_. None, req_query = [], req_body = Some (login_request ''a@x'' ''pw''), req_user = None\<rparr>" and em = "''a@x''" and pw = "''pw''" and d = "fresh_db\<lparr>admins := Some [sample_admin]\<rparr>"
          and rs = "[sample_admin]" and a = sample_admin and others = "[]" and cmp = "\<lambda>p h. p = ''pw'' \<and> h = ''h''"
          and pl = "\<lparr>adminId = uuid_text 0, pl_email = ''a@x''\<rparr>" and lib = model_jwt and e = "\<lambda>_. None" and now = 0 and now' = 5
          and st = initial_auth and ls = "\<lambda>_. None" and h = "\<lambda>req c d. (json_response JNull, d)" and q = "[]" and bd = None
          and c = "()" and d' = fresh_db]
  show ?thesis
    using th model_jwt_contract by (simp add: sample_admin_def del: json_stringify.simps)
qed

end
