(* ===== verification/Components.thy ===== *)
theory Components
  imports Session AppointmentsRoute
begin

text \<open>
  The dashboard's components under \<^verbatim>\<open>src/components\<close>: the appointment form, the
  appointment and client lists and the dashboard's own handlers.  Only their logic is
  modelled, not their markup.

  Instants are JavaScript \<open>Date\<close> values, milliseconds since the epoch, and travel
  as the numeric text of the server model (\<open>AppointmentsRoute.iso_string\<close>).  The
  form's date field (\<open><input type="date">\<close>, \<open>YYYY-MM-DD\<close> or empty) is held as
  the number of its day since the epoch, and its time field (\<open><input type="time">\<close>,
  \<open>HH:MM\<close> or empty) as its minute of the day; \<open>None\<close> is the empty field.
  Formatting and parsing these texts are inverse bijections on valid values and are
  not modelled.  The browser's time zone is a fixed offset \<open>off\<close> in milliseconds
  (local time is UTC plus \<open>off\<close>), a whole number of minutes; daylight saving is not
  modelled.
\<close>

section \<open>Definitions\<close>

definition day_ms :: int where
  "day_ms = 86400000"

definition minute_ms :: int where
  "minute_ms = 60000"

subsection \<open>\<^verbatim>\<open>src/components/appointment-form.tsx\<close>\<close>

record form_data =
  f_client :: string
  f_title :: string
  f_description :: string
  f_date :: "int option"
  f_time :: "int option"
  f_duration :: int

text \<open>The appointment being edited, as the list passes it.\<close>

record edit_appt =
  e_id :: string
  e_title :: string
  e_description :: string
  e_date :: string
  e_duration :: int

definition empty_form :: "string option \<Rightarrow> form_data" where
  "empty_form sel =
     \<lparr>f_client = js_or sel [], f_title = [], f_description = [], f_date = None, f_time = None,
      f_duration = 60\<rparr>"

text \<open>\<open>date.toISOString().split("T")[0]\<close>: the day in UTC.\<close>

definition utc_day :: "int \<Rightarrow> int" where
  "utc_day t = t div day_ms"

text \<open>\<open>date.toTimeString().slice(0, 5)\<close>: the hour and minute in local time.\<close>

definition local_minute :: "int \<Rightarrow> int \<Rightarrow> int" where
  "local_minute off t = ((t + off) mod day_ms) div minute_ms"

text \<open>
  The effect that fills the form for an edit.  \<open>new Date(text)\<close> of a text that is not
  a date is an invalid date, whose \<open>toISOString\<close> throws (\<open>None\<close>).
\<close>

definition prefill :: "string option \<Rightarrow> int \<Rightarrow> edit_appt \<Rightarrow> form_data option" where
  "prefill sel off a =
     (case parse_int (e_date a) of
        None \<Rightarrow> None
      | Some t \<Rightarrow> Some \<lparr>f_client = js_or sel [], f_title = e_title a, f_description = e_description a,
                        f_date = Some (utc_day t), f_time = Some (local_minute off t),
                        f_duration = e_duration a\<rparr>)"

text \<open>\<open>new Date(`${date}T${time}`)\<close>: a date and time without zone are local time.\<close>

definition local_instant :: "int \<Rightarrow> int \<Rightarrow> int \<Rightarrow> int" where
  "local_instant off d m = d * day_ms + m * minute_ms - off"

definition form_instant :: "int \<Rightarrow> form_data \<Rightarrow> int option" where
  "form_instant off f =
     (case (f_date f, f_time f) of
        (Some d, Some m) \<Rightarrow> Some (local_instant off d m)
      | _ \<Rightarrow> None)"

text \<open>
  The payload of \<open>handleSubmit\<close>; an empty date or time gives an invalid date and
  \<open>toISOString\<close> throws \<open>RangeError: Invalid time value\<close>.
\<close>

definition submit_payload :: "int \<Rightarrow> form_data \<Rightarrow> string + json" where
  "submit_payload off f =
     (case form_instant off f of
        None \<Rightarrow> Inl ''Invalid time value''
      | Some t \<Rightarrow> Inr (JObj [(''clientId'', JStr (f_client f)), (''title'', JStr (f_title f)),
                             (''description'', JStr (f_description f)),
                             (''appointmentDate'', JStr (iso_string t)),
                             (''durationMinutes'', JNum (f_duration f))]))"

text \<open>The method and path \<open>handleSubmit\<close> calls: \<open>PUT\<close> for an edit with an id.\<close>

definition submit_target :: "edit_appt option \<Rightarrow> string \<times> string" where
  "submit_target editing =
     (case editing of
        Some a \<Rightarrow> (if e_id a \<noteq> [] then (''PUT'', ''/api/appointments/'' @ e_id a)
                   else (''POST'', ''/api/appointments''))
      | None \<Rightarrow> (''POST'', ''/api/appointments''))"

record form_state =
  fs_form :: form_data
  fs_error :: string
  fs_loading :: bool

text \<open>
  \<open>handleSubmit\<close> after the server's answer: on success the form is reset and
  \<open>onSuccess\<close> is called (\<open>True\<close>); on an error the form is kept and the message
  shown.  \<open>isLoading\<close> is cleared in either case.
\<close>

definition handle_submit ::
  "string option \<Rightarrow> int \<Rightarrow> form_state \<Rightarrow> response \<Rightarrow> form_state \<times> bool" where
  "handle_submit sel off st r =
     (case submit_payload off (fs_form st) of
        Inl msg \<Rightarrow> (st\<lparr>fs_error := msg, fs_loading := False\<rparr>, False)
      | Inr _ \<Rightarrow>
          (case api_result r of
             Inr _ \<Rightarrow> (\<lparr>fs_form = empty_form sel, fs_error = [], fs_loading = False\<rparr>, True)
           | Inl (ApiError msg) \<Rightarrow> (st\<lparr>fs_error := msg, fs_loading := False\<rparr>, False)
           | Inl ApiTypeError \<Rightarrow> (st\<lparr>fs_error := ''TypeError'', fs_loading := False\<rparr>, False)))"

definition handle_cancel :: "string option \<Rightarrow> form_state \<Rightarrow> form_state" where
  "handle_cancel sel st = st\<lparr>fs_form := empty_form sel, fs_error := []\<rparr>"

subsection \<open>\<^verbatim>\<open>src/components/appointment-list.tsx\<close> and \<^verbatim>\<open>client-list.tsx\<close>\<close>

text \<open>The query string of the list requests (\<open>URLSearchParams\<close>).\<close>

definition appointments_query :: "string option \<Rightarrow> (string \<times> string) list" where
  "appointments_query clientId =
     (if js_truthy clientId then [(''clientId'', the clientId)] else []) @ [(''upcoming'', ''true'')]"

definition clients_query :: "string \<Rightarrow> (string \<times> string) list" where
  "clients_query search = (if search \<noteq> [] then [(''search'', search)] else [])"

text \<open>
  \<open>handleDelete\<close>: nothing unless \<open>confirm\<close> returns true; then the row leaves the shown list only when
  the server answered 2xx; otherwise the message is shown.
\<close>

definition handle_delete :: "bool \<Rightarrow> string \<Rightarrow> json list \<Rightarrow> response \<Rightarrow> json list \<times> string option" where
  "handle_delete confirmed i shown r =
     (if \<not> confirmed then (shown, None) else
      case api_result r of
        Inr _ \<Rightarrow> (filter (\<lambda>a. case a of JObj kvs \<Rightarrow> json_get kvs ''id'' \<noteq> Some (JStr i) | _ \<Rightarrow> True) shown,
                  None)
      | Inl (ApiError msg) \<Rightarrow> (shown, Some msg)
      | Inl ApiTypeError \<Rightarrow> (shown, Some ''TypeError''))"

definition status_color :: "string \<Rightarrow> string" where
  "status_color s =
     (let l = map ascii_lower s in
      if l = ''scheduled'' then ''bg-blue-100 text-blue-800''
      else if l = ''completed'' then ''bg-green-100 text-green-800''
      else if l = ''cancelled'' then ''bg-red-100 text-red-800''
      else ''bg-gray-100 text-gray-800'')"

subsection \<open>\<^verbatim>\<open>src/components/dashboard.tsx\<close>\<close>

text \<open>The dashboard's state: \<open>clients\<close>, \<open>selectedClient\<close>, \<open>editingAppointment\<close>,
  \<open>refreshTrigger\<close> and \<open>activeTab\<close>.\<close>

record dash_state =
  d_clients :: "json option"
  d_selected :: "json option"
  d_tab :: string
  d_editing :: "edit_appt option"
  d_refresh :: nat

definition dash_initial :: dash_state where
  "dash_initial = \<lparr>d_clients = Some (JArr []), d_selected = None, d_tab = ''overview'', d_editing = None,
                    d_refresh = 0\<rparr>"

definition appointment_success :: "dash_state \<Rightarrow> dash_state" where
  "appointment_success s =
     s\<lparr>d_refresh := d_refresh s + 1, d_editing := None,
       d_tab := (if d_tab s = ''schedule'' then ''appointments'' else d_tab s)\<rparr>"

definition edit_appointment :: "edit_appt \<Rightarrow> dash_state \<Rightarrow> dash_state" where
  "edit_appointment a s = s\<lparr>d_editing := Some a, d_tab := ''schedule''\<rparr>"

definition cancel_edit :: "dash_state \<Rightarrow> dash_state" where
  "cancel_edit s = s\<lparr>d_editing := None, d_tab := ''appointments''\<rparr>"

section \<open>Lemmas\<close>

lemma minute_day: "day_ms = 1440 * minute_ms"
  by (simp add: day_ms_def minute_ms_def)

lemma local_minute_exact:
  assumes "(t + off) mod minute_ms = 0"
  shows "local_minute off t * minute_ms = (t + off) mod day_ms"
proof -
  have "((t + off) mod day_ms) mod minute_ms = 0"
    using assms by (simp add: minute_day mod_mod_cancel)
  then show ?thesis
    by (simp add: local_minute_def minus_mod_eq_div_mult[symmetric])
qed

section \<open>Properties\<close>

text \<open>C32: editing an appointment and saving the form unchanged moves it by whole days:
  the form shows the UTC date with the local time, so the saved instant differs from
  the stored one by the difference between the UTC and the local day number.  With a
  time zone west of UTC an evening appointment moves one day later.\<close>

theorem edit_resave_shift:
  assumes "prefill sel off a = Some f" and "parse_int (e_date a) = Some t"
    and "t mod minute_ms = 0" and "off mod minute_ms = 0"
  shows "form_instant off f = Some (t + (t div day_ms - (t + off) div day_ms) * day_ms)"
proof -
  have m: "(t + off) mod minute_ms = 0" using assms(3,4) by (simp add: mod_add_eq[symmetric])
  have "f = \<lparr>f_client = js_or sel [], f_title = e_title a, f_description = e_description a,
             f_date = Some (utc_day t), f_time = Some (local_minute off t), f_duration = e_duration a\<rparr>"
    using assms(1,2) by (simp add: prefill_def)
  then have "form_instant off f = Some (t div day_ms * day_ms + (t + off) mod day_ms - off)"
    by (simp add: form_instant_def local_instant_def utc_day_def local_minute_exact[OF m])
  also have "t div day_ms * day_ms + (t + off) mod day_ms - off
             = t + (t div day_ms - (t + off) div day_ms) * day_ms"
    by (simp add: minus_div_mult_eq_mod[symmetric] algebra_simps)
  finally show ?thesis .
qed


theorem edit_resave_shift_witness:
  "prefill None (-18000000) (\<lparr>e_id = ''7'', e_title = ''Yoga'', e_description = [], e_date = show_int 1728007200000, e_duration = 60\<rparr>) = Some (the (prefill None (-18000000) (\<lparr>e_id = ''7'', e_title = ''Yoga'', e_description = [], e_date = show_int 1728007200000, e_duration = 60\<rparr>)))
   \<and> parse_int (e_date (\<lparr>e_id = ''7'', e_title = ''Yoga'', e_description = [], e_date = show_int 1728007200000, e_duration = 60\<rparr>)) = Some 1728007200000
   \<and> (1728007200000::int) mod minute_ms = 0 \<and> (-18000000::int) mod minute_ms = 0
   \<and> form_instant (-18000000) (the (prefill None (-18000000) (\<lparr>e_id = ''7'', e_title = ''Yoga'', e_description = [], e_date = show_int 1728007200000, e_duration = 60\<rparr>)))
       = Some (1728007200000 + (1728007200000 div day_ms - (1728007200000 + -18000000) div day_ms) * day_ms)"
proof -
  have p: "parse_int (e_date (\<lparr>e_id = ''7'', e_title = ''Yoga'', e_description = [], e_date = show_int 1728007200000, e_duration = 60\<rparr>)) = Some 1728007200000"
    by (simp add: parse_int_show_int)
  then have "prefill None (-18000000) (\<lparr>e_id = ''7'', e_title = ''Yoga'', e_description = [], e_date = show_int 1728007200000, e_duration = 60\<rparr>) = Some (the (prefill None (-18000000) (\<lparr>e_id = ''7'', e_title = ''Yoga'', e_description = [], e_date = show_int 1728007200000, e_duration = 60\<rparr>)))"
    by (simp add: prefill_def)
  moreover have "(1728007200000::int) mod minute_ms = 0 \<and> (-18000000::int) mod minute_ms = 0"
    by (simp add: minute_ms_def)
  ultimately show ?thesis
    using edit_resave_shift[OF _ p] p by simp
qed

end
