(* ===== verification/JsonType.thy ===== *)
theory JsonType
  imports Js
begin

text \<open>
  The TypeScript interfaces the components declare for the JSON they receive, as
  structural types over \<open>Js.json\<close>, and the JavaScript reads the components make
  of such values: a member (\<open>v.k\<close>), a length (\<open>v.length\<close>) and strict equality
  (\<open>===\<close>).  A TypeScript interface is not checked at run time: \<open>has_type v t\<close>
  states that the value the server sent really has the declared shape.  An object
  type lists the members the code reads; other members are allowed, as in
  TypeScript.  \<open>undefined\<close> (a missing member) is \<open>None\<close>, as in \<open>Js.destructure\<close>.
\<close>

section \<open>Definitions\<close>

datatype ty = TStr | TNum | TBool | TNull | TUndef | TOr ty ty | TArr ty | TObj "(string \<times> ty) list"

text \<open>The types a missing member (\<open>undefined\<close>) belongs to: those of an optional member \<open>k?: t\<close>.\<close>

fun undef_ok :: "ty \<Rightarrow> bool" where
  "undef_ok TUndef = True"
| "undef_ok (TOr a b) = (undef_ok a \<or> undef_ok b)"
| "undef_ok _ = False"

fun has_type :: "json \<Rightarrow> ty \<Rightarrow> bool"
and member_type :: "json option \<Rightarrow> ty \<Rightarrow> bool"
and all_type :: "json list \<Rightarrow> ty \<Rightarrow> bool"
and fields_type :: "(string \<times> json) list \<Rightarrow> (string \<times> ty) list \<Rightarrow> bool" where
  "has_type v (TOr a b) = (has_type v a \<or> has_type v b)"
| "has_type (JStr _) TStr = True"
| "has_type (JNum _) TNum = True"
| "has_type (JBool _) TBool = True"
| "has_type JNull TNull = True"
| "has_type (JArr xs) (TArr t) = all_type xs t"
| "has_type (JObj kvs) (TObj fs) = fields_type kvs fs"
| "has_type _ _ = False"
| "member_type None t = undef_ok t"
| "member_type (Some v) t = has_type v t"
| "all_type [] t = True"
| "all_type (x # xs) t = (has_type x t \<and> all_type xs t)"
| "fields_type kvs [] = True"
| "fields_type kvs (ft # fs) = (member_type (json_get kvs (fst ft)) (snd ft) \<and> fields_type kvs fs)"

text \<open>\<open>v.k\<close> on a possibly \<open>undefined\<close> value: reading a member of \<open>null\<close> or
  \<open>undefined\<close> throws a \<open>TypeError\<close> (\<open>Inl\<close>); the members of an object are its
  own; the JSON strings, numbers, booleans and arrays have none of the names the
  components read (\<open>length\<close> is read with \<open>js_length\<close>).\<close>

definition obj_member :: "json \<Rightarrow> string \<Rightarrow> json option" where
  "obj_member v k = (case v of JObj kvs \<Rightarrow> json_get kvs k | _ \<Rightarrow> None)"

definition js_get :: "json option \<Rightarrow> string \<Rightarrow> string + json option" where
  "js_get v k =
     (case v of
        None \<Rightarrow> Inl ''TypeError''
      | Some JNull \<Rightarrow> Inl ''TypeError''
      | Some x \<Rightarrow> Inr (obj_member x k))"

text \<open>\<open>v.length\<close>: the number of elements of an array or characters of a string.\<close>

definition js_length :: "json option \<Rightarrow> string + json option" where
  "js_length v =
     (case v of
        Some (JArr xs) \<Rightarrow> Inr (Some (JNum (int (length xs))))
      | Some (JStr s) \<Rightarrow> Inr (Some (JNum (int (length s))))
      | _ \<Rightarrow> js_get v ''length'')"

text \<open>\<open>a === b\<close> on the values the components compare: \<open>undefined\<close>, \<open>null\<close>,
  booleans, numbers and strings by value; two objects or arrays from different
  responses are never the same object.\<close>

definition js_strict_eq :: "json option \<Rightarrow> json option \<Rightarrow> bool" where
  "js_strict_eq a b =
     (case (a, b) of
        (None, None) \<Rightarrow> True
      | (Some (JArr _), _) \<Rightarrow> False
      | (Some (JObj _), _) \<Rightarrow> False
      | (Some x, Some y) \<Rightarrow> x = y
      | _ \<Rightarrow> False)"

text \<open>\<open>xs.map(f)\<close> with a callback that may throw: the first exception propagates.\<close>

fun js_map :: "('a \<Rightarrow> string + 'b) \<Rightarrow> 'a list \<Rightarrow> string + 'b list" where
  "js_map f [] = Inr []"
| "js_map f (x # xs) =
     (case f x of
        Inl e \<Rightarrow> Inl e
      | Inr y \<Rightarrow> (case js_map f xs of Inl e \<Rightarrow> Inl e | Inr ys \<Rightarrow> Inr (y # ys)))"

section \<open>Lemmas\<close>

lemma all_type_list_all [simp]: "all_type xs t = list_all (\<lambda>x. has_type x t) xs"
  by (induction xs) auto

lemma fields_type_list_all [simp]:
  "fields_type kvs fs = list_all (\<lambda>ft. member_type (json_get kvs (fst ft)) (snd ft)) fs"
  by (induction fs) auto

lemma has_type_TStr [simp]: "has_type v TStr \<longleftrightarrow> (\<exists>s. v = JStr s)"
  by (cases v) auto

lemma has_type_TNum [simp]: "has_type v TNum \<longleftrightarrow> (\<exists>n. v = JNum n)"
  by (cases v) auto

lemma has_type_TNull [simp]: "has_type v TNull \<longleftrightarrow> v = JNull"
  by (cases v) auto

lemma has_type_TUndef [simp]: "\<not> has_type v TUndef"
  by (cases v) auto

lemma has_type_TArr: "has_type v (TArr t) \<longleftrightarrow> (\<exists>xs. v = JArr xs \<and> list_all (\<lambda>x. has_type x t) xs)"
  by (cases v) auto

lemma has_type_TObj: "has_type v (TObj fs) \<longleftrightarrow> (\<exists>kvs. v = JObj kvs \<and> fields_type kvs fs)"
  by (cases v) auto

lemma member_type_TStr [simp]: "member_type m TStr \<longleftrightarrow> (\<exists>s. m = Some (JStr s))"
  by (cases m) auto

lemma member_type_TNum [simp]: "member_type m TNum \<longleftrightarrow> (\<exists>n. m = Some (JNum n))"
  by (cases m) auto

lemma member_type_nullable:
  "member_type m (TOr t TNull) \<longleftrightarrow> m = Some JNull \<or> member_type m t \<and> m \<noteq> None \<or> m = None \<and> undef_ok t"
  by (cases m) auto

text \<open>A member the type declares is read without a \<open>TypeError\<close> and has its type.\<close>

lemma js_get_typed:
  assumes "has_type v (TObj fs)" and "(k, t) \<in> set fs"
  shows "\<exists>m. js_get (Some v) k = Inr m \<and> member_type m t"
proof -
  obtain kvs where "v = JObj kvs" "list_all (\<lambda>ft. member_type (json_get kvs (fst ft)) (snd ft)) fs"
    using assms(1) by (auto simp: has_type_TObj)
  with assms(2) show ?thesis
    by (auto simp: js_get_def obj_member_def list_all_iff)
qed

lemma js_get_JObj [simp]: "js_get (Some (JObj kvs)) k = Inr (json_get kvs k)"
  by (simp add: js_get_def obj_member_def)

lemma js_map_Inr:
  "list_all (\<lambda>x. f x = Inr (g x)) xs \<Longrightarrow> js_map f xs = Inr (map g xs)"
  by (induction xs) auto

lemma js_map_ex:
  "list_all (\<lambda>x. \<exists>y. f x = Inr y) xs \<Longrightarrow> \<exists>ys. js_map f xs = Inr ys"
  by (induction xs) auto

lemma js_length_JArr [simp]: "js_length (Some (JArr xs)) = Inr (Some (JNum (int (length xs))))"
  by (simp add: js_length_def)

lemma js_strict_eq_str [simp]: "js_strict_eq (Some (JStr a)) (Some (JStr b)) \<longleftrightarrow> a = b"
  by (simp add: js_strict_eq_def)

lemma js_strict_eq_None_str [simp]: "\<not> js_strict_eq None (Some (JStr b))"
  by (simp add: js_strict_eq_def)

end
