(* ===== verification/Views.thy ===== *)
theory Views
  imports Components JsonType
begin

text \<open>
  The two list components, \<^verbatim>\<open>src/components/client-list.tsx\<close> and
  \<^verbatim>\<open>src/components/appointment-list.tsx\<close>.  Both keep the items of an answer in
  React state and fetch again in an effect whose dependencies are a key: the search
  text of the client list, the \<open>clientId\<close> and \<open>refreshTrigger\<close> props of the
  appointment list.  A fetch sets \<open>isLoading\<close>, awaits \<open>apiCall\<close> and then stores
  \<open>data.clients\<close> (or \<open>data.appointments\<close>) and clears the error, or shows the
  error's message; \<open>finally\<close> clears \<open>isLoading\<close>.  Nothing cancels or orders
  the requests in flight, so the model keeps them as a list (\<open>ls_pending\<close>, the key
  of each request in the order it was sent) and an answer may arrive for any of
  them (\<open>Resolve i\<close>).  The server is a function from the key to the answer
  \<open>apiCall\<close> resolves to: the store does not change while the requests are in flight.
  The rendering is modelled as the values each card shows and the texts chosen by
  the code's conditions; the markup and the locale formatting of dates are not.
\<close>

section \<open>Definitions\<close>

subsection \<open>The fetch-on-change list\<close>

text \<open>\<open>err instanceof Error ? err.message : ...\<close>: every exception here is an \<open>Error\<close>.\<close>

definition api_message :: "api_error \<Rightarrow> string" where
  "api_message e = (case e of ApiError m \<Rightarrow> m | ApiTypeError \<Rightarrow> ''TypeError'')"

text \<open>\<open>const data = await apiCall(url); data.k\<close>\<close>

definition read_member :: "api_error + json \<Rightarrow> string \<Rightarrow> string + json option" where
  "read_member r k = (case r of Inl e \<Rightarrow> Inl (api_message e) | Inr data \<Rightarrow> js_get (Some data) k)"

record 'k list_state =
  ls_items :: "json option"
  ls_key :: 'k
  ls_loading :: bool
  ls_error :: string
  ls_pending :: "'k list"

text \<open>The start of a fetch for the current key: \<open>setIsLoading(true)\<close> and the request sent.\<close>

definition list_fetch :: "'k list_state \<Rightarrow> 'k list_state" where
  "list_fetch st = st\<lparr>ls_loading := True, ls_pending := ls_pending st @ [ls_key st]\<rparr>"

text \<open>The rest of the fetch, once its request is answered with \<open>r\<close>.\<close>

definition list_answer :: "string \<Rightarrow> api_error + json \<Rightarrow> 'k list_state \<Rightarrow> 'k list_state" where
  "list_answer m r st =
     (case read_member r m of
        Inr v \<Rightarrow> st\<lparr>ls_items := v, ls_error := []\<rparr>
      | Inl msg \<Rightarrow> st\<lparr>ls_error := msg\<rparr>)\<lparr>ls_loading := False\<rparr>"

datatype 'k list_event = SetKey 'k | Refetch | Resolve nat

definition remove_nth :: "nat \<Rightarrow> 'a list \<Rightarrow> 'a list" where
  "remove_nth i xs = take i xs @ drop (Suc i) xs"

text \<open>
  One event: the key changes (React runs the effect only when a dependency changed),
  a fetch is started by hand (the search form's submit), or the \<open>i\<close>-th request in
  flight is answered.
\<close>

fun list_step :: "string \<Rightarrow> ('k \<Rightarrow> api_error + json) \<Rightarrow> 'k list_state \<Rightarrow> 'k list_event \<Rightarrow> 'k list_state" where
  "list_step m srv st (SetKey k) = (if k = ls_key st then st else list_fetch (st\<lparr>ls_key := k\<rparr>))"
| "list_step m srv st Refetch = list_fetch st"
| "list_step m srv st (Resolve i) =
     (if i < length (ls_pending st)
      then list_answer m (srv (ls_pending st ! i)) (st\<lparr>ls_pending := remove_nth i (ls_pending st)\<rparr>)
      else st)"

definition list_run :: "string \<Rightarrow> ('k \<Rightarrow> api_error + json) \<Rightarrow> 'k list_state \<Rightarrow> 'k list_event list \<Rightarrow> 'k list_state" where
  "list_run m srv st evs = foldl (list_step m srv) st evs"

text \<open>The state shows the answer \<open>r\<close>: its items, or its error message.\<close>

definition shows_answer :: "string \<Rightarrow> api_error + json \<Rightarrow> 'k list_state \<Rightarrow> bool" where
  "shows_answer m r st \<longleftrightarrow>
     \<not> ls_loading st \<and>
     (case read_member r m of Inr v \<Rightarrow> ls_items st = v \<and> ls_error st = [] | Inl e \<Rightarrow> ls_error st = e)"

text \<open>Requests answered in the order they were sent.\<close>

fun in_order :: "'k list_event \<Rightarrow> bool" where
  "in_order (Resolve i) = (i = 0)"
| "in_order _ = True"

subsection \<open>\<^verbatim>\<open>src/components/client-list.tsx\<close>\<close>

text \<open>The state after mounting: \<open>[]\<close>, no search, and the mount effect's fetch in flight.\<close>

definition client_list_initial :: "string list_state" where
  "client_list_initial =
     list_fetch \<lparr>ls_items = Some (JArr []), ls_key = [], ls_loading = True, ls_error = [], ls_pending = []\<rparr>"

text \<open>What \<open>apiCall(`/api/clients?${params}`)\<close> resolves to, for a server and a token.\<close>

definition client_list_srv :: "(request \<Rightarrow> response) \<Rightarrow> json \<Rightarrow> string \<Rightarrow> api_error + json" where
  "client_list_srv server tok s = api_result (server (api_request tok [] (clients_query s) None))"

text \<open>The \<open>Client\<close> interface of the component.\<close>

definition client_list_client :: ty where
  "client_list_client =
     TObj [(''id'', TStr), (''name'', TStr), (''email'', TStr), (''phone'', TStr), (''created_at'', TStr)]"

datatype client_entry =
  ClientCard (cc_name: "json option") (cc_email: "json option") (cc_phone: "json option")
    (cc_selected: bool) (cc_created: "json option")

text \<open>
  One card: the name, the email, the phone when it is truthy, the highlight when
  \<open>selectedClientId === client.id\<close>, and \<open>created_at\<close>.  Reading a member of a
  \<open>null\<close> element throws.
\<close>

definition client_card :: "string option \<Rightarrow> json \<Rightarrow> string + client_entry" where
  "client_card sel c =
     (if c = JNull then Inl ''TypeError''
      else Inr (ClientCard (obj_member c ''name'') (obj_member c ''email'')
                  (if field_truthy (obj_member c ''phone'') then obj_member c ''phone'' else None)
                  (js_strict_eq (map_option JStr sel) (obj_member c ''id'')) (obj_member c ''created_at'')))"

datatype 'a list_body = EmptyText string | Cards "'a list"

datatype 'a list_view = ListLoading | ListShown string "json option" string "'a list_body"

text \<open>
  The render: the loading card; or the title with \<open>clients.length\<close>, the error
  banner (empty: none), and either the empty text (when the length is \<open>0\<close>) or one
  card per element (\<open>clients.map\<close>, which only arrays have).
\<close>

definition client_list_view :: "string option \<Rightarrow> string list_state \<Rightarrow> string + client_entry list_view" where
  "client_list_view sel st =
     (if ls_loading st then Inr ListLoading
      else
        (case js_length (ls_items st) of
           Inl e \<Rightarrow> Inl e
         | Inr n \<Rightarrow>
             (if js_strict_eq n (Some (JNum 0))
              then Inr (ListShown ''Clients'' n (ls_error st)
                          (EmptyText (if ls_key st \<noteq> [] then ''No clients found matching your search.''
                                      else ''No clients found.'')))
              else
                (case ls_items st of
                   Some (JArr xs) \<Rightarrow>
                     (case js_map (client_card sel) xs of
                        Inl e \<Rightarrow> Inl e
                      | Inr cs \<Rightarrow> Inr (ListShown ''Clients'' n (ls_error st) (Cards cs)))
                 | _ \<Rightarrow> Inl ''TypeError''))))"

subsection \<open>\<^verbatim>\<open>src/components/appointment-list.tsx\<close>\<close>

text \<open>The key is the pair of props the effect depends on: \<open>clientId\<close> and \<open>refreshTrigger\<close>.\<close>

type_synonym appt_key = "string option \<times> nat"

definition appointment_list_initial :: "appt_key \<Rightarrow> appt_key list_state" where
  "appointment_list_initial k =
     list_fetch \<lparr>ls_items = Some (JArr []), ls_key = k, ls_loading = True, ls_error = [], ls_pending = []\<rparr>"

definition appointment_list_srv :: "(request \<Rightarrow> response) \<Rightarrow> json \<Rightarrow> appt_key \<Rightarrow> api_error + json" where
  "appointment_list_srv server tok k =
     api_result (server (api_request tok [] (appointments_query (fst k)) None))"

text \<open>The \<open>Appointment\<close> interface of the component.\<close>

definition list_appointment :: ty where
  "list_appointment =
     TObj [(''id'', TStr), (''title'', TStr), (''description'', TStr), (''appointment_date'', TStr),
           (''duration_minutes'', TNum), (''status'', TStr), (''client_name'', TStr),
           (''client_email'', TStr)]"

text \<open>\<open>getStatusColor(status)\<close> calls \<open>status.toLowerCase()\<close>, which only strings have.\<close>

definition status_badge :: "json option \<Rightarrow> string + string" where
  "status_badge s = (case s of Some (JStr t) \<Rightarrow> Inr (status_color t) | _ \<Rightarrow> Inl ''TypeError'')"

datatype appt_entry =
  ApptCard (ac_title: "json option") (ac_status: "json option") (ac_color: string)
    (ac_client: "(json option \<times> json option) option") (ac_date: "json option")
    (ac_duration: "json option") (ac_description: "json option") (ac_edit: bool)

text \<open>
  One card: the title and the status badge with its colour; the client's name and
  email when the list is not for one client; the date and the duration; the
  description when it is truthy; the edit button when \<open>onEdit\<close> is given.
\<close>

definition appt_card :: "string option \<Rightarrow> bool \<Rightarrow> json \<Rightarrow> string + appt_entry" where
  "appt_card clientId onEdit a =
     (if a = JNull then Inl ''TypeError''
      else
        (case status_badge (obj_member a ''status'') of
           Inl e \<Rightarrow> Inl e
         | Inr col \<Rightarrow>
             Inr (ApptCard (obj_member a ''title'') (obj_member a ''status'') col
                    (if js_truthy clientId then None
                     else Some (obj_member a ''client_name'', obj_member a ''client_email''))
                    (obj_member a ''appointment_date'') (obj_member a ''duration_minutes'')
                    (if field_truthy (obj_member a ''description'') then obj_member a ''description'' else None)
                    onEdit)))"

definition appointment_list_view :: "bool \<Rightarrow> appt_key list_state \<Rightarrow> string + appt_entry list_view" where
  "appointment_list_view onEdit st =
     (let clientId = fst (ls_key st) in
      if ls_loading st then Inr ListLoading
      else
        (case js_length (ls_items st) of
           Inl e \<Rightarrow> Inl e
         | Inr n \<Rightarrow>
             (let title = (if js_truthy clientId then ''Client Appointments'' else ''Upcoming Appointments'') in
              if js_strict_eq n (Some (JNum 0))
              then Inr (ListShown title n (ls_error st)
                          (EmptyText (if js_truthy clientId then ''No appointments found for this client.''
                                      else ''No upcoming appointments.'')))
              else
                (case ls_items st of
                   Some (JArr xs) \<Rightarrow>
                     (case js_map (appt_card clientId onEdit) xs of
                        Inl e \<Rightarrow> Inl e
                      | Inr cs \<Rightarrow> Inr (ListShown title n (ls_error st) (Cards cs)))
                 | _ \<Rightarrow> Inl ''TypeError''))))"

subsection \<open>Specifications\<close>

text \<open>
  The invariant of the fetch machine: while requests are in flight the last one sent
  is for the current key; with none in flight the state shows the answer for the
  current key.
\<close>

definition list_inv :: "string \<Rightarrow> ('k \<Rightarrow> api_error + json) \<Rightarrow> 'k list_state \<Rightarrow> bool" where
  "list_inv m srv st \<longleftrightarrow>
     (if ls_pending st = [] then shows_answer m (srv (ls_key st)) st else last (ls_pending st) = ls_key st)"

text \<open>
  The shapes the routes really send: the \<open>Client\<close> of the list with a nullable
  \<open>phone\<close>; a page of them; an error body; an appointment row of \<open>GET
  /api/appointments\<close> with a nullable \<open>description\<close> and \<open>duration_minutes\<close>.
\<close>

definition client_answer :: ty where
  "client_answer =
     TObj [(''id'', TStr), (''name'', TStr), (''email'', TStr), (''phone'', TOr TStr TNull),
           (''created_at'', TStr)]"

definition clients_page :: ty where
  "clients_page =
     TObj [(''clients'', TArr client_answer), (''total'', TNum), (''page'', TOr TNum TNull),
           (''limit'', TOr TNum TNull), (''totalPages'', TOr TNum TNull)]"

definition error_body :: ty where
  "error_body = TObj [(''error'', TStr)]"

definition appointment_answer :: ty where
  "appointment_answer =
     TObj [(''id'', TStr), (''title'', TStr), (''description'', TOr TStr TNull),
           (''appointment_date'', TStr), (''duration_minutes'', TOr TNum TNull), (''status'', TStr),
           (''client_name'', TStr), (''client_email'', TStr)]"

text \<open>Every stored appointment has a status (the column is nullable).\<close>

definition appointment_statuses :: "db \<Rightarrow> bool" where
  "appointment_statuses d =
     (case appointments d of None \<Rightarrow> True | Some as \<Rightarrow> list_all (\<lambda>a. ap_status a \<noteq> None) as)"

subsection \<open>A sample\<close>

text \<open>Two clients, and a server whose JWT library accepts the token \<open>tok\<close>.\<close>

definition sample_lib :: jwt_lib where
  "sample_lib = \<lparr>jwt_sign = \<lambda>s t p. ''tok'',
                 jwt_verify = \<lambda>s n t. if t = ''tok'' then Some \<lparr>adminId = ''0'', pl_email = ''a@x''\<rparr> else None\<rparr>"

definition two_clients_db :: db where
  "two_clients_db =
     fresh_db\<lparr>clients := Some [sample_client\<lparr>cl_name := ''Bob''\<rparr>,
                               sample_client\<lparr>cl_id := 1, cl_name := ''Abby'', cl_email := ''c@x''\<rparr>],
              next_uuid := 2\<rparr>"

definition sample_server :: "db \<Rightarrow> request \<Rightarrow> response" where
  "sample_server d req = fst (clients_GET sample_lib (\<lambda>_. None) 0 id req () d)"

section \<open>Lemmas\<close>

subsection \<open>The fetch machine\<close>

lemma list_answer_fields [simp]:
  "ls_key (list_answer m r st) = ls_key st" "ls_pending (list_answer m r st) = ls_pending st"
  "\<not> ls_loading (list_answer m r st)"
  by (simp_all add: list_answer_def split: sum.splits)

lemma list_fetch_fields [simp]:
  "ls_key (list_fetch st) = ls_key st" "ls_pending (list_fetch st) = ls_pending st @ [ls_key st]"
  "ls_loading (list_fetch st)" "ls_items (list_fetch st) = ls_items st" "ls_error (list_fetch st) = ls_error st"
  by (simp_all add: list_fetch_def)

lemma shows_answer_list_answer: "shows_answer m r (list_answer m r st)"
  by (simp add: shows_answer_def list_answer_def split: sum.splits)

lemma list_step_inv:
  assumes "list_inv m srv st" and "in_order e"
  shows "list_inv m srv (list_step m srv st e)"
proof (cases e)
  case (Resolve i)
  with assms(2) have i: "i = 0" by simp
  show ?thesis
  proof (cases "ls_pending st")
    case Nil
    with assms(1) Resolve show ?thesis by simp
  next
    case (Cons p ps)
    then have "list_step m srv st e = list_answer m (srv p) (st\<lparr>ls_pending := ps\<rparr>)"
      using Resolve i by (simp add: remove_nth_def)
    moreover have "ps = [] \<Longrightarrow> p = ls_key st" and "ps \<noteq> [] \<Longrightarrow> last ps = ls_key st"
      using assms(1) Cons by (simp_all add: list_inv_def)
    ultimately show ?thesis
      by (cases "ps = []") (simp_all add: list_inv_def shows_answer_list_answer)
  qed
qed (use assms(1) in \<open>simp_all add: list_inv_def\<close>)

lemma list_run_inv:
  "list_inv m srv st \<Longrightarrow> list_all in_order evs \<Longrightarrow> list_inv m srv (list_run m srv st evs)"
  by (induction evs arbitrary: st) (simp_all add: list_run_def list_step_inv)

lemma client_list_initial_inv: "list_inv m srv client_list_initial"
  by (simp add: list_inv_def client_list_initial_def list_fetch_def)

lemma appointment_list_initial_inv: "list_inv m srv (appointment_list_initial k)"
  by (simp add: list_inv_def appointment_list_initial_def list_fetch_def)

subsection \<open>The shapes of the answers\<close>

lemma client_json_typed [simp]: "has_type (client_json r) client_answer"
  by (simp add: client_json_def client_answer_def opt_json_def ts_json_def split: option.splits)

lemma error_response_status [simp]: "status (error_response n msg) = n"
  by (simp add: error_response_def)

lemma error_response_typed [simp]: "has_type (body (error_response n msg)) error_body"
  by (simp add: error_response_def error_body_def)

lemma num_json_typed [simp]: "has_type (num_json p) (TOr TNum TNull)"
  by (simp add: num_json_def split: option.splits)

lemma js_ceil_div_typed [simp]: "has_type (js_ceil_div n l) (TOr TNum TNull)"
  by (simp add: js_ceil_div_def)

lemma get_clients_typed:
  "has_type (body (fst (get_clients ord req c d)))
     (if http_ok (status (fst (get_clients ord req c d))) then clients_page else error_body)"
  by (simp add: get_clients_def Let_def clients_page_def json_response_def list_all_iff
           num_json_def js_ceil_div_def http_ok_def split: option.splits sum.splits prod.splits)

lemma require_auth_typed:
  assumes "\<And>req'. has_type (body (fst (h req' c d)))
                     (if http_ok (status (fst (h req' c d))) then t else error_body)"
  shows "has_type (body (fst (require_auth lib e now h req c d)))
           (if http_ok (status (fst (require_auth lib e now h req c d))) then t else error_body)"
proof -
  have "has_type (body (fst (h req' c d))) t" if "http_ok (status (fst (h req' c d)))" for req'
    using assms[of req'] that by simp
  moreover have "has_type (body (fst (h req' c d))) error_body" if "\<not> http_ok (status (fst (h req' c d)))" for req'
    using assms[of req'] that by simp
  ultimately show ?thesis by (simp add: require_auth_def http_ok_def split: option.splits)
qed

lemma client_json_interface: "has_type (client_json r) client_list_client \<longleftrightarrow> cl_phone r \<noteq> None"
  by (simp add: client_json_def client_list_client_def opt_json_def ts_json_def split: option.splits)

lemma joined_json_typed:
  "ap_status a \<noteq> None \<Longrightarrow> has_type (joined_json (a, c)) appointment_answer"
  by (auto simp: joined_json_def appointment_fields_def appointment_answer_def opt_json_def
      uuid_opt_json_def int_opt_json_def ts_json_def split: option.splits)

lemma appointments_page_rows:
  assumes "appointments_page ord cs n ps rows = Inr page" and "\<forall>xs. set (ord xs) \<subseteq> set xs"
  shows "set page \<subseteq> set rows"
proof -
  have "set (take l (drop off (ord (filter P rows)))) \<subseteq> set rows" for l off P
    using assms(2) set_take_subset set_drop_subset by fastforce
  with assms(1) show ?thesis
    by (auto simp: appointments_page_def split: sum.splits prod.splits)
qed

lemma join_clients_status:
  "list_all (\<lambda>a. ap_status a \<noteq> None) as \<Longrightarrow> ac \<in> set (join_clients as cls) \<Longrightarrow> ap_status (fst ac) \<noteq> None"
  by (auto simp: join_clients_def list_all_iff)

lemma get_appointments_typed:
  assumes "appointment_statuses d" and "\<forall>xs. set (ord xs) \<subseteq> set xs"
  shows "has_type (body (fst (get_appointments ord now req c d)))
           (if http_ok (status (fst (get_appointments ord now req c d)))
            then TObj [(''appointments'', TArr appointment_answer)] else error_body)"
proof -
  have rows: "list_all (\<lambda>ac. has_type (joined_json ac) appointment_answer) page"
    if "appointments d = Some as" "appointments_page ord cs n ps (join_clients as cls) = Inr page"
    for as cls cs n ps page
  proof -
    have "list_all (\<lambda>a. ap_status a \<noteq> None) as" using assms(1) that(1) by (simp add: appointment_statuses_def)
    then show ?thesis
      using appointments_page_rows[OF that(2) assms(2)] join_clients_status joined_json_typed
      by (fastforce simp: list_all_iff)
  qed
  show ?thesis
    by (auto simp: get_appointments_def Let_def json_response_def list_all_iff http_ok_def
             dest!: rows split: option.splits sum.splits prod.splits)
qed


subsection \<open>Typed answers render\<close>

lemma api_result_typed:
  assumes "has_type (body r) (if http_ok (status r) then t else error_body)"
  shows "(http_ok (status r) \<and> api_result r = Inr (body r) \<and> has_type (body r) t)
         \<or> (\<exists>msg. api_result r = Inl (ApiError msg))"
proof (cases "http_ok (status r)")
  case False
  then obtain kvs where "body r = JObj kvs" "list_all (\<lambda>ft. member_type (json_get kvs (fst ft)) (snd ft)) [(''error'', TStr)]"
    using assms by (auto simp: error_body_def has_type_TObj)
  with False show ?thesis by (auto simp: api_result_def)
qed (use assms in \<open>simp add: api_result_def\<close>)

lemma list_answer_typed:
  assumes "has_type (body r) (if http_ok (status r) then TObj [(m, TArr t)] else error_body)"
    and "member_type (ls_items st) (TArr t)"
  shows "member_type (ls_items (list_answer m (api_result r) st)) (TArr t)"
  using api_result_typed[OF assms(1)] assms(2)
  by (auto simp: list_answer_def read_member_def has_type_TObj js_get_def obj_member_def split: sum.splits)

lemma appt_card_typed:
  "has_type a appointment_answer \<Longrightarrow> \<exists>y. appt_card clientId onEdit a = Inr y"
  by (auto simp: appointment_answer_def has_type_TObj appt_card_def status_badge_def obj_member_def)

lemma appointment_view_typed:
  assumes "\<not> ls_loading st" and "member_type (ls_items st) (TArr appointment_answer)"
  shows "\<exists>v. appointment_list_view onEdit st = Inr v"
proof -
  obtain xs where xs: "ls_items st = Some (JArr xs)" "list_all (\<lambda>x. has_type x appointment_answer) xs"
    using assms(2) by (cases "ls_items st") (auto simp: has_type_TArr)
  then obtain cs where "js_map (appt_card (fst (ls_key st)) onEdit) xs = Inr cs"
    using js_map_ex[of "appt_card (fst (ls_key st)) onEdit" xs] appt_card_typed
    by (auto simp: list_all_iff)
  with xs assms(1) show ?thesis by (simp add: appointment_list_view_def Let_def)
qed


subsection \<open>The sample\<close>

lemma parse_int_ten: "parse_int ''10'' = Some 10"
  by (simp add: parse_int_def digit_value_def digits_value_def js_space_def)

text \<open>The answer \<open>apiCall\<close> gets from \<open>GET /api/clients\<close> for a request with
  a verified token and without \<open>page\<close> or \<open>limit\<close>: the first 10 matching clients.\<close>

lemma clients_GET_first_page:
  assumes "clients d = Some rs" and "t \<noteq> []" and "verify_token lib e now t = Some pl"
    and "search_get q ''page'' = None" and "search_get q ''limit'' = None"
  shows "api_result (fst (clients_GET lib e now ord (api_request (JStr t) [] q None) () d)) =
           Inr (JObj [(''clients'', JArr (map client_json (take 10 (ord (search_filter (js_or (search_get q ''search'') []) rs))))),
                      (''total'', JNum (int (length (search_filter (js_or (search_get q ''search'') []) rs)))), (''page'', JNum 1),
                      (''limit'', JNum 10), (''totalPages'', js_ceil_div (int (length (search_filter (js_or (search_get q ''search'') []) rs))) 10)])"
proof -
  let ?s = "js_or (search_get q ''search'') []"
  have "get_clients ord ((api_request (JStr t) [] q None)\<lparr>req_user := Some pl\<rparr>) () d
        = (json_response (JObj
             [(''clients'', JArr (map client_json (take (nat 10) (drop (nat ((1 - 1) * 10)) (ord (search_filter ?s rs)))))),
              (''total'', JNum (int (length (search_filter ?s rs)))), (''page'', JNum 1), (''limit'', JNum 10),
              (''totalPages'', js_ceil_div (int (length (search_filter ?s rs))) 10)]), d)"
    by (rule get_clients_ok[OF assms(1)]) (simp_all add: api_request_def assms(4,5) parse_int_one parse_int_ten)
  with assms(2,3) show ?thesis
    by (simp add: clients_GET_def require_auth_def api_request_token api_result_def json_response_def http_ok_def)
qed

lemma sample_server_clients:
  assumes "clients d = Some rs"
  shows "client_list_srv (sample_server d) (JStr ''tok'') s =
           Inr (JObj [(''clients'', JArr (map client_json (take 10 (search_filter s rs)))),
                      (''total'', JNum (int (length (search_filter s rs)))), (''page'', JNum 1),
                      (''limit'', JNum 10), (''totalPages'', js_ceil_div (int (length (search_filter s rs))) 10)])"
  using clients_GET_first_page[OF assms, of "''tok''" sample_lib "\<lambda>_. None" 0 _ "clients_query s" id]
  by (simp add: client_list_srv_def sample_server_def verify_token_def sample_lib_def clients_query_def
                search_get_def js_or_def)

section \<open>Properties\<close>

text \<open>C33: when the answers arrive in the order the requests were sent, a list with no
  request in flight shows the answer for its current key (search text, or client and
  refresh count): its items, or the error of that answer.\<close>

theorem list_in_order_settles:
  assumes "list_inv m srv st" and "list_all in_order evs" and "ls_pending (list_run m srv st evs) = []"
  shows "shows_answer m (srv (ls_key (list_run m srv st evs))) (list_run m srv st evs)"
  using list_run_inv[OF assms(1,2)] assms(3) by (simp add: list_inv_def)

text \<open>C34: when the answer to an earlier search arrives after the answer to the
  current one, the list settles on the earlier answer: the search box shows the new
  text and the cards are those of the old one.  While the earlier request is still in
  flight, the loading card is already gone.\<close>

theorem list_stale_answer:
  assumes "ls_pending st = []" and "k \<noteq> ls_key st" and "k' \<noteq> k"
    and "read_member (srv k) m = Inr v" and "read_member (srv k') m = Inr v'" and "v \<noteq> v'"
  shows "\<not> ls_loading (list_run m srv st [SetKey k, SetKey k', Resolve 1])
         \<and> ls_pending (list_run m srv st [SetKey k, SetKey k', Resolve 1]) = [k]
         \<and> ls_key (list_run m srv st [SetKey k, SetKey k', Resolve 1, Resolve 0]) = k'
         \<and> ls_pending (list_run m srv st [SetKey k, SetKey k', Resolve 1, Resolve 0]) = []
         \<and> ls_items (list_run m srv st [SetKey k, SetKey k', Resolve 1, Resolve 0]) = v
         \<and> \<not> shows_answer m (srv k') (list_run m srv st [SetKey k, SetKey k', Resolve 1, Resolve 0])"
  using assms
  by (simp add: list_run_def list_fetch_def list_answer_def remove_nth_def shows_answer_def)


text \<open>C35: every answer of \<open>GET /api/clients\<close> has the shape the client list reads:
  a 2xx answer is a page whose \<open>clients\<close> are objects with string \<open>id\<close>, \<open>name\<close>,
  \<open>email\<close> and \<open>created_at\<close> and a \<open>phone\<close> that is a string or \<open>null\<close>; any other
  answer carries an \<open>error\<close> string.  A client conforms to the component's
  \<open>Client\<close> interface, which declares \<open>phone: string\<close>, exactly when its phone is set.\<close>

theorem clients_GET_typed:
  "has_type (body (fst (clients_GET lib e now ord req c d)))
     (if http_ok (status (fst (clients_GET lib e now ord req c d))) then clients_page else error_body)
   \<and> (has_type (client_json r) client_list_client \<longleftrightarrow> cl_phone r \<noteq> None)"
  unfolding clients_GET_def
  by (rule conjI[OF require_auth_typed[where h = "get_clients ord", OF get_clients_typed] client_json_interface])

text \<open>C36: while every stored appointment has a status, an answer of \<open>GET
  /api/appointments\<close> keeps the appointment list's items an array of appointments with
  string \<open>status\<close>, and the list renders it without a \<open>TypeError\<close> (its
  \<open>getStatusColor\<close> calls \<open>status.toLowerCase()\<close>).\<close>

theorem appointment_list_typed:
  assumes "appointment_statuses d" and "\<forall>xs. set (ord xs) \<subseteq> set xs"
    and "member_type (ls_items st) (TArr appointment_answer)"
  shows "member_type (ls_items (list_answer ''appointments'' (api_result (fst (appointments_GET lib e now ord req c d))) st))
           (TArr appointment_answer)
         \<and> (\<exists>v. appointment_list_view ed
                  (list_answer ''appointments'' (api_result (fst (appointments_GET lib e now ord req c d))) st) = Inr v)"
proof -
  have "has_type (body (fst (appointments_GET lib e now ord req c d)))
          (if http_ok (status (fst (appointments_GET lib e now ord req c d)))
           then TObj [(''appointments'', TArr appointment_answer)] else error_body)"
    unfolding appointments_GET_def by (rule require_auth_typed[where h = "get_appointments ord now", OF get_appointments_typed[OF assms(1,2)]])
  from list_answer_typed[OF this assms(3)] show ?thesis
    using appointment_view_typed by simp
qed

theorem list_in_order_settles_witness:
  "list_inv ''clients'' (client_list_srv (sample_server two_clients_db) (JStr ''tok'')) client_list_initial
   \<and> list_all in_order [SetKey ''bo'', Resolve 0, Resolve 0]
   \<and> ls_pending (list_run ''clients'' (client_list_srv (sample_server two_clients_db) (JStr ''tok''))
                  client_list_initial [SetKey ''bo'', Resolve 0, Resolve 0]) = []
   \<and> shows_answer ''clients'' (client_list_srv (sample_server two_clients_db) (JStr ''tok'') ''bo'')
       (list_run ''clients'' (client_list_srv (sample_server two_clients_db) (JStr ''tok''))
          client_list_initial [SetKey ''bo'', Resolve 0, Resolve 0])"
proof -
  have p: "ls_pending (list_run ''clients'' (client_list_srv (sample_server two_clients_db) (JStr ''tok''))
             client_list_initial [SetKey ''bo'', Resolve 0, Resolve 0]) = []"
    by (simp add: list_run_def client_list_initial_def list_fetch_def remove_nth_def)
  have k: "ls_key (list_run ''clients'' (client_list_srv (sample_server two_clients_db) (JStr ''tok''))
             client_list_initial [SetKey ''bo'', Resolve 0, Resolve 0]) = ''bo''"
    by (simp add: list_run_def client_list_initial_def list_fetch_def remove_nth_def)
  show ?thesis
    using list_in_order_settles[OF client_list_initial_inv _ p] p k by (simp add: client_list_initial_inv)
qed

theorem list_stale_answer_witness:
  "ls_pending (client_list_initial\<lparr>ls_pending := []\<rparr>) = [] \<and> ''b'' \<noteq> ls_key (client_list_initial\<lparr>ls_pending := []\<rparr>) \<and> ''bo'' \<noteq> ''b''
   \<and> read_member (client_list_srv (sample_server two_clients_db) (JStr ''tok'') ''b'') ''clients''
       = Inr (Some (JArr [client_json (sample_client\<lparr>cl_name := ''Bob''\<rparr>),
                          client_json (sample_client\<lparr>cl_id := 1, cl_name := ''Abby'', cl_email := ''c@x''\<rparr>)]))
   \<and> read_member (client_list_srv (sample_server two_clients_db) (JStr ''tok'') ''bo'') ''clients''
       = Inr (Some (JArr [client_json (sample_client\<lparr>cl_name := ''Bob''\<rparr>)]))
   \<and> \<not> shows_answer ''clients'' (client_list_srv (sample_server two_clients_db) (JStr ''tok'') ''bo'')
       (list_run ''clients'' (client_list_srv (sample_server two_clients_db) (JStr ''tok''))
          (client_list_initial\<lparr>ls_pending := []\<rparr>) [SetKey ''b'', SetKey ''bo'', Resolve 1, Resolve 0])"
proof -
  have b: "read_member (client_list_srv (sample_server two_clients_db) (JStr ''tok'') ''b'') ''clients''
       = Inr (Some (JArr [client_json (sample_client\<lparr>cl_name := ''Bob''\<rparr>),
                          client_json (sample_client\<lparr>cl_id := 1, cl_name := ''Abby'', cl_email := ''c@x''\<rparr>)]))"
    by (simp add: sample_server_clients two_clients_db_def fresh_db_def read_member_def search_filter_def
                  client_matches_def ilike_def like_match.simps(2) ascii_lower_def sample_client_def)
  have bo: "read_member (client_list_srv (sample_server two_clients_db) (JStr ''tok'') ''bo'') ''clients''
       = Inr (Some (JArr [client_json (sample_client\<lparr>cl_name := ''Bob''\<rparr>)]))"
    by (simp add: sample_server_clients two_clients_db_def fresh_db_def read_member_def search_filter_def
                  client_matches_def ilike_def like_match.simps(2) ascii_lower_def sample_client_def)
  show ?thesis
    using list_stale_answer[where m = "''clients''" and srv = "client_list_srv (sample_server two_clients_db) (JStr ''tok'')"
            and st = "client_list_initial\<lparr>ls_pending := []\<rparr>" and k = "''b''" and k' = "''bo''", OF _ _ _ b bo] b bo
    by (simp add: client_list_initial_def list_fetch_def client_json_def)
qed

theorem appointment_list_typed_witness:
  "appointment_statuses sample_db \<and> (\<forall>xs::(appointment_row \<times> client_row) list. set (id xs) \<subseteq> set xs)
   \<and> member_type (ls_items (appointment_list_initial (None, 0))) (TArr appointment_answer)
   \<and> member_type (ls_items (list_answer ''appointments''
        (api_result (fst (appointments_GET sample_lib (\<lambda>_. None) 0 id
           (api_request (JStr ''tok'') [] (appointments_query None) None) () sample_db)))
        (appointment_list_initial (None, 0)))) (TArr appointment_answer)
   \<and> (\<exists>v. appointment_list_view True (list_answer ''appointments''
        (api_result (fst (appointments_GET sample_lib (\<lambda>_. None) 0 id
           (api_request (JStr ''tok'') [] (appointments_query None) None) () sample_db)))
        (appointment_list_initial (None, 0))) = Inr v)"
proof -
  have s: "appointment_statuses sample_db"
    by (simp add: appointment_statuses_def sample_defs fresh_db_def)
  have i: "member_type (ls_items (appointment_list_initial (None, 0))) (TArr appointment_answer)"
    by (simp add: appointment_list_initial_def)
  show ?thesis
    using appointment_list_typed[OF s _ i, where ord = id] s i by simp
qed

end
