(* ===== verification/Dashboard.thy ===== *)
theory Dashboard
  imports Views
begin

text \<open>
  The dashboard, \<^verbatim>\<open>src/components/dashboard.tsx\<close>, and the parts of the
  appointment form, \<^verbatim>\<open>src/components/appointment-form.tsx\<close>, that the other
  component theories leave out: its field edits, the browser's validation of its
  \<open>required\<close> and \<open>min\<close> attributes, and its render.  The dashboard fetches the
  clients once, on mount, and passes them to the form as the options of its client
  select; it chooses the content of the active tab and the props of the lists and of
  the form.  The render is modelled as the values and props each tab shows; the
  markup is not.
\<close>

section \<open>Definitions\<close>

subsection \<open>\<^verbatim>\<open>src/components/dashboard.tsx\<close>\<close>

text \<open>\<open>v?.k\<close>: \<open>undefined\<close> on \<open>null\<close> and \<open>undefined\<close>.\<close>

definition opt_member :: "json option \<Rightarrow> string \<Rightarrow> json option" where
  "opt_member v k = (case v of None \<Rightarrow> None | Some JNull \<Rightarrow> None | Some x \<Rightarrow> obj_member x k)"

text \<open>\<open>fetchClients\<close>: \<open>apiCall("/api/clients")\<close>, with no query; a failure, reading
  \<open>clients\<close> of a \<open>null\<close> body included, is only logged.\<close>

definition dash_clients_request :: "json \<Rightarrow> request" where
  "dash_clients_request tok = api_request tok [] [] None"

definition dash_fetched :: "api_error + json \<Rightarrow> dash_state \<Rightarrow> dash_state" where
  "dash_fetched r s = (case read_member r ''clients'' of Inr v \<Rightarrow> s\<lparr>d_clients := v\<rparr> | Inl _ \<Rightarrow> s)"

text \<open>\<open>onClientSelect={setSelectedClient}\<close>: the client list passes the clicked client.\<close>

definition select_client :: "json \<Rightarrow> dash_state \<Rightarrow> dash_state" where
  "select_client c s = s\<lparr>d_selected := Some c\<rparr>"

text \<open>The props of an \<open>AppointmentList\<close>: \<open>clientId\<close> and \<open>refreshTrigger\<close>
  (\<open>onEdit\<close> is always given by the dashboard).\<close>

type_synonym list_props = "json option \<times> nat"

record form_props =
  fp_clients :: "json option"
  fp_selected :: "json option"
  fp_editing :: "edit_appt option"
  fp_cancel :: bool

text \<open>The props of the \<open>AppointmentForm\<close> of the schedule tab: \<open>onCancel\<close> only while editing.\<close>

definition dash_form_props :: "dash_state \<Rightarrow> form_props" where
  "dash_form_props s =
     \<lparr>fp_clients = d_clients s, fp_selected = opt_member (d_selected s) ''id'',
      fp_editing = d_editing s, fp_cancel = (d_editing s \<noteq> None)\<rparr>"

datatype tab_view =
    OverviewTab "json option" "json option" list_props
  | ClientsTab "json option" "(json option \<times> json option \<times> json option \<times> list_props) option"
  | AppointmentsTab list_props
  | ScheduleTab form_props
  | NoTab

text \<open>
  The render: the greeting with \<open>admin?.name\<close>, and the content of the active tab
  (\<open>TabsContent\<close> renders only the active one).  The overview shows
  \<open>clients.length\<close> and the admin's name beside the upcoming appointments; the clients
  tab shows the client list with the selected client's id, and the selected
  client's details and appointments; the schedule tab shows the form.
\<close>

definition dash_view :: "json \<Rightarrow> dash_state \<Rightarrow> string + json option \<times> tab_view" where
  "dash_view admin s =
     (let name = opt_member (Some admin) ''name''; sel = d_selected s in
      if d_tab s = ''overview'' then
        (case js_length (d_clients s) of
           Inl e \<Rightarrow> Inl e
         | Inr n \<Rightarrow> Inr (name, OverviewTab n name (None, d_refresh s)))
      else if d_tab s = ''clients'' then
        (if field_truthy sel then
           (case js_get sel ''id'' of
              Inl e \<Rightarrow> Inl e
            | Inr i \<Rightarrow> Inr (name, ClientsTab (opt_member sel ''id'')
                           (Some (opt_member sel ''name'', opt_member sel ''email'', opt_member sel ''phone'',
                                  (i, d_refresh s)))))
         else Inr (name, ClientsTab (opt_member sel ''id'') None))
      else if d_tab s = ''appointments'' then Inr (name, AppointmentsTab (None, d_refresh s))
      else if d_tab s = ''schedule'' then Inr (name, ScheduleTab (dash_form_props s))
      else Inr (name, NoTab))"

subsection \<open>\<^verbatim>\<open>src/components/appointment-form.tsx\<close>: edits, validation, render\<close>

text \<open>The \<open>onChange\<close> and \<open>onValueChange\<close> handlers: \<open>setFormData({...formData, k: value})\<close>.\<close>

datatype form_input =
    SetClient string | SetTitle string | SetDescription string
  | SetDate "int option" | SetTime "int option" | SetDuration string

text \<open>The duration select offers these values, and no other reaches its handler;
  \<open>Number.parseInt\<close> reads each of them (\<open>duration_options_parse\<close>).\<close>

definition duration_options :: "(string \<times> string) list" where
  "duration_options =
     [(''30'', ''30 minutes''), (''45'', ''45 minutes''), (''60'', ''1 hour''), (''90'', ''1.5 hours''),
      (''120'', ''2 hours'')]"

fun form_edit :: "form_input \<Rightarrow> form_data \<Rightarrow> form_data" where
  "form_edit (SetClient v) f = f\<lparr>f_client := v\<rparr>"
| "form_edit (SetTitle v) f = f\<lparr>f_title := v\<rparr>"
| "form_edit (SetDescription v) f = f\<lparr>f_description := v\<rparr>"
| "form_edit (SetDate v) f = f\<lparr>f_date := v\<rparr>"
| "form_edit (SetTime v) f = f\<lparr>f_time := v\<rparr>"
| "form_edit (SetDuration v) f = (case parse_int v of Some n \<Rightarrow> f\<lparr>f_duration := n\<rparr> | None \<Rightarrow> f)"

text \<open>
  The browser submits the form only when the \<open>required\<close> title, date and time are
  filled and the date is not before \<open>min\<close>, today's date in UTC at time \<open>now\<close>.
  The client select is not a native control and is not checked.
\<close>

definition form_submittable :: "int \<Rightarrow> form_data \<Rightarrow> bool" where
  "form_submittable now f \<longleftrightarrow>
     f_title f \<noteq> [] \<and> f_time f \<noteq> None \<and> (case f_date f of None \<Rightarrow> False | Some d \<Rightarrow> utc_day now \<le> d)"

datatype form_screen =
  FormView (fv_heading: string) (fv_error: "string option") (fv_client: string) (fv_client_locked: bool)
    (fv_options: "(json option \<times> json option \<times> json option) list") (fv_duration: string)
    (fv_submit: string) (fv_cancel: bool)

text \<open>One option of the client select: the value \<open>client.id\<close>, and the name and email.\<close>

definition form_option :: "json \<Rightarrow> string + json option \<times> json option \<times> json option" where
  "form_option c =
     (if c = JNull then Inl ''TypeError''
      else Inr (obj_member c ''id'', obj_member c ''name'', obj_member c ''email''))"

definition form_view :: "form_props \<Rightarrow> form_state \<Rightarrow> string + form_screen" where
  "form_view p st =
     (let editing = (fp_editing p \<noteq> None) in
      case fp_clients p of
        Some (JArr cs) \<Rightarrow>
          (case js_map form_option cs of
             Inl e \<Rightarrow> Inl e
           | Inr os \<Rightarrow>
               Inr (FormView (if editing then ''Edit Appointment'' else ''Schedule New Appointment'')
                      (if fs_error st \<noteq> [] then Some (fs_error st) else None)
                      (f_client (fs_form st)) (field_truthy (fp_selected p)) os
                      (show_int (f_duration (fs_form st)))
                      (if fs_loading st then (if editing then ''Updating...'' else ''Scheduling...'')
                       else if editing then ''Update Appointment'' else ''Schedule Appointment'')
                      (editing \<or> fp_cancel p)))
      | _ \<Rightarrow> Inl ''TypeError'')"

section \<open>Lemmas\<close>

lemma submit_payload_fields:
  assumes "form_instant off f = Some t"
  shows "submit_payload off f =
           Inr (JObj [(''clientId'', JStr (f_client f)), (''title'', JStr (f_title f)),
                      (''description'', JStr (f_description f)), (''appointmentDate'', JStr (iso_string t)),
                      (''durationMinutes'', JNum (f_duration f))])"
  using assms by (simp add: submit_payload_def)

lemma duration_options_parse:
  "list_all (\<lambda>opt. \<exists>n. parse_int (fst opt) = Some n) duration_options"
  by (simp add: duration_options_def parse_int_def digit_value_def digits_value_def js_space_def)

lemma form_options_clients:
  "js_map form_option (map client_json rs) =
     Inr (map (\<lambda>r. (Some (JStr (uuid_text (cl_id r))), Some (JStr (cl_name r)), Some (JStr (cl_email r)))) rs)"
  by (induction rs) (simp_all add: form_option_def client_json_def obj_member_def)

lemma api_result_error_response:
  "msg \<noteq> [] \<Longrightarrow> api_result (error_response n msg) = (if http_ok n then Inr (JObj [(''error'', JStr msg)]) else Inl (ApiError msg))"
  by (simp add: api_result_def error_response_def)

lemma update_appointment_clients:
  assumes "appointments d = Some as"
  shows "\<exists>as'. appointments (snd (update_appointment req i d)) = Some as' \<and> map ap_client_id as' = map ap_client_id as"
proof -
  have "map ap_client_id (update_where P (coalesce_row t ds dt du st) as) = map ap_client_id as" for P t ds dt du st
    by (simp add: update_where_def)
  with assms show ?thesis
    by (auto simp: update_appointment_def Let_def split: option.splits sum.splits prod.splits list.splits)
qed

section \<open>Properties\<close>

text \<open>C37: the dashboard asks for the clients without a page size, so the schedule form's
  client select offers the first 10 clients of the route's order, whatever the
  store holds: a client beyond them can only be scheduled after selecting it in the
  clients tab.\<close>

theorem dashboard_client_options_bounded:
  assumes "clients d = Some rs" and "t \<noteq> []" and "verify_token lib e now t = Some pl"
  shows "\<exists>v. form_view (dash_form_props (dash_fetched
                (api_result (fst (clients_GET lib e now ord (dash_clients_request (JStr t)) () d))) s)) st = Inr v
             \<and> fv_options v = map (\<lambda>r. (Some (JStr (uuid_text (cl_id r))), Some (JStr (cl_name r)),
                                         Some (JStr (cl_email r)))) (take 10 (ord rs))
             \<and> length (fv_options v) \<le> 10"
proof -
  have "api_result (fst (clients_GET lib e now ord (dash_clients_request (JStr t)) () d)) =
          Inr (JObj [(''clients'', JArr (map client_json (take 10 (ord (search_filter [] rs))))),
                     (''total'', JNum (int (length (search_filter [] rs)))), (''page'', JNum 1),
                     (''limit'', JNum 10), (''totalPages'', js_ceil_div (int (length (search_filter [] rs))) 10)])"
    using clients_GET_first_page[OF assms, of "[]" ord] by (simp add: dash_clients_request_def search_get_def)
  then show ?thesis
    by (simp add: dash_fetched_def read_member_def search_filter_def dash_form_props_def form_view_def Let_def
                  form_options_clients)
qed

text \<open>C38: a new appointment submitted without choosing a client (the select is not
  validated by the browser) reaches \<open>POST /api/appointments\<close> with an empty
  \<open>clientId\<close>, which answers 400 and changes nothing; the form keeps its fields and
  shows the route's message.\<close>

theorem form_missing_client_rejected:
  assumes "f_client (fs_form st) = []" and "form_instant off (fs_form st) = Some t"
    and "tok \<noteq> []" and "verify_token lib e now tok = Some pl"
  shows "\<exists>p. submit_payload off (fs_form st) = Inr p
           \<and> appointments_POST lib e now (api_request (JStr tok) [] [] (json_parse (json_stringify p))) () d
               = (error_response 400 ''Client ID, title, and appointment date are required'', d)
           \<and> handle_submit sel off st (error_response 400 ''Client ID, title, and appointment date are required'')
               = (st\<lparr>fs_error := ''Client ID, title, and appointment date are required'', fs_loading := False\<rparr>, False)"
proof -
  let ?p = "JObj [(''clientId'', JStr []), (''title'', JStr (f_title (fs_form st))),
                  (''description'', JStr (f_description (fs_form st))), (''appointmentDate'', JStr (iso_string t)),
                  (''durationMinutes'', JNum (f_duration (fs_form st)))]"
  have p: "submit_payload off (fs_form st) = Inr ?p"
    using submit_payload_fields[OF assms(2)] assms(1) by simp
  have "appointments_POST lib e now (api_request (JStr tok) [] [] (json_parse (json_stringify ?p))) () d
        = (error_response 400 ''Client ID, title, and appointment date are required'', d)"
  proof -
    have tk: "get_token_from_request (api_request (JStr tok) [] [] (Some ?p)) = Some tok"
      using assms(3) by (rule api_request_token)
    have bd: "req_body ((api_request (JStr tok) [] [] (Some ?p))\<lparr>req_user := Some pl\<rparr>) = Some ?p"
      by (simp add: api_request_def)
    show ?thesis
      using assms(3,4) tk bd
      by (simp add: appointments_POST_def require_auth_def json_parse_stringify create_appointment_def
               del: json_stringify.simps)
  qed
  moreover have "handle_submit sel off st (error_response 400 ''Client ID, title, and appointment date are required'')
               = (st\<lparr>fs_error := ''Client ID, title, and appointment date are required'', fs_loading := False\<rparr>, False)"
    using p by (simp add: handle_submit_def api_result_error_response http_ok_def)
  ultimately show ?thesis using p by blast
qed

text \<open>C39: editing an appointment cannot move it to another client: the form sends the
  chosen \<open>clientId\<close> with the \<open>PUT\<close>, and the route ignores it, so every stored
  appointment keeps its client whatever the answer.\<close>

theorem edit_keeps_client:
  assumes "submit_payload off f = Inr p" and "appointments d = Some as"
  shows "obj_member p ''clientId'' = Some (JStr (f_client f))
         \<and> (\<exists>as'. appointments (snd (appointment_PUT lib e now
                     (api_request tok [] [] (json_parse (json_stringify p))) i d)) = Some as'
                  \<and> map ap_client_id as' = map ap_client_id as)"
proof -
  have "obj_member p ''clientId'' = Some (JStr (f_client f))"
    using assms(1) by (auto simp: submit_payload_def obj_member_def split: option.splits)
  moreover have "\<exists>as'. appointments (snd (appointment_PUT lib e now req i d)) = Some as'
                  \<and> map ap_client_id as' = map ap_client_id as" for req
    using assms(2) update_appointment_clients[OF assms(2)]
    by (simp add: appointment_PUT_def require_auth_def split: option.splits)
  ultimately show ?thesis by blast
qed

theorem dashboard_client_options_bounded_witness:
  "clients two_clients_db = Some [sample_client\<lparr>cl_name := ''Bob''\<rparr>,
                                  sample_client\<lparr>cl_id := 1, cl_name := ''Abby'', cl_email := ''c@x''\<rparr>]
   \<and> ''tok'' \<noteq> [] \<and> verify_token sample_lib (\<lambda>_. None) 0 ''tok'' = Some \<lparr>adminId = ''0'', pl_email = ''a@x''\<rparr>
   \<and> (\<exists>v. form_view (dash_form_props (dash_fetched
                (api_result (fst (clients_GET sample_lib (\<lambda>_. None) 0 id (dash_clients_request (JStr ''tok'')) () two_clients_db)))
                dash_initial)) \<lparr>fs_form = empty_form None, fs_error = [], fs_loading = False\<rparr> = Inr v
          \<and> fv_options v = map (\<lambda>r. (Some (JStr (uuid_text (cl_id r))), Some (JStr (cl_name r)), Some (JStr (cl_email r))))
                              (take 10 (id [sample_client\<lparr>cl_name := ''Bob''\<rparr>,
                                           sample_client\<lparr>cl_id := 1, cl_name := ''Abby'', cl_email := ''c@x''\<rparr>]))
          \<and> length (fv_options v) \<le> 10)"
proof -
  have c: "clients two_clients_db = Some [sample_client\<lparr>cl_name := ''Bob''\<rparr>,
                                  sample_client\<lparr>cl_id := 1, cl_name := ''Abby'', cl_email := ''c@x''\<rparr>]"
    by (simp add: two_clients_db_def fresh_db_def)
  have v: "verify_token sample_lib (\<lambda>_. None) 0 ''tok'' = Some \<lparr>adminId = ''0'', pl_email = ''a@x''\<rparr>"
    by (simp add: verify_token_def sample_lib_def)
  show ?thesis
    using dashboard_client_options_bounded[OF c _ v, where ord = id and s = dash_initial
            and st = "\<lparr>fs_form = empty_form None, fs_error = [], fs_loading = False\<rparr>"] c v by simp
qed

theorem form_missing_client_rejected_witness:
  "f_client (fs_form \<lparr>fs_form = (empty_form None)\<lparr>f_title := ''Yoga'', f_date := Some 20000, f_time := Some 600\<rparr>,
                      fs_error = [], fs_loading = True\<rparr>) = []
   \<and> form_instant 0 (fs_form \<lparr>fs_form = (empty_form None)\<lparr>f_title := ''Yoga'', f_date := Some 20000, f_time := Some 600\<rparr>,
                      fs_error = [], fs_loading = True\<rparr>) = Some (20000 * day_ms + 600 * minute_ms)
   \<and> ''tok'' \<noteq> [] \<and> verify_token sample_lib (\<lambda>_. None) 0 ''tok'' = Some \<lparr>adminId = ''0'', pl_email = ''a@x''\<rparr>
   \<and> (\<exists>p. submit_payload 0 (fs_form \<lparr>fs_form = (empty_form None)\<lparr>f_title := ''Yoga'', f_date := Some 20000, f_time := Some 600\<rparr>,
                      fs_error = [], fs_loading = True\<rparr>) = Inr p
          \<and> appointments_POST sample_lib (\<lambda>_. None) 0 (api_request (JStr ''tok'') [] [] (json_parse (json_stringify p))) () sample_db
              = (error_response 400 ''Client ID, title, and appointment date are required'', sample_db)
          \<and> handle_submit None 0 \<lparr>fs_form = (empty_form None)\<lparr>f_title := ''Yoga'', f_date := Some 20000, f_time := Some 600\<rparr>,
                      fs_error = [], fs_loading = True\<rparr> (error_response 400 ''Client ID, title, and appointment date are required'')
              = (\<lparr>fs_form = (empty_form None)\<lparr>f_title := ''Yoga'', f_date := Some 20000, f_time := Some 600\<rparr>,
                      fs_error = [], fs_loading = True\<rparr>\<lparr>fs_error := ''Client ID, title, and appointment date are required'', fs_loading := False\<rparr>, False))"
proof -
  have c: "f_client (fs_form \<lparr>fs_form = (empty_form None)\<lparr>f_title := ''Yoga'', f_date := Some 20000, f_time := Some 600\<rparr>,
                      fs_error = [], fs_loading = True\<rparr>) = []"
    by (simp add: empty_form_def)
  have i: "form_instant 0 (fs_form \<lparr>fs_form = (empty_form None)\<lparr>f_title := ''Yoga'', f_date := Some 20000, f_time := Some 600\<rparr>,
                      fs_error = [], fs_loading = True\<rparr>) = Some (20000 * day_ms + 600 * minute_ms)"
    by (simp add: form_instant_def local_instant_def)
  have v: "verify_token sample_lib (\<lambda>_. None) 0 ''tok'' = Some \<lparr>adminId = ''0'', pl_email = ''a@x''\<rparr>"
    by (simp add: verify_token_def sample_lib_def)
  show ?thesis
    using form_missing_client_rejected[OF c i _ v, where d = sample_db and sel = None] c i v by simp
qed

theorem edit_keeps_client_witness:
  "submit_payload 0 ((empty_form (Some ''0''))\<lparr>f_title := ''Yoga'', f_date := Some 20000, f_time := Some 600\<rparr>)
     = Inr (JObj [(''clientId'', JStr ''0''), (''title'', JStr ''Yoga''), (''description'', JStr []),
                  (''appointmentDate'', JStr (iso_string (20000 * day_ms + 600 * minute_ms))), (''durationMinutes'', JNum 60)])
   \<and> appointments sample_db = Some [sample_appointment]
   \<and> obj_member (JObj [(''clientId'', JStr ''0''), (''title'', JStr ''Yoga''), (''description'', JStr []),
                  (''appointmentDate'', JStr (iso_string (20000 * day_ms + 600 * minute_ms))), (''durationMinutes'', JNum 60)])
       ''clientId'' = Some (JStr (f_client ((empty_form (Some ''0''))\<lparr>f_title := ''Yoga'', f_date := Some 20000, f_time := Some 600\<rparr>)))
   \<and> (\<exists>as'. appointments (snd (appointment_PUT sample_lib (\<lambda>_. None) 0
              (api_request (JStr ''tok'') [] [] (json_parse (json_stringify
                 (JObj [(''clientId'', JStr ''0''), (''title'', JStr ''Yoga''), (''description'', JStr []),
                  (''appointmentDate'', JStr (iso_string (20000 * day_ms + 600 * minute_ms))), (''durationMinutes'', JNum 60)]))))
              ''1'' sample_db)) = Some as'
          \<and> map ap_client_id as' = map ap_client_id [sample_appointment])"
proof -
  have p: "submit_payload 0 ((empty_form (Some ''0''))\<lparr>f_title := ''Yoga'', f_date := Some 20000, f_time := Some 600\<rparr>)
     = Inr (JObj [(''clientId'', JStr ''0''), (''title'', JStr ''Yoga''), (''description'', JStr []),
                  (''appointmentDate'', JStr (iso_string (20000 * day_ms + 600 * minute_ms))), (''durationMinutes'', JNum 60)])"
    by (simp add: submit_payload_def form_instant_def local_instant_def empty_form_def js_or_def)
  have a: "appointments sample_db = Some [sample_appointment]"
    by (simp add: sample_db_def fresh_db_def)
  show ?thesis
    using edit_keeps_client[OF p a, where lib = sample_lib and e = "\<lambda>_. None" and now = 0
            and tok = "JStr ''tok''" and i = "''1''"] p a by simp
qed

end
