(* ===== verification/Interfaces.thy ===== *)
theory Interfaces
  imports Dashboard
begin

text \<open>
  The TypeScript interfaces of \<^verbatim>\<open>src/lib/mock-api.ts\<close> and
  \<^verbatim>\<open>src/hooks/use-auth.ts\<close> as \<open>JsonType\<close> types, and the values the code
  builds checked against them: the mock client's fallbacks, and the admin the login
  route sends, which the provider stores and restores.
\<close>

section \<open>Definitions\<close>

definition mock_client :: ty where
  "mock_client = TObj [(''id'', TStr), (''name'', TStr), (''email'', TStr), (''phone'', TStr)]"

definition mock_appointment_ty :: ty where
  "mock_appointment_ty =
     TObj [(''id'', TStr), (''clientId'', TStr), (''title'', TStr), (''description'', TStr),
           (''date'', TStr), (''duration'', TNum), (''status'', TStr)]"

definition admin_ty :: ty where
  "admin_ty = TObj [(''id'', TStr), (''email'', TStr), (''name'', TStr)]"

section \<open>Lemmas\<close>

lemma fallback_clients_typed: "has_type fallback_clients (TArr mock_client)"
  by (simp add: fallback_clients_def mock_client_def)

text \<open>The fallback of \<open>createAppointment\<close> is a \<open>MockAppointment\<close> when the route
  sends string fields and a numeric duration.\<close>

lemma mock_fallback_typed:
  assumes "\<not> (\<exists>st j. F ''POST'' (mock_base_url e @ ''/appointments'') (Some p) = HttpResponse st (Some j) \<and> http_ok st)"
    and "p = mock_sync_payload (Some (JStr ci)) (Some (JStr t)) (Some (JStr ds)) (Some (JStr dt)) (Some (JNum n))"
  shows "has_type (create_appointment_mock F e now p) mock_appointment_ty"
  using assms
  by (simp add: create_appointment_mock_def fetch_or_fail mock_appointment_def mock_sync_payload_def
                mock_appointment_ty_def)

lemma login_admin_typed: "has_type (the (obj_member (login_body tok a) ''admin'')) admin_ty"
  by (simp add: login_body_def obj_member_def admin_ty_def)

text \<open>The admin the provider keeps after a login answered by the login route, and
  after a reload, is an \<open>Admin\<close>.\<close>

lemma login_client_admin_typed:
  assumes "tok \<noteq> []" and "login_client (json_response (login_body tok a)) (st, ls) = Inr (st', ls')"
  shows "has_type (st_admin st') admin_ty
         \<and> restore_session True (initial_auth, ls') = (initial_auth\<lparr>st_token := JStr tok, st_admin := st_admin st', st_loading := False\<rparr>, ls')"
proof -
  let ?a = "JObj [(''id'', JStr (uuid_text (ad_id a))), (''email'', JStr (ad_email a)), (''name'', JStr (ad_name a))]"
  have "st' = st\<lparr>st_token := JStr tok, st_admin := ?a\<rparr>"
    and ls': "ls' = ls(''auth_token'' := Some tok, ''admin_data'' := Some (json_stringify ?a))"
    using assms(2) by (simp_all add: login_client_def json_response_def login_body_def http_ok_def
                                del: json_stringify.simps)
  moreover have "has_type ?a admin_ty" by (simp add: admin_ty_def)
  moreover have "restore_session True (initial_auth, ls') =
                   (initial_auth\<lparr>st_token := JStr tok, st_admin := ?a, st_loading := False\<rparr>, ls')"
    using assms(1) ls' by (simp add: restore_full del: json_stringify.simps)
  ultimately show ?thesis by simp
qed

end
