(* ===== verification/Spec2Isabelle.thy ===== *)
theory Spec2Isabelle
  imports Migration AppointmentsRoute Interfaces
begin

text \<open>
  \<^bold>\<open>A verification model of the wellness-platform repository.\<close>

  \<^bold>\<open>The program.\<close>  An admin dashboard (Next.js) over a PostgreSQL database with
  three tables, \<open>admins\<close>, \<open>clients\<close> and \<open>appointments\<close>.  The provisioning
  script \<^verbatim>\<open>src/scripts/migrate.js\<close> creates the schema and seeds an admin and three
  clients.  The route handlers under \<^verbatim>\<open>src/app/api\<close> serve the browser: login,
  the client list, and appointment create, list, update and delete, all but login
  behind \<open>requireAuth\<close> of \<^verbatim>\<open>src/lib/auth.ts\<close>; the routes also push to an external
  service through \<^verbatim>\<open>src/lib/mock-api.ts\<close>.  In the browser the \<open>AuthProvider\<close> of
  \<^verbatim>\<open>src/hooks/use-auth.ts\<close> keeps the session in \<open>localStorage\<close>, \<open>apiCall\<close> of
  \<^verbatim>\<open>src/hooks/use-api.ts\<close> sends the token with each request, the page
  \<^verbatim>\<open>src/app/page.tsx\<close> chooses login or dashboard, and the components under
  \<^verbatim>\<open>src/components\<close> (dashboard, client list, appointment list, appointment form)
  fetch, show and change the data.  The model composes them: the browser's requests
  are the requests the route handlers receive, the handlers' responses are what
  \<open>apiCall\<close> resolves to, and the components' states are built from those answers.

  \<^bold>\<open>Theories, in import order.\<close>
  \<^item> \<open>Prelude\<close>: \<open>x || d\<close> on optional strings, the values of a nullable column,
    \<open>UPDATE \<dots> WHERE\<close> over a list of rows.
  \<^item> \<open>Store\<close>: the tables as records in row order and the store \<open>db\<close>; the
    migration's SQL statements (\<open>stmt\<close>) with their PostgreSQL semantics
    (\<open>run_stmt\<close>, errors as \<open>sql_error + db\<close>); the invariant \<open>wf_db\<close> (keys, unique
    columns, the foreign key), kept by every statement.
  \<^item> \<open>Credentials\<close>: \<open>isBcryptHash\<close> and \<open>resolveAdminHash\<close>; \<open>bcrypt.hash\<close> is a
    parameter, its salt being random.
  \<^item> \<open>Adapter\<close>: the \<open>pg\<close> \<open>Client\<close> as one connection with a transaction state, the
    Neon HTTP dispatcher (every call its own transaction), the backend chosen from the
    URL's host; the sessions a \<open>pg\<close> connection reaches (\<open>pg_reach\<close>, inductive).
  \<^item> \<open>Migration\<close>: \<open>createSchema\<close>, \<open>dropSchema\<close>, the seeds and \<open>main\<close>
    (\<open>migrate_main\<close>: begin, steps, commit or rollback), the process
    (\<open>migrate_process\<close>: a missing \<open>DATABASE_URL\<close> or one whose host does not parse
    exits with status 1, as \<open>neon()\<close> throws at load) and its exit status, which
    depends on the connections left open (\<open>open_handles\<close>: the \<open>pg\<close> client is never
    closed, so a committed \<open>pg\<close> run keeps the process running), the loading of the
    environment from \<open>.env\<close> files (\<open>load_env\<close>) composed before the process
    (\<open>migrate_script\<close>), and the abstract specification \<open>run_intended\<close> (all or
    nothing).
  \<^item> \<open>Js\<close>: the JavaScript runtime the handlers use: \<open>trim\<close>, JSON values, truthiness,
    destructuring, \<open>parseInt\<close>, \<open>String(n)\<close>, \<open>JSON.stringify\<close>, \<open>URLSearchParams\<close>,
    responses.  \<open>Query\<close>: the \<open>node-postgres\<close> parameter texts and their input
    functions, \<open>LIMIT\<close>/\<open>OFFSET\<close>, \<open>ILIKE\<close>.
  \<^item> \<open>Auth\<close>: token helpers (\<open>jsonwebtoken\<close> and \<open>bcryptjs\<close> are parameters; the
    JWT library's contract \<open>jwt_contract\<close> says that a token it signs verifies, with
    the same secret, to its payload for 24 hours),
    \<open>getTokenFromRequest\<close>, \<open>requireAuth\<close> and the login route.
  \<^item> \<open>ClientsRoute\<close>, \<open>AppointmentsRoute\<close>: \<open>GET /api/clients\<close> (search,
    pagination) and the appointment handlers, each a function from the request and the
    store to the response and the new store; the executor's order of \<open>ORDER BY\<close> ties
    is a parameter (\<open>planner\<close>).
  \<^item> \<open>MockApi\<close>: the external client; \<open>fetch\<close> is a parameter.
  \<^item> \<open>JsonParse\<close>: \<open>JSON.parse\<close> as a recursive-descent parser with fuel.
  \<^item> \<open>Session\<close>: the \<open>AuthProvider\<close>, \<open>apiCall\<close> and the page; the browser as a
    record and its steps (mount effects, login, logout, reload) as an inductive
    relation with reachability; \<open>model_jwt\<close>, a JWT library meeting the contract,
    under which the login route's answers are the ones the session step accepts
    (\<open>login_post_answer_ok\<close>).
  \<^item> \<open>Components\<close>: the appointment form's prefill and submit, the lists' queries and
    delete, the dashboard's tab handlers.
  \<^item> \<open>JsonType\<close>: the components' TypeScript interfaces as structural types
    (\<open>has_type\<close>) and the reads the components make (\<open>v.k\<close>, \<open>v.length\<close>, \<open>===\<close>,
    \<open>map\<close>), a \<open>TypeError\<close> being a value \<open>Inl\<close>.
  \<^item> \<open>Views\<close>: the client and appointment lists: their fetches as one machine over the
    requests in flight (\<open>list_step\<close>, events \<open>SetKey\<close>, \<open>Refetch\<close>, \<open>Resolve i\<close>),
    and their renders; the shapes the routes send.
  \<^item> \<open>Dashboard\<close>: the dashboard's fetch, selection, tabs and props; the form's field
    edits, browser validation and render.
  \<^item> \<open>Interfaces\<close>: the interfaces of the mock client and of the auth hook, and the
    values the code builds checked against them.
  \<^item> this theory: the exit of the migration process without a database URL.

  \<^bold>\<open>What the lemmas show.\<close>  The migration's \<open>pg\<close> path refines the all-or-nothing
  specification whenever the swallowed \<open>CREATE EXTENSION\<close> succeeds and is all or
  nothing in every case; on the Neon path a failed run reports the error of the first
  failing statement with exactly the statements before it committed.  \<open>requireAuth\<close> runs a handler
  only for a verified token, and the login route rejects unknown emails and wrong
  passwords alike.  The client list's pages cover the search exactly once; the
  appointment list's SQL placeholders bind the intended filter (a refinement of the
  filter specification).  \<open>JSON.parse\<close> inverts \<open>JSON.stringify\<close>, so a page
  reload restores exactly the session in memory; whenever the dashboard shows, the
  token is sent and read back; with a JWT library that meets its contract, the token
  of a login is accepted by \<open>requireAuth\<close> for 24 hours, and every successful
  login answer is one the session accepts.  The
  routes' answers have the shapes the components read, and the appointment list renders
  them; answers taken in order leave each list showing the answer for its current key.
  Findings proved as theorems include: a stale answer overwrites a list's newer one;
  the form moves an edited appointment by the UTC/local day difference; the dashboard
  offers only 10 clients to the form; an edit cannot change the client; a form without
  a client is rejected only by the server; a token signed with the public fallback
  secret is accepted; \<open>limit=0\<close>, a bad \<open>page\<close> and unescaped search wildcards.

  \<^bold>\<open>Modelling choices, bounds and fuel.\<close>  \<open>gen_random_uuid()\<close> is a counter,
  \<open>NOW()\<close> a field of the store.  JavaScript numbers the code handles are \<open>int\<close>
  (exact); timestamps travel as their numeric text, dates of the form as day and
  minute numbers, the time zone as a fixed offset.  Strings are \<open>char list\<close>;
  \<open>trim\<close> and \<open>toLowerCase\<close> act on ASCII.  Every loop of the code is structural
  recursion except \<open>JSON.parse\<close>, whose fuel \<open>2 * length s + 1\<close> is proved enough:
  every call consumes a character or descends into a value at most once per character.
  A server answering the lists is a function of the request key: the store does not
  change while requests are in flight.

  \<^bold>\<open>Not modelled.\<close>  JSX markup, styling and the widgets' internals (renders are
  modelled as the values and props shown); daylight saving and the locale formatting of
  dates; the network and \<open>fetch\<close> itself (parameters); console output; a failure of the un-awaited \<open>client.connect()\<close>; the routes'
  fire-and-forget calls to the external service, which do not change their answers.
\<close>

section \<open>The process\<close>

text \<open>
  C9: without a \<open>DATABASE_URL\<close> (absent or empty) the script exits with status 1
  before any statement, and the store is untouched.
\<close>

theorem missing_database_url_exits:
  assumes "\<not> js_truthy (e ''DATABASE_URL'')"
  shows "migrate_process H e args d = (ExitCode 1, d)"
  using assms by (cases "e ''DATABASE_URL''") (auto simp: migrate_process_def)

theorem missing_database_url_exits_witness:
  "migrate_process (\<lambda>c p. p) (\<lambda>_. None) [''--reset''] fresh_db = (ExitCode 1, fresh_db)"
  using missing_database_url_exits [of "\<lambda>_. None"] by simp

end
